theory Spec2Isabelle
  imports Main "HOL-Library.Word"
begin

unbundle bit_operations_syntax

section \<open>Data model of the statement layer (dpiStmt.c)\<close>

text \<open>
  The statement layer sequences calls into collaborators whose code is not part of
  dpiStmt.c: the OCI call layer (dpiOci__*), the variable subsystem (dpiVar__*), the
  generic handle scaffold (dpiGen__*), the error helpers (dpiError__*) and the C
  allocator.  Every such call is an event: it is appended to a log together with the
  reply that the environment gave, and the environment is an arbitrary function of the
  history.  The statement structure itself, the bind registry, the fetch window and the
  thread error buffer are explicit state.

  What is taken for granted about the collaborators:
  \<^item> a call that succeeds leaves the error buffer alone, a call that fails writes the
    buffer of the error structure it was given;
  \<^item> the fields of a variable that dpiStmt.c reads are changed only by dpiStmt.c, by
    dpiVar__allocate and by dpiVar__convertToLob;
  \<^item> an output argument is written only when the call succeeds.

  The counts of the C structure (numBindVars, numQueryVars, numBatchErrors,
  maxArraySize) are natural numbers, values read from the protocol are reduced to the
  width of the C variable that receives them, and the fetch window is in machine words,
  since its arithmetic wraps.  free() is not an event.
\<close>

datatype dpiErrorNum =
    DPI_ERR_NO_ERR
  | DPI_ERR_NO_MEMORY
  | DPI_ERR_NOT_SUPPORTED
  | DPI_ERR_INVALID_ARGUMENT
  | DPI_ERR_NULL_POINTER_PARAMETER
  | DPI_ERR_STMT_CLOSED
  | DPI_ERR_NOT_CONNECTED
  | DPI_ERR_ARRAY_SIZE_TOO_SMALL
  | DPI_ERR_ARRAY_SIZE_TOO_BIG
  | DPI_ERR_INVALID_INDEX
  | DPI_ERR_CANNOT_GET_ROW_OFFSET
  | DPI_ERR_GET_FAILED
  | DPI_ERR_INVALID_HANDLE
  | DPI_ERR_SCROLL_OUT_OF_RS
  | DPI_ERR_QUERY_POSITION_INVALID
  | DPI_ERR_OTHER nat

text \<open>The fields of dpiErrorBuffer that dpiStmt.c reads or writes.\<close>

record dpiErrorBuffer =
  eb_code :: int
  eb_offset :: nat
  eb_errorNum :: dpiErrorNum
  eb_fnName :: string

text \<open>
  The fields of dpiVar (and of its dpiOracleType) that dpiStmt.c reads or writes.
  \<open>dataIsStmt j\<close> stands for the pointer comparison
  \<^verbatim>\<open>var->externalData[j].value.asStmt == stmt\<close>.
\<close>

record dpiVar =
  maxArraySize :: nat
  actualArraySize :: nat
  isDynamic :: bool
  objectIndicator :: bool
  requiresPreFetch :: bool
  varSizeInBytes :: nat
  hasError :: bool
  typeOracleTypeNum :: nat
  typeCharsetForm :: nat
  typeSizeInBytes :: nat
  typeRequiresPreFetch :: bool
  dataIsStmt :: "nat \<Rightarrow> bool"

record dpiBindVar =
  bv_var :: "nat option"
  bv_pos :: nat
  bv_name :: "string option"
  bv_nameLength :: nat

record dpiQueryInfo =
  qi_name :: nat
  qi_oracleTypeNum :: nat
  qi_defaultNativeTypeNum :: nat
  qi_dbSizeInBytes :: nat
  qi_clientSizeInBytes :: nat
  qi_sizeInChars :: nat
  qi_precision :: int
  qi_scale :: int
  qi_nullOk :: nat
  qi_objectType :: "nat option"

text \<open>The fields of dpiOracleType that dpiStmt__getQueryInfoFromParam reads.\<close>

record dpiOracleType =
  ot_oracleTypeNum :: nat
  ot_defaultNativeTypeNum :: nat
  ot_sizeInBytes :: nat
  ot_isCharacterData :: bool

datatype dpiFetchMode =
    DPI_MODE_FETCH_NEXT
  | DPI_MODE_FETCH_FIRST
  | DPI_MODE_FETCH_LAST
  | DPI_MODE_FETCH_PRIOR
  | DPI_MODE_FETCH_ABSOLUTE
  | DPI_MODE_FETCH_RELATIVE
  | DPI_MODE_FETCH_INVALID nat

text \<open>
  struct dpiStmt.  Pointers are addresses (\<open>None\<close> is NULL).  The fetch window uses
  the C widths: 32 bits for fetchArraySize, bufferRowCount and bufferRowIndex, 64 bits
  for rowCount and bufferMinRow.  The bind registry is the list of its first numBindVars
  slots, so numBindVars is its length; the array pointer bindVars is NULL exactly when
  allocatedBindVars is 0.
\<close>

record dpiStmt =
  conn :: "nat option"
  handle :: "nat option"
  isOwned :: bool
  fetchArraySize :: "32 word"
  bufferRowCount :: "32 word"
  bufferRowIndex :: "32 word"
  numQueryVars :: nat
  queryVars :: "nat option list option"
  queryInfo :: "dpiQueryInfo list option"
  allocatedBindVars :: nat
  bindVars :: "dpiBindVar list"
  numBatchErrors :: nat
  batchErrors :: "dpiErrorBuffer list option"
  rowCount :: "64 word"
  bufferMinRow :: "64 word"
  statementType :: nat
  hasRowsToFetch :: bool
  scrollable :: bool
  isReturning :: bool
  deleteFromCache :: bool

definition numBindVars :: "dpiStmt \<Rightarrow> nat" where
  "numBindVars s = length (bindVars s)"

datatype oci_attr =
    DPI_OCI_ATTR_PARAM_COUNT
  | DPI_OCI_ATTR_PREFETCH_ROWS
  | DPI_OCI_ATTR_PARSE_ERROR_OFFSET
  | DPI_OCI_ATTR_ROWS_FETCHED
  | DPI_OCI_ATTR_NUM_DML_ERRORS
  | DPI_OCI_ATTR_DML_ROW_OFFSET
  | DPI_OCI_ATTR_STMT_TYPE
  | DPI_OCI_ATTR_STMT_IS_RETURNING
  | DPI_OCI_ATTR_STATEMENT
  | DPI_OCI_ATTR_CURRENT_POSITION
  | DPI_OCI_ATTR_BIND_COUNT
  | DPI_OCI_ATTR_CHARSET_FORM
  | DPI_OCI_ATTR_MAXDATA_SIZE
  | DPI_OCI_ATTR_DATA_TYPE
  | DPI_OCI_ATTR_SCALE
  | DPI_OCI_ATTR_PRECISION
  | DPI_OCI_ATTR_NAME
  | DPI_OCI_ATTR_DATA_SIZE
  | DPI_OCI_ATTR_CHAR_SIZE
  | DPI_OCI_ATTR_IS_NULL

text \<open>The calls that leave dpiStmt.c, with the arguments that the statement layer chooses.\<close>

datatype ext_call =
    OciAttrGet oci_attr
  | OciAttrSet oci_attr nat
  | OciBindByPos nat bool nat
  | OciBindByPos2 nat bool nat
  | OciBindByName "string option" nat bool nat
  | OciBindByName2 "string option" nat bool nat
  | OciBindObject nat
  | OciBindDynamic nat
  | OciDefineByPos nat nat
  | OciDefineByPos2 nat nat
  | OciDefineObject nat
  | OciDefineDynamic nat
  | OciStmtExecute nat "32 word"
  | OciStmtFetch2 "32 word" dpiFetchMode "32 word"
  | OciStmtPrepare2 nat nat
  | OciStmtRelease bool bool
  | OciHandleAlloc
  | OciHandleFree
  | OciParamGet nat
  | OciDescriptorFree
  | VarSetValue nat nat
  | VarGetValue nat nat
  | VarConvertToLob nat
  | VarExtendedPreFetch nat
  | VarAllocate nat nat "32 word" nat "nat option"
  | OracleTypeGetFromQueryInfo nat nat
  | ObjectTypeAllocate
  | ErrorCheck
  | GenStartPublicFn
  | GenCheckHandle nat
  | GenSetRefCount nat int
  | ConnDecrementOpenChildCount
  | Calloc nat
  | Malloc nat

text \<open>
  A reply is a success carrying a number (an attribute value, a handle, an address), a
  success that also hands back the contents of a variable (dpiVar__allocate creates
  one, dpiVar__convertToLob rewrites one), a success that hands back an Oracle type
  descriptor, or a failure carrying what the callee wrote into the error buffer it was
  given.
\<close>

datatype reply =
    Ok nat
  | OkVar nat dpiVar
  | OkType dpiOracleType
  | Fail dpiErrorBuffer

record machine =
  stmt :: dpiStmt
  vars :: "nat \<Rightarrow> dpiVar"
  refCount :: "nat \<Rightarrow> int"
  errbuf :: dpiErrorBuffer
  versionNum :: nat
  conn_handle :: "nat option"
  conn_closing :: bool
  conn_charsetId :: nat
  env_charsetId :: nat
  env_maxBytesPerCharacter :: nat
  env_nmaxBytesPerCharacter :: nat
  crashed :: bool
  log :: "(ext_call \<times> reply) list"
  env :: "(ext_call \<times> reply) list \<Rightarrow> ext_call \<Rightarrow> reply"

type_synonym 'a act = "machine \<Rightarrow> 'a option \<times> machine"

subsection \<open>Sequencing\<close>

text \<open>
  A C function that returns DPI_SUCCESS or DPI_FAILURE is an action whose result is
  \<open>Some\<close> on success and \<open>None\<close> on failure; \<open>bindS\<close> is the idiom
  \<^verbatim>\<open>if (f(...) < 0) return DPI_FAILURE;\<close>.  \<open>getS\<close> reads the state, \<open>modify\<close> and
  \<open>modifyVar\<close> write it, \<open>ignoreS\<close> runs a call whose status the C code ignores,
  \<open>catchS\<close> runs one whose status is kept in a local variable, \<open>failS\<close> is
  \<^verbatim>\<open>return DPI_FAILURE;\<close>.
\<close>

definition ret :: "'a \<Rightarrow> 'a act" where
  "ret x m = (Some x, m)"

definition bindS :: "'a act \<Rightarrow> ('a \<Rightarrow> 'b act) \<Rightarrow> 'b act" where
  "bindS f g m = (case f m of (None, m') \<Rightarrow> (None, m') | (Some x, m') \<Rightarrow> g x m')"

definition getS :: "(machine \<Rightarrow> 'a) \<Rightarrow> 'a act" where
  "getS f m = (Some (f m), m)"

definition ignoreS :: "'a act \<Rightarrow> unit act" where
  "ignoreS f m = (Some (), snd (f m))"

definition upd_stmt :: "(dpiStmt \<Rightarrow> dpiStmt) \<Rightarrow> machine \<Rightarrow> machine" where
  "upd_stmt f m = m\<lparr>stmt := f (stmt m)\<rparr>"

definition modify :: "(dpiStmt \<Rightarrow> dpiStmt) \<Rightarrow> unit act" where
  "modify f m = (Some (), upd_stmt f m)"

definition upd_var :: "nat \<Rightarrow> (dpiVar \<Rightarrow> dpiVar) \<Rightarrow> machine \<Rightarrow> machine" where
  "upd_var v f m = m\<lparr>vars := (vars m)(v := f (vars m v))\<rparr>"

definition modifyVar :: "nat \<Rightarrow> (dpiVar \<Rightarrow> dpiVar) \<Rightarrow> unit act" where
  "modifyVar v f m = (Some (), upd_var v f m)"

definition whenS :: "bool \<Rightarrow> unit act \<Rightarrow> unit act" where
  "whenS b f = (if b then f else ret ())"

subsection \<open>Calls into the collaborators\<close>

definition ext :: "ext_call \<Rightarrow> machine \<Rightarrow> reply \<times> machine" where
  "ext c m = (let r = env m (log m) c in (r, m\<lparr>log := log m @ [(c, r)]\<rparr>))"

text \<open>
  A call that reports failure through the thread error buffer.  \<open>call\<close> returns the
  number of the reply (0 when the reply carries none); \<open>callV\<close> is for the two calls
  that create or rewrite a variable and stores what they hand back.
\<close>

definition reply_value :: "reply \<Rightarrow> nat" where
  "reply_value r = (case r of Ok v \<Rightarrow> v | OkVar a v \<Rightarrow> a | _ \<Rightarrow> 0)"

definition call :: "ext_call \<Rightarrow> nat act" where
  "call c m =
     (case ext c m of
        (Fail b, m') \<Rightarrow> (None, m'\<lparr>errbuf := b\<rparr>)
      | (r, m') \<Rightarrow> (Some (reply_value r), m'))"

definition callV :: "ext_call \<Rightarrow> nat act" where
  "callV c m =
     (case ext c m of
        (Fail b, m') \<Rightarrow> (None, m'\<lparr>errbuf := b\<rparr>)
      | (OkVar a v, m') \<Rightarrow> (Some a, m'\<lparr>vars := (vars m')(a := v)\<rparr>)
      | (r, m') \<Rightarrow> (Some (reply_value r), m'))"

text \<open>
  A point where the C code dereferences a NULL pointer or indexes past an array: the
  behaviour is undefined, the model stops with \<open>crashed\<close> set.
\<close>

definition ub :: "'a act" where
  "ub m = (None, m\<lparr>crashed := True\<rparr>)"

definition failS :: "'a act" where
  "failS m = (None, m)"

definition catchS :: "'a act \<Rightarrow> 'a option act" where
  "catchS f m = (Some (fst (f m)), snd (f m))"

text \<open>A C for loop over the indices given, left by the first failing body.\<close>

fun forS :: "nat list \<Rightarrow> (nat \<Rightarrow> unit act) \<Rightarrow> unit act" where
  "forS [] body = ret ()"
| "forS (i # rest) body = bindS (body i) (\<lambda>_. forS rest body)"

definition callU :: "ext_call \<Rightarrow> unit act" where
  "callU c = bindS (call c) (\<lambda>_. ret ())"

text \<open>
  Modelled from the spec: dpiError__set (dpiError.c is not part of the sources) records
  the error number in the error buffer and returns DPI_FAILURE.
\<close>

definition dpiError__set :: "dpiErrorNum \<Rightarrow> 'a act" where
  "dpiError__set e m = (None, m\<lparr>errbuf := (errbuf m)\<lparr>eb_errorNum := e\<rparr>\<rparr>)"

text \<open>calloc and malloc: the result says whether the pointer returned is not NULL.\<close>

definition allocS :: "ext_call \<Rightarrow> bool act" where
  "allocS c m = (case ext c m of (Ok a, m') \<Rightarrow> (Some True, m') | (_, m') \<Rightarrow> (Some False, m'))"

text \<open>
  Modelled from the spec: dpiGen__setRefCount (dpiGen.c is not part of the sources) is
  the shared-ownership counter of the handle scaffold: it adds the increment to the
  reference count of the handle and succeeds.
\<close>

definition dpiGen__setRefCount :: "nat \<Rightarrow> int \<Rightarrow> unit act" where
  "dpiGen__setRefCount p incr m =
     (let m' = snd (ext (GenSetRefCount p incr) m)
      in (Some (), m'\<lparr>refCount := (refCount m')(p := refCount m' p + incr)\<rparr>))"

section \<open>Bind registry\<close>

text \<open>
  strncmp over the first \<open>n\<close> bytes: \<open>True\<close> when the strings differ.  The comparison
  stops at a NUL byte.  Reading past the end of a buffer or through a NULL pointer is
  undefined in C; here it counts as a difference.
\<close>

fun strncmp_differs :: "string \<Rightarrow> string \<Rightarrow> nat \<Rightarrow> bool" where
  "strncmp_differs a b 0 = False"
| "strncmp_differs (x # xs) (y # ys) (Suc n) =
     (if x \<noteq> y then True else if x = CHR 0x00 then False else strncmp_differs xs ys n)"
| "strncmp_differs a b (Suc n) = True"

definition strncmp_ne :: "string option \<Rightarrow> string option \<Rightarrow> nat \<Rightarrow> bool" where
  "strncmp_ne a b n =
     (case (a, b) of (Some x, Some y) \<Rightarrow> strncmp_differs x y n | _ \<Rightarrow> n \<noteq> 0)"

text \<open>The test of the lookup loop of dpiStmt__bind for one entry.\<close>

definition entry_matches :: "dpiBindVar \<Rightarrow> nat \<Rightarrow> string option \<Rightarrow> nat \<Rightarrow> bool" where
  "entry_matches entry p nm len =
     (bv_pos entry = p \<and> bv_nameLength entry = len \<and>
      \<not> (len > 0 \<and> strncmp_ne (bv_name entry) nm len))"

text \<open>The lookup loop: the index of the first matching entry.\<close>

fun find_entry :: "dpiBindVar list \<Rightarrow> nat \<Rightarrow> string option \<Rightarrow> nat \<Rightarrow> nat option" where
  "find_entry [] p nm len = None"
| "find_entry (entry # es) p nm len =
     (if entry_matches entry p nm len then Some 0
      else map_option Suc (find_entry es p nm len))"

definition set_entry_var :: "nat \<Rightarrow> nat option \<Rightarrow> dpiStmt \<Rightarrow> dpiStmt" where
  "set_entry_var i v s = s\<lparr>bindVars := (bindVars s)[i := (bindVars s ! i)\<lparr>bv_var := v\<rparr>]\<rparr>"

text \<open>
  Constants of the absent headers: the statement types (1 is a query; 8, 9 and 10 are
  BEGIN, DECLARE and CALL) and the implicit character set form.
\<close>

definition DPI_STMT_TYPE_SELECT :: nat where
  "DPI_STMT_TYPE_SELECT = 1"

definition is_plsql :: "nat \<Rightarrow> bool" where
  "is_plsql t = (t = 8 \<or> t = 9 \<or> t = 10)"

definition DPI_SQLCS_IMPLICIT :: nat where
  "DPI_SQLCS_IMPLICIT = 1"

text \<open>dpiStmt__bind, the protocol bind call: by position or by name, in the ABI of the client.\<close>

definition dpiStmt__bind_oci :: "nat \<Rightarrow> bool \<Rightarrow> nat \<Rightarrow> string option \<Rightarrow> nat \<Rightarrow> nat act" where
  "dpiStmt__bind_oci v dynamicBind p nm len =
     bindS (getS versionNum) (\<lambda>ver.
       if p > 0 then
         (if ver < 12 then call (OciBindByPos p dynamicBind v)
          else call (OciBindByPos2 p dynamicBind v))
       else
         (if ver < 12 then call (OciBindByName nm len dynamicBind v)
          else call (OciBindByName2 nm len dynamicBind v)))"

text \<open>dpiStmt__bind after the protocol bind call: attributes, object and dynamic binds.\<close>

definition dpiStmt__bind_attrs :: "nat \<Rightarrow> bool \<Rightarrow> unit act" where
  "dpiStmt__bind_attrs v dynamicBind =
     bindS (getS (\<lambda>m. vars m v)) (\<lambda>var.
     bindS (whenS (typeCharsetForm var \<noteq> DPI_SQLCS_IMPLICIT)
              (callU (OciAttrSet DPI_OCI_ATTR_CHARSET_FORM (typeCharsetForm var)))) (\<lambda>_.
     bindS (whenS (typeSizeInBytes var = 0 \<and> \<not> isDynamic var)
              (callU (OciAttrSet DPI_OCI_ATTR_MAXDATA_SIZE (varSizeInBytes var)))) (\<lambda>_.
     bindS (whenS (objectIndicator var) (callU (OciBindObject v))) (\<lambda>_.
     whenS dynamicBind
       (bindS (getS (\<lambda>m. isReturning (stmt m))) (\<lambda>returning.
        bindS (whenS returning (modifyVar v (\<lambda>x. x\<lparr>actualArraySize := 0\<rparr>))) (\<lambda>_.
        callU (OciBindDynamic v))))))))"

text \<open>
  dpiStmt__bind, from "for PL/SQL where the maxSize is greater than 32K" to the end:
  the part that runs once \<open>entry\<close> (slot \<open>i\<close> of the registry) is known.
\<close>

definition dpiStmt__bind_perform ::
  "nat \<Rightarrow> nat \<Rightarrow> bool \<Rightarrow> nat \<Rightarrow> string option \<Rightarrow> nat \<Rightarrow> unit act" where
  "dpiStmt__bind_perform i v addReference p nm len =
     bindS (getS (\<lambda>m. isDynamic (vars m v) \<and> is_plsql (statementType (stmt m)))) (\<lambda>toLob.
     bindS (whenS toLob (bindS (callV (VarConvertToLob v)) (\<lambda>_. ret ()))) (\<lambda>_.
     bindS (whenS addReference (dpiGen__setRefCount v 1)) (\<lambda>_.
     bindS (modify (set_entry_var i (Some v))) (\<lambda>_.
     bindS (getS (\<lambda>m. isReturning (stmt m) \<or> isDynamic (vars m v))) (\<lambda>dynamicBind.
     bindS (dpiStmt__bind_oci v dynamicBind p nm len) (\<lambda>bindHandle.
     dpiStmt__bind_attrs v dynamicBind))))))"

text \<open>dpiStmt__bind, the branch "if not found, add to the list of bind variables".\<close>

definition dpiStmt__bind_add :: "nat \<Rightarrow> string option \<Rightarrow> nat \<Rightarrow> nat act" where
  "dpiStmt__bind_add p nm len =
     bindS (getS (\<lambda>m. (numBindVars (stmt m), allocatedBindVars (stmt m)))) (\<lambda>(n, allocated).
     bindS (whenS (n = allocated)
              (bindS (allocS (Calloc (allocated + 8))) (\<lambda>ok.
               if \<not> ok then dpiError__set DPI_ERR_NO_MEMORY
               else modify (\<lambda>s. s\<lparr>allocatedBindVars := allocatedBindVars s + 8\<rparr>)))) (\<lambda>_.
     bindS (case nm of
              None \<Rightarrow> ret \<lparr>bv_var = None, bv_pos = p, bv_name = None, bv_nameLength = 0\<rparr>
            | Some bytes \<Rightarrow>
                bindS (allocS (Malloc len)) (\<lambda>ok.
                if \<not> ok then dpiError__set DPI_ERR_NO_MEMORY
                else ret \<lparr>bv_var = None, bv_pos = p, bv_name = Some (take len bytes),
                          bv_nameLength = len\<rparr>)) (\<lambda>entry.
     bindS (modify (\<lambda>s. s\<lparr>bindVars := bindVars s @ [entry]\<rparr>)) (\<lambda>_.
     ret n))))"

text \<open>dpiStmt__bind, the branch "if already found, use that entry", after the identity test.\<close>

definition dpiStmt__bind_release :: "nat \<Rightarrow> unit act" where
  "dpiStmt__bind_release i =
     bindS (getS (\<lambda>m. bv_var (bindVars (stmt m) ! i))) (\<lambda>bound.
       case bound of
         Some old \<Rightarrow>
           bindS (dpiGen__setRefCount old (- 1)) (\<lambda>_. modify (set_entry_var i None))
       | None \<Rightarrow> ret ())"

text \<open>dpiStmt__bind (dpiStmt.c, lines 61-200).\<close>

definition dpiStmt__bind ::
  "nat \<Rightarrow> bool \<Rightarrow> nat \<Rightarrow> string option \<Rightarrow> nat \<Rightarrow> unit act" where
  "dpiStmt__bind v addReference p nm len =
     (if p = 0 \<and> len = 0 then dpiError__set DPI_ERR_NOT_SUPPORTED
      else
        bindS (getS (\<lambda>m. bindVars (stmt m))) (\<lambda>entries.
          case find_entry entries p nm len of
            Some i \<Rightarrow>
              (if bv_var (entries ! i) = Some v then ret ()
               else bindS (dpiStmt__bind_release i)
                      (\<lambda>_. dpiStmt__bind_perform i v addReference p nm len))
          | None \<Rightarrow>
              bindS (dpiStmt__bind_add p nm len)
                (\<lambda>i. dpiStmt__bind_perform i v addReference p nm len)))"

section \<open>Open check and lazy initialisation\<close>

text \<open>dpiStmt__init (lines 841-860).\<close>

definition dpiStmt__init :: "unit act" where
  "dpiStmt__init =
     bindS (call (OciAttrGet DPI_OCI_ATTR_STMT_TYPE)) (\<lambda>t.
     bindS (modify (\<lambda>s. s\<lparr>statementType := t mod 2 ^ 16\<rparr>)) (\<lambda>_.
       if t mod 2 ^ 16 = DPI_STMT_TYPE_SELECT
       then modify (\<lambda>s. s\<lparr>hasRowsToFetch := True\<rparr>)
       else bindS (call (OciAttrGet DPI_OCI_ATTR_STMT_IS_RETURNING))
              (\<lambda>r. modify (\<lambda>s. s\<lparr>isReturning := (r \<noteq> 0)\<rparr>))))"

text \<open>dpiStmt__checkOpen (lines 207-219).\<close>

definition dpiStmt__checkOpen :: "unit act" where
  "dpiStmt__checkOpen =
     bindS (call GenStartPublicFn) (\<lambda>_.
     bindS (getS (\<lambda>m. (handle (stmt m), conn_handle m, conn_closing m, statementType (stmt m))))
       (\<lambda>(h, ch, closing, t).
         if h = None then dpiError__set DPI_ERR_STMT_CLOSED
         else if ch = None \<or> closing then dpiError__set DPI_ERR_NOT_CONNECTED
         else if t = 0 then dpiStmt__init
         else ret ()))"

text \<open>
  Modelled from the spec: DPI_CHECK_PTR_NOT_NULL (dpiImpl.h is not part of the sources)
  rejects a NULL pointer argument; \<open>ok\<close> says that the pointer is not NULL.
\<close>

definition DPI_CHECK_PTR_NOT_NULL :: "bool \<Rightarrow> unit act" where
  "DPI_CHECK_PTR_NOT_NULL ok =
     (if ok then ret () else dpiError__set DPI_ERR_NULL_POINTER_PARAMETER)"

text \<open>dpiStmt_bindByName (lines 1019-1030) and dpiStmt_bindByPos (lines 1037-1046).\<close>

definition dpiStmt_bindByName :: "string option \<Rightarrow> nat \<Rightarrow> nat \<Rightarrow> unit act" where
  "dpiStmt_bindByName nm len v =
     bindS dpiStmt__checkOpen (\<lambda>_.
     bindS (DPI_CHECK_PTR_NOT_NULL (nm \<noteq> None)) (\<lambda>_.
     bindS (call (GenCheckHandle v)) (\<lambda>_.
     dpiStmt__bind v True 0 nm len)))"

definition dpiStmt_bindByPos :: "nat \<Rightarrow> nat \<Rightarrow> unit act" where
  "dpiStmt_bindByPos p v =
     bindS dpiStmt__checkOpen (\<lambda>_.
     bindS (call (GenCheckHandle v)) (\<lambda>_.
     dpiStmt__bind v True p None 0))"

text \<open>
  dpiStmt_getBindCount (lines 1347-1356); the result is the value written to the
  uint32_t \<open>*count\<close>.
\<close>

definition dpiStmt_getBindCount :: "bool \<Rightarrow> nat act" where
  "dpiStmt_getBindCount count_ok =
     bindS dpiStmt__checkOpen (\<lambda>_.
     bindS (DPI_CHECK_PTR_NOT_NULL count_ok) (\<lambda>_.
     bindS (call (OciAttrGet DPI_OCI_ATTR_BIND_COUNT)) (\<lambda>n.
     ret (n mod 2 ^ 32))))"


section \<open>Clearing and closing\<close>

text \<open>dpiStmt__clearBatchErrors (lines 226-233).\<close>

definition dpiStmt__clearBatchErrors :: "unit act" where
  "dpiStmt__clearBatchErrors = modify (\<lambda>s. s\<lparr>batchErrors := None, numBatchErrors := 0\<rparr>)"

text \<open>
  dpiStmt__clearBindVars (lines 240-255).  The loop hands every entry's variable to
  dpiGen__setRefCount, which dereferences it.
\<close>

definition dpiStmt__clearBindVars :: "unit act" where
  "dpiStmt__clearBindVars =
     bindS (getS (\<lambda>m. (allocatedBindVars (stmt m), bindVars (stmt m)))) (\<lambda>(allocated, entries).
     bindS (whenS (allocated \<noteq> 0)
              (forS [0..<length entries] (\<lambda>i.
                 case bv_var (entries ! i) of
                   Some v \<Rightarrow> dpiGen__setRefCount v (- 1)
                 | None \<Rightarrow> ub))) (\<lambda>_.
     modify (\<lambda>s. s\<lparr>bindVars := [], allocatedBindVars := 0\<rparr>)))"

text \<open>Reading slot \<open>i\<close> of a C array that may be NULL or too short.\<close>

definition nthS :: "'a list option \<Rightarrow> nat \<Rightarrow> 'a act" where
  "nthS arr i =
     (case arr of
        Some xs \<Rightarrow> if i < length xs then ret (xs ! i) else ub
      | None \<Rightarrow> ub)"

text \<open>dpiStmt__clearQueryVars (lines 262-285).\<close>

definition dpiStmt__clearQueryVars_slot :: "nat \<Rightarrow> unit act" where
  "dpiStmt__clearQueryVars_slot i =
     bindS (getS (\<lambda>m. queryVars (stmt m))) (\<lambda>qv.
     bindS (nthS qv i) (\<lambda>slot.
     bindS (case slot of
              Some v \<Rightarrow>
                bindS (dpiGen__setRefCount v (- 1)) (\<lambda>_.
                modify (\<lambda>s. s\<lparr>queryVars := map_option (\<lambda>xs. xs[i := None]) (queryVars s)\<rparr>))
            | None \<Rightarrow> ret ()) (\<lambda>_.
     bindS (getS (\<lambda>m. queryInfo (stmt m))) (\<lambda>qi.
     bindS (nthS qi i) (\<lambda>info.
       case qi_objectType info of
         Some t \<Rightarrow>
           bindS (dpiGen__setRefCount t (- 1)) (\<lambda>_.
           modify (\<lambda>s. s\<lparr>queryInfo :=
             map_option (\<lambda>xs. xs[i := (xs ! i)\<lparr>qi_objectType := None\<rparr>]) (queryInfo s)\<rparr>))
       | None \<Rightarrow> ret ())))))"

definition dpiStmt__clearQueryVars :: "unit act" where
  "dpiStmt__clearQueryVars =
     bindS (getS (\<lambda>m. (queryVars (stmt m), numQueryVars (stmt m)))) (\<lambda>(qv, n).
     bindS (whenS (qv \<noteq> None)
              (bindS (forS [0..<n] dpiStmt__clearQueryVars_slot) (\<lambda>_.
               modify (\<lambda>s. s\<lparr>queryVars := None\<rparr>)))) (\<lambda>_.
     modify (\<lambda>s. s\<lparr>queryInfo := None, numQueryVars := 0\<rparr>)))"

text \<open>dpiStmt__close (lines 295-316).\<close>

definition dpiStmt__close :: "bool \<Rightarrow> unit act" where
  "dpiStmt__close propagateErrors =
     bindS dpiStmt__clearBatchErrors (\<lambda>_.
     bindS dpiStmt__clearBindVars (\<lambda>_.
     bindS dpiStmt__clearQueryVars (\<lambda>_.
     bindS (getS (\<lambda>m. (handle (stmt m), isOwned (stmt m), deleteFromCache (stmt m))))
       (\<lambda>(h, owned, del).
     bindS (whenS (h \<noteq> None)
              (bindS (if owned then ignoreS (call OciHandleFree)
                      else callU (OciStmtRelease del propagateErrors)) (\<lambda>_.
               bindS (modify (\<lambda>s. s\<lparr>handle := None\<rparr>)) (\<lambda>_.
               ignoreS (call ConnDecrementOpenChildCount))))) (\<lambda>_.
     bindS (getS (\<lambda>m. conn (stmt m))) (\<lambda>c.
       case c of
         Some cn \<Rightarrow>
           bindS (dpiGen__setRefCount cn (- 1)) (\<lambda>_. modify (\<lambda>s. s\<lparr>conn := None\<rparr>))
       | None \<Rightarrow> ret ()))))))"

text \<open>
  Modelled from the spec: DPI_CHECK_PTR_AND_LENGTH (dpiImpl.h is not part of the
  sources) rejects a NULL pointer given together with a length other than 0.
\<close>

definition DPI_CHECK_PTR_AND_LENGTH :: "bool \<Rightarrow> nat \<Rightarrow> unit act" where
  "DPI_CHECK_PTR_AND_LENGTH ptr_ok len =
     (if \<not> ptr_ok \<and> len \<noteq> 0 then dpiError__set DPI_ERR_NULL_POINTER_PARAMETER else ret ())"

text \<open>dpiStmt_close (lines 1095-1103).\<close>

definition dpiStmt_close :: "bool \<Rightarrow> nat \<Rightarrow> unit act" where
  "dpiStmt_close tag_ok tagLength =
     bindS dpiStmt__checkOpen (\<lambda>_.
     bindS (DPI_CHECK_PTR_AND_LENGTH tag_ok tagLength) (\<lambda>_.
     dpiStmt__close True))"


section \<open>Query metadata\<close>

text \<open>Constants of the absent headers that the describe step compares against.\<close>

definition DPI_ORACLE_TYPE_ROWID :: nat where "DPI_ORACLE_TYPE_ROWID = 2005"
definition DPI_ORACLE_TYPE_NUMBER :: nat where "DPI_ORACLE_TYPE_NUMBER = 2010"
definition DPI_ORACLE_TYPE_STMT :: nat where "DPI_ORACLE_TYPE_STMT = 2021"
definition DPI_NATIVE_TYPE_INT64 :: nat where "DPI_NATIVE_TYPE_INT64 = 3000"
definition DPI_MAX_INT64_PRECISION :: int where "DPI_MAX_INT64_PRECISION = 18"
definition DPI_SQLCS_NCHAR :: nat where "DPI_SQLCS_NCHAR = 2"
definition DPI_SQLT_NTY :: nat where "DPI_SQLT_NTY = 108"

text \<open>dpiOracleType__getFromQueryInfo returns a type descriptor or NULL.\<close>

definition callT :: "ext_call \<Rightarrow> dpiOracleType act" where
  "callT c m =
     (case ext c m of
        (OkType t, m') \<Rightarrow> (Some t, m')
      | (Fail b, m') \<Rightarrow> (None, m'\<lparr>errbuf := b\<rparr>)
      | (_, m') \<Rightarrow> (None, m'))"

text \<open>dpiStmt__getQueryInfoFromParam, "acquire size (in bytes) of item" (lines 788-803).\<close>

definition queryInfo_byteSizes :: "dpiOracleType \<Rightarrow> (nat \<times> nat \<times> nat) act" where
  "queryInfo_byteSizes ot =
     (if ot_oracleTypeNum ot = DPI_ORACLE_TYPE_ROWID
        then ret (ot_sizeInBytes ot, ot_sizeInBytes ot, ot_sizeInBytes ot)
      else if ot_sizeInBytes ot = 0
        then bindS (call (OciAttrGet DPI_OCI_ATTR_DATA_SIZE))
               (\<lambda>sz. ret (0, sz mod 2 ^ 16, sz mod 2 ^ 16))
      else ret (0, 0, 0))"

text \<open>"acquire size (in characters) of item (if applicable)" (lines 805-817).\<close>

definition queryInfo_charSizes ::
  "dpiOracleType \<Rightarrow> nat \<Rightarrow> (nat \<times> nat \<times> nat) \<Rightarrow> (nat \<times> nat \<times> nat) act" where
  "queryInfo_charSizes ot charsetForm sizes =
     (case sizes of (chars, db, client) \<Rightarrow>
        if ot_isCharacterData ot \<and> ot_sizeInBytes ot = 0
        then
          bindS (call (OciAttrGet DPI_OCI_ATTR_CHAR_SIZE)) (\<lambda>sz.
          bindS (getS (\<lambda>m. (env_nmaxBytesPerCharacter m, env_maxBytesPerCharacter m,
                             conn_charsetId m \<noteq> env_charsetId m))) (\<lambda>(nmax, mx, differ).
            ret (sz mod 2 ^ 16, db,
                 (if charsetForm = DPI_SQLCS_NCHAR then ((sz mod 2 ^ 16) * nmax) mod 2 ^ 32
                  else if differ then ((sz mod 2 ^ 16) * mx) mod 2 ^ 32
                  else client))))
        else ret sizes)"

text \<open>
  dpiStmt__getQueryInfoFromParam (lines 744-833); the structure it fills is its result.
\<close>

definition dpiStmt__getQueryInfoFromParam :: "dpiQueryInfo act" where
  "dpiStmt__getQueryInfoFromParam =
     bindS (call (OciAttrGet DPI_OCI_ATTR_DATA_TYPE)) (\<lambda>dt.
     bindS (call (OciAttrGet DPI_OCI_ATTR_CHARSET_FORM)) (\<lambda>cf.
     bindS (call (OciAttrGet DPI_OCI_ATTR_SCALE)) (\<lambda>sc.
     bindS (call (OciAttrGet DPI_OCI_ATTR_PRECISION)) (\<lambda>pr.
     bindS (callT (OracleTypeGetFromQueryInfo (dt mod 2 ^ 16) (cf mod 2 ^ 8))) (\<lambda>ot.
     bindS (call (OciAttrGet DPI_OCI_ATTR_NAME)) (\<lambda>nm.
     bindS (queryInfo_byteSizes ot) (\<lambda>sizes.
     bindS (queryInfo_charSizes ot (cf mod 2 ^ 8) sizes) (\<lambda>(chars, db, client).
     bindS (call (OciAttrGet DPI_OCI_ATTR_IS_NULL)) (\<lambda>nullOk.
     bindS (if dt mod 2 ^ 16 = DPI_SQLT_NTY
            then bindS (call ObjectTypeAllocate) (\<lambda>t. ret (Some t))
            else ret None) (\<lambda>objType.
     ret \<lparr>qi_name = nm,
          qi_oracleTypeNum = ot_oracleTypeNum ot,
          qi_defaultNativeTypeNum =
            (if ot_oracleTypeNum ot = DPI_ORACLE_TYPE_NUMBER \<and>
                sint (word_of_nat sc :: 8 word) = 0 \<and>
                sint (word_of_nat pr :: 16 word) > 0 \<and>
                sint (word_of_nat pr :: 16 word) \<le> DPI_MAX_INT64_PRECISION
             then DPI_NATIVE_TYPE_INT64 else ot_defaultNativeTypeNum ot),
          qi_dbSizeInBytes = db,
          qi_clientSizeInBytes = client,
          qi_sizeInChars = chars,
          qi_precision = sint (word_of_nat pr :: 16 word),
          qi_scale = sint (word_of_nat sc :: 8 word),
          qi_nullOk = nullOk mod 2 ^ 8,
          qi_objectType = objType\<rparr>))))))))))"

text \<open>dpiStmt__getQueryInfo (lines 722-737).\<close>

definition dpiStmt__getQueryInfo :: "nat \<Rightarrow> dpiQueryInfo act" where
  "dpiStmt__getQueryInfo p =
     bindS (call (OciParamGet p)) (\<lambda>param.
     bindS (catchS dpiStmt__getQueryInfoFromParam) (\<lambda>status.
     bindS (ignoreS (call OciDescriptorFree)) (\<lambda>_.
       case status of Some info \<Rightarrow> ret info | None \<Rightarrow> failS)))"

definition zeroQueryInfo :: dpiQueryInfo where
  "zeroQueryInfo =
     \<lparr>qi_name = 0, qi_oracleTypeNum = 0, qi_defaultNativeTypeNum = 0, qi_dbSizeInBytes = 0,
      qi_clientSizeInBytes = 0, qi_sizeInChars = 0, qi_precision = 0, qi_scale = 0,
      qi_nullOk = 0, qi_objectType = None\<rparr>"

text \<open>dpiStmt__createQueryVars, the body of the loop over the columns (lines 424-430).\<close>

definition dpiStmt__createQueryVars_column :: "nat \<Rightarrow> unit act" where
  "dpiStmt__createQueryVars_column i =
     bindS (catchS (dpiStmt__getQueryInfo (i + 1))) (\<lambda>status.
       case status of
         Some info \<Rightarrow>
           modify (\<lambda>s. s\<lparr>queryInfo := map_option (\<lambda>xs. xs[i := info]) (queryInfo s)\<rparr>)
       | None \<Rightarrow> bindS dpiStmt__clearQueryVars (\<lambda>_. failS))"

text \<open>dpiStmt__createQueryVars, "allocate space for the query vars, if needed" (lines 412-431).\<close>

definition dpiStmt__createQueryVars_alloc :: "nat \<Rightarrow> unit act" where
  "dpiStmt__createQueryVars_alloc n =
     bindS (allocS (Calloc n)) (\<lambda>ok.
     bindS (modify (\<lambda>s. s\<lparr>queryVars := (if ok then Some (replicate n None) else None)\<rparr>)) (\<lambda>_.
     if \<not> ok then dpiError__set DPI_ERR_NO_MEMORY
     else
       bindS (allocS (Calloc n)) (\<lambda>ok2.
       bindS (modify (\<lambda>s. s\<lparr>queryInfo :=
                (if ok2 then Some (replicate n zeroQueryInfo) else None)\<rparr>)) (\<lambda>_.
       if \<not> ok2 then bindS dpiStmt__clearQueryVars (\<lambda>_. dpiError__set DPI_ERR_NO_MEMORY)
       else
         bindS (modify (\<lambda>s. s\<lparr>numQueryVars := n\<rparr>)) (\<lambda>_.
         forS [0..<n] dpiStmt__createQueryVars_column)))))"

text \<open>dpiStmt__createQueryVars (lines 397-437).\<close>

definition dpiStmt__createQueryVars :: "unit act" where
  "dpiStmt__createQueryVars =
     bindS (call (OciAttrGet DPI_OCI_ATTR_PARAM_COUNT)) (\<lambda>n0.
     bindS (getS (\<lambda>m. numQueryVars (stmt m))) (\<lambda>old.
     bindS (whenS (old > 0 \<and> old \<noteq> n0 mod 2 ^ 32) dpiStmt__clearQueryVars) (\<lambda>_.
     bindS (getS (\<lambda>m. numQueryVars (stmt m))) (\<lambda>cur.
     bindS (whenS (n0 mod 2 ^ 32 \<noteq> cur) (dpiStmt__createQueryVars_alloc (n0 mod 2 ^ 32))) (\<lambda>_.
     modify (\<lambda>s. s\<lparr>bufferRowIndex := fetchArraySize s, hasRowsToFetch := True\<rparr>))))))"


section \<open>Fetch buffer\<close>

text \<open>
  dpiStmt__define (lines 446-491).  The position is valid by the contract of the
  function, so \<open>p - 1\<close> is the index of the column.
\<close>

definition dpiStmt__define :: "nat \<Rightarrow> nat \<Rightarrow> unit act" where
  "dpiStmt__define p v =
     bindS (getS (\<lambda>m. queryVars (stmt m))) (\<lambda>qv.
     bindS (nthS qv (p - 1)) (\<lambda>slot.
     if slot = Some v then ret ()
     else
       bindS (getS (\<lambda>m. (versionNum m, vars m v))) (\<lambda>(ver, var).
       bindS (if ver < 12 then call (OciDefineByPos p v) else call (OciDefineByPos2 p v))
         (\<lambda>defineHandle.
       bindS (whenS (typeCharsetForm var \<noteq> DPI_SQLCS_IMPLICIT)
                (callU (OciAttrSet DPI_OCI_ATTR_CHARSET_FORM (typeCharsetForm var)))) (\<lambda>_.
       bindS (whenS (objectIndicator var) (callU (OciDefineObject v))) (\<lambda>_.
       bindS (whenS (isDynamic var) (callU (OciDefineDynamic v))) (\<lambda>_.
       bindS (case slot of
                Some old \<Rightarrow>
                  bindS (dpiGen__setRefCount old (- 1)) (\<lambda>_.
                  modify (\<lambda>s. s\<lparr>queryVars :=
                    map_option (\<lambda>xs. xs[p - 1 := None]) (queryVars s)\<rparr>))
              | None \<Rightarrow> ret ()) (\<lambda>_.
       bindS (dpiGen__setRefCount v 1) (\<lambda>_.
       modify (\<lambda>s. s\<lparr>queryVars :=
         map_option (\<lambda>xs. xs[p - 1 := Some v]) (queryVars s)\<rparr>))))))))))"

text \<open>dpiStmt__preFetch, the body of the loop over the columns (lines 905-922).\<close>

definition dpiStmt__preFetch_column :: "nat \<Rightarrow> unit act" where
  "dpiStmt__preFetch_column i =
     bindS (getS (\<lambda>m. queryVars (stmt m))) (\<lambda>qv.
     bindS (nthS qv i) (\<lambda>slot.
     bindS (case slot of
              Some v \<Rightarrow> ret v
            | None \<Rightarrow>
                bindS (getS (\<lambda>m. (queryInfo (stmt m), fetchArraySize (stmt m)))) (\<lambda>(qi, fas).
                bindS (nthS qi i) (\<lambda>info.
                bindS (callV (VarAllocate (qi_oracleTypeNum info) (qi_defaultNativeTypeNum info)
                                fas (qi_clientSizeInBytes info) (qi_objectType info))) (\<lambda>v.
                bindS (dpiStmt__define (i + 1) v) (\<lambda>_.
                bindS (dpiGen__setRefCount v (- 1)) (\<lambda>_.
                ret v)))))) (\<lambda>v.
     bindS (modifyVar v (\<lambda>x. x\<lparr>hasError := True\<rparr>)) (\<lambda>_.
     bindS (getS (\<lambda>m. (fetchArraySize (stmt m), vars m v))) (\<lambda>(fas, var).
     if unat fas > maxArraySize var then dpiError__set DPI_ERR_ARRAY_SIZE_TOO_SMALL
     else whenS (requiresPreFetch var) (callU (VarExtendedPreFetch v)))))))"

text \<open>dpiStmt__preFetch (lines 895-926).\<close>

definition dpiStmt__preFetch :: "unit act" where
  "dpiStmt__preFetch =
     bindS (getS (\<lambda>m. queryInfo (stmt m))) (\<lambda>qi.
     bindS (whenS (qi = None) dpiStmt__createQueryVars) (\<lambda>_.
     bindS (getS (\<lambda>m. numQueryVars (stmt m))) (\<lambda>n.
     forS [0..<n] dpiStmt__preFetch_column)))"

text \<open>dpiStmt__postFetch (lines 868-885).\<close>

definition dpiStmt__postFetch_column :: "nat \<Rightarrow> unit act" where
  "dpiStmt__postFetch_column i =
     bindS (getS (\<lambda>m. (queryVars (stmt m), unat (bufferRowCount (stmt m))))) (\<lambda>(qv, rows).
     bindS (nthS qv i) (\<lambda>slot.
       case slot of
         None \<Rightarrow> ub
       | Some v \<Rightarrow>
           bindS (forS [0..<rows] (\<lambda>j.
                    bindS (callU (VarGetValue v j)) (\<lambda>_.
                    bindS (getS (\<lambda>m. typeRequiresPreFetch (vars m v))) (\<lambda>req.
                    whenS req (modifyVar v (\<lambda>x. x\<lparr>requiresPreFetch := True\<rparr>)))))) (\<lambda>_.
           modifyVar v (\<lambda>x. x\<lparr>hasError := False\<rparr>))))"

definition dpiStmt__postFetch :: "unit act" where
  "dpiStmt__postFetch =
     bindS (getS (\<lambda>m. numQueryVars (stmt m))) (\<lambda>n. forS [0..<n] dpiStmt__postFetch_column)"

text \<open>
  Modelled from the spec: dpiOci__stmtFetch2 (dpiOci.c is not part of the sources)
  issues the protocol fetch of \<open>numRows\<close> rows in the mode and at the offset given, and
  is where the statement learns whether more rows are known to exist: the reply sets
  hasRowsToFetch.
\<close>

definition dpiOci__stmtFetch2 :: "32 word \<Rightarrow> dpiFetchMode \<Rightarrow> 32 word \<Rightarrow> unit act" where
  "dpiOci__stmtFetch2 numRows fetchMode off =
     bindS (call (OciStmtFetch2 numRows fetchMode off)) (\<lambda>more.
     modify (\<lambda>s. s\<lparr>hasRowsToFetch := (more \<noteq> 0)\<rparr>))"

text \<open>dpiStmt__fetch (lines 590-616).\<close>

definition dpiStmt__fetch :: "unit act" where
  "dpiStmt__fetch =
     bindS dpiStmt__preFetch (\<lambda>_.
     bindS (getS (\<lambda>m. fetchArraySize (stmt m))) (\<lambda>fas.
     bindS (dpiOci__stmtFetch2 fas DPI_MODE_FETCH_NEXT 0) (\<lambda>_.
     bindS (call (OciAttrGet DPI_OCI_ATTR_ROWS_FETCHED)) (\<lambda>rows.
     bindS (modify (\<lambda>s. s\<lparr>bufferRowCount := word_of_nat rows\<rparr>)) (\<lambda>_.
     bindS (modify (\<lambda>s. s\<lparr>bufferMinRow := rowCount s + 1, bufferRowIndex := 0\<rparr>)) (\<lambda>_.
     dpiStmt__postFetch))))))"

text \<open>
  dpiStmt_fetch (lines 1236-1257).  The result is \<open>found\<close> and, when a row was found,
  the value written to \<open>*bufferRowIndex\<close>.
\<close>

definition dpiStmt_fetch :: "bool \<Rightarrow> bool \<Rightarrow> (bool \<times> 32 word option) act" where
  "dpiStmt_fetch found_ok index_ok =
     bindS dpiStmt__checkOpen (\<lambda>_.
     bindS (DPI_CHECK_PTR_NOT_NULL found_ok) (\<lambda>_.
     bindS (DPI_CHECK_PTR_NOT_NULL index_ok) (\<lambda>_.
     bindS (getS (\<lambda>m. (bufferRowIndex (stmt m) \<ge> bufferRowCount (stmt m),
                        hasRowsToFetch (stmt m)))) (\<lambda>(exhausted, more).
     bindS (whenS (exhausted \<and> more) dpiStmt__fetch) (\<lambda>_.
     bindS (getS (\<lambda>m. bufferRowIndex (stmt m) \<ge> bufferRowCount (stmt m))) (\<lambda>still.
     if exhausted \<and> still then ret (False, None)
     else
       bindS (getS (\<lambda>m. bufferRowIndex (stmt m))) (\<lambda>idx.
       bindS (modify (\<lambda>s. s\<lparr>bufferRowIndex := bufferRowIndex s + 1,
                               rowCount := rowCount s + 1\<rparr>)) (\<lambda>_.
       ret (True, Some idx)))))))))"

text \<open>
  dpiStmt_fetchRows (lines 1266-1296).  The result is
  (\<open>*bufferRowIndex\<close>, \<open>*numRowsFetched\<close>, \<open>*moreRows\<close>).
\<close>

definition dpiStmt_fetchRows ::
  "32 word \<Rightarrow> bool \<Rightarrow> bool \<Rightarrow> bool \<Rightarrow> (32 word \<times> 32 word \<times> bool) act" where
  "dpiStmt_fetchRows maxRows index_ok num_ok more_ok =
     bindS dpiStmt__checkOpen (\<lambda>_.
     bindS (DPI_CHECK_PTR_NOT_NULL index_ok) (\<lambda>_.
     bindS (DPI_CHECK_PTR_NOT_NULL num_ok) (\<lambda>_.
     bindS (DPI_CHECK_PTR_NOT_NULL more_ok) (\<lambda>_.
     bindS (getS (\<lambda>m. (bufferRowIndex (stmt m) \<ge> bufferRowCount (stmt m),
                        hasRowsToFetch (stmt m)))) (\<lambda>(exhausted, more).
     bindS (whenS (exhausted \<and> more) dpiStmt__fetch) (\<lambda>_.
     bindS (getS (\<lambda>m. bufferRowIndex (stmt m) \<ge> bufferRowCount (stmt m))) (\<lambda>still.
     if exhausted \<and> still then ret (0, 0, False)
     else
       bindS (getS (\<lambda>m. (bufferRowIndex (stmt m),
                          bufferRowCount (stmt m) - bufferRowIndex (stmt m),
                          hasRowsToFetch (stmt m)))) (\<lambda>(idx, avail, moreRows).
       bindS (ret (if avail > maxRows then (maxRows, True) else (avail, moreRows)))
         (\<lambda>(numRowsFetched, moreRows').
       bindS (modify (\<lambda>s. s\<lparr>bufferRowIndex := bufferRowIndex s + numRowsFetched,
                               rowCount := rowCount s + ucast numRowsFetched\<rparr>)) (\<lambda>_.
       ret (idx, numRowsFetched, moreRows')))))))))))"


section \<open>Execution\<close>

text \<open>Bits of the execution mode (absent headers).\<close>

definition DPI_OCI_STMT_SCROLLABLE_READONLY :: "32 word" where
  "DPI_OCI_STMT_SCROLLABLE_READONLY = 0x08"

definition DPI_MODE_EXEC_BATCH_ERRORS :: "32 word" where
  "DPI_MODE_EXEC_BATCH_ERRORS = 0x80"

text \<open>dpiStmt__execute, the transfer of the bound values to the Oracle buffers (lines 505-520).\<close>

definition dpiStmt__execute_setValues :: "nat \<Rightarrow> unit act" where
  "dpiStmt__execute_setValues i =
     bindS (getS (\<lambda>m. bv_var (bindVars (stmt m) ! i))) (\<lambda>bound.
       case bound of
         None \<Rightarrow> ub
       | Some v \<Rightarrow>
           bindS (getS (\<lambda>m. vars m v)) (\<lambda>var.
           bindS (forS [0..<maxArraySize var] (\<lambda>j.
                    if typeOracleTypeNum var = DPI_ORACLE_TYPE_STMT \<and> dataIsStmt var j
                    then dpiError__set DPI_ERR_NOT_SUPPORTED
                    else callU (VarSetValue v j))) (\<lambda>_.
           bindS (getS (\<lambda>m. isReturning (stmt m) \<or> isDynamic (vars m v))) (\<lambda>dyn.
           whenS dyn (modifyVar v (\<lambda>x. x\<lparr>hasError := True\<rparr>))))))"

text \<open>dpiStmt__execute up to the protocol call (lines 505-536); the result is the mode.\<close>

definition dpiStmt__execute_before :: "32 word \<Rightarrow> (32 word) act" where
  "dpiStmt__execute_before mode =
     bindS (getS (\<lambda>m. numBindVars (stmt m))) (\<lambda>n.
     bindS (forS [0..<n] dpiStmt__execute_setValues) (\<lambda>_.
     bindS (getS (\<lambda>m. (statementType (stmt m), fetchArraySize (stmt m)))) (\<lambda>(t, fas).
     bindS (whenS (t = DPI_STMT_TYPE_SELECT)
              (callU (OciAttrSet DPI_OCI_ATTR_PREFETCH_ROWS (unat fas)))) (\<lambda>_.
     bindS dpiStmt__clearBatchErrors (\<lambda>_.
     bindS (getS (\<lambda>m. scrollable (stmt m))) (\<lambda>scr.
     ret (if scr then mode OR DPI_OCI_STMT_SCROLLABLE_READONLY else mode)))))))"

text \<open>dpiStmt__execute, the transfer back from the Oracle buffers (lines 555-567).\<close>

definition dpiStmt__execute_getValues :: "nat \<Rightarrow> unit act" where
  "dpiStmt__execute_getValues i =
     bindS (getS (\<lambda>m. bv_var (bindVars (stmt m) ! i))) (\<lambda>bound.
       case bound of
         None \<Rightarrow> ub
       | Some v \<Rightarrow>
           bindS (getS (\<lambda>m. maxArraySize (vars m v))) (\<lambda>n.
           bindS (forS [0..<n] (\<lambda>j. callU (VarGetValue v j))) (\<lambda>_.
           modifyVar v (\<lambda>x. x\<lparr>hasError := False\<rparr>))))"

text \<open>dpiStmt__execute after a successful protocol call (lines 552-582).\<close>

definition dpiStmt__execute_after :: "unit act" where
  "dpiStmt__execute_after =
     bindS (getS (\<lambda>m. (isReturning (stmt m), statementType (stmt m), numBindVars (stmt m))))
       (\<lambda>(returning, t, n).
     bindS (whenS (returning \<or> is_plsql t) (forS [0..<n] dpiStmt__execute_getValues)) (\<lambda>_.
     whenS (t = DPI_STMT_TYPE_SELECT)
       (bindS dpiStmt__createQueryVars (\<lambda>_.
        callU (OciAttrSet DPI_OCI_ATTR_PREFETCH_ROWS 0)))))"

text \<open>
  dpiStmt__execute inside the failure branch of the protocol call: the parse error
  offset is read into the error buffer, whatever the status of that read (lines 542-544).
\<close>

definition dpiStmt__execute_parseOffset :: "unit act" where
  "dpiStmt__execute_parseOffset =
     ignoreS (bindS (call (OciAttrGet DPI_OCI_ATTR_PARSE_ERROR_OFFSET)) (\<lambda>off.
              (\<lambda>m. (Some (), m\<lparr>errbuf := (errbuf m)\<lparr>eb_offset := off mod 2 ^ 32\<rparr>\<rparr>))))"

text \<open>
  Modelled from the spec: dpiOci__stmtPrepare2 (dpiOci.c is not part of the sources)
  prepares a new protocol handle for the SQL text and stores it in the statement; on
  failure the statement is left without a handle.
\<close>

definition dpiOci__stmtPrepare2 :: "nat \<Rightarrow> nat \<Rightarrow> unit act" where
  "dpiOci__stmtPrepare2 sql tagLength =
     bindS (catchS (call (OciStmtPrepare2 sql tagLength))) (\<lambda>r.
       case r of
         Some h \<Rightarrow> modify (\<lambda>s. s\<lparr>handle := Some h\<rparr>)
       | None \<Rightarrow> bindS (modify (\<lambda>s. s\<lparr>handle := None\<rparr>)) (\<lambda>_. failS))"

text \<open>dpiStmt__prepare (lines 933-939).\<close>

definition dpiStmt__prepare :: "nat \<Rightarrow> nat \<Rightarrow> unit act" where
  "dpiStmt__prepare sql tagLength = bindS (dpiOci__stmtPrepare2 sql tagLength) (\<lambda>_. dpiStmt__init)"

text \<open>dpiStmt__reExecute, the body of the loop "perform binds" (lines 987-998).\<close>

definition dpiStmt__reExecute_rebind :: "nat \<Rightarrow> unit act" where
  "dpiStmt__reExecute_rebind i =
     bindS (getS (\<lambda>m. bindVars (stmt m) ! i)) (\<lambda>bindVar.
       case bv_var bindVar of
         None \<Rightarrow> ret ()
       | Some v \<Rightarrow>
           bindS (modify (set_entry_var i None)) (\<lambda>_.
           bindS (catchS (dpiStmt__bind v False (bv_pos bindVar) (bv_name bindVar)
                            (bv_nameLength bindVar))) (\<lambda>status.
             case status of
               None \<Rightarrow> bindS (dpiGen__setRefCount v (- 1)) (\<lambda>_. failS)
             | Some _ \<Rightarrow> ret ())))"

text \<open>
  dpiStmt__reExecute up to its last statement (lines 960-998).  The bound of the loop
  "perform binds" is read when the loop starts; the body does not change it, see
  \<open>reExecute_loop_bound\<close>.
\<close>

definition dpiStmt__reExecute_before :: "unit act" where
  "dpiStmt__reExecute_before =
     bindS (call (OciAttrGet DPI_OCI_ATTR_STATEMENT)) (\<lambda>sql.
     bindS (getS (\<lambda>m. handle (stmt m))) (\<lambda>origHandle.
     bindS (catchS (dpiStmt__prepare sql 0)) (\<lambda>status.
     bindS (getS (\<lambda>m. handle (stmt m))) (\<lambda>newHandle.
     bindS (modify (\<lambda>s. s\<lparr>handle := origHandle, deleteFromCache := True\<rparr>)) (\<lambda>_.
     bindS (catchS (call (OciStmtRelease True True))) (\<lambda>released.
     if released = None \<or> status = None then failS
     else
       bindS (modify (\<lambda>s. s\<lparr>handle := newHandle\<rparr>)) (\<lambda>_.
       bindS dpiStmt__clearBatchErrors (\<lambda>_.
       bindS dpiStmt__clearQueryVars (\<lambda>_.
       bindS (getS (\<lambda>m. numBindVars (stmt m))) (\<lambda>n.
       forS [0..<n] dpiStmt__reExecute_rebind))))))))))"

text \<open>
  dpiStmt__execute (lines 498-583) and dpiStmt__reExecute (lines 949-1002): the two call
  each other.
\<close>

function dpiStmt__execute :: "nat \<Rightarrow> 32 word \<Rightarrow> bool \<Rightarrow> unit act"
  and dpiStmt__reExecute :: "nat \<Rightarrow> 32 word \<Rightarrow> unit act" where
  "dpiStmt__execute numIters mode reExecute =
     bindS (dpiStmt__execute_before mode) (\<lambda>mode'.
     bindS (catchS (call (OciStmtExecute numIters mode'))) (\<lambda>status.
       case status of
         Some _ \<Rightarrow> dpiStmt__execute_after
       | None \<Rightarrow>
           bindS dpiStmt__execute_parseOffset (\<lambda>_.
           bindS (getS (\<lambda>m. eb_code (errbuf m))) (\<lambda>c.
             if reExecute \<and> c = 1007 then dpiStmt__reExecute numIters mode'
             else
               bindS (whenS (c \<noteq> 1) (modify (\<lambda>s. s\<lparr>deleteFromCache := True\<rparr>))) (\<lambda>_.
               failS)))))"
| "dpiStmt__reExecute numIters mode =
     bindS dpiStmt__reExecute_before (\<lambda>_. dpiStmt__execute numIters mode False)"
  by pat_completeness auto
termination
  by (relation "measure (\<lambda>x. case x of Inl (n, md, re) \<Rightarrow> (if re then 2 else 0) | Inr (n, md) \<Rightarrow> 1)")
     auto

text \<open>dpiStmt_execute (lines 1172-1185); the result is the value for \<open>*numQueryColumns\<close>.\<close>

definition dpiStmt_execute :: "32 word \<Rightarrow> nat act" where
  "dpiStmt_execute mode =
     bindS dpiStmt__checkOpen (\<lambda>_.
     bindS (getS (\<lambda>m. statementType (stmt m))) (\<lambda>t.
     bindS (dpiStmt__execute (if t = DPI_STMT_TYPE_SELECT then 0 else 1) mode True) (\<lambda>_.
     getS (\<lambda>m. numQueryVars (stmt m)))))"


section \<open>Batch errors\<close>

definition zeroErrorBuffer :: dpiErrorBuffer where
  "zeroErrorBuffer = \<lparr>eb_code = 0, eb_offset = 0, eb_errorNum = DPI_ERR_NO_ERR, eb_fnName = []\<rparr>"

definition upd_batchError :: "nat \<Rightarrow> (dpiErrorBuffer \<Rightarrow> dpiErrorBuffer) \<Rightarrow> dpiStmt \<Rightarrow> dpiStmt" where
  "upd_batchError k f s = s\<lparr>batchErrors := map_option (\<lambda>xs. xs[k := f (xs ! k)]) (batchErrors s)\<rparr>"

text \<open>
  A call that is given the local error structure of dpiStmt__getBatchErrors, whose
  buffer is the thread buffer (\<open>None\<close>) or slot \<open>k\<close> of the batch errors (\<open>Some k\<close>):
  a failure is written there.
\<close>

definition callTo :: "nat option \<Rightarrow> ext_call \<Rightarrow> nat act" where
  "callTo target c m =
     (case ext c m of
        (Fail b, m') \<Rightarrow>
          (None, case target of
                   None \<Rightarrow> m'\<lparr>errbuf := b\<rparr>
                 | Some k \<Rightarrow> upd_stmt (upd_batchError k (\<lambda>_. b)) m')
      | (r, m') \<Rightarrow> (Some (reply_value r), m'))"

text \<open>
  dpiStmt__getBatchErrors, the loop "process each error" (lines 675-707) from index
  \<open>i\<close> on.  \<open>target\<close> is the buffer of the local error structure when the iteration
  starts.  Leaving the loop with overallStatus below 0 is the result \<open>None\<close>.
\<close>

fun dpiStmt__getBatchErrors_loop :: "nat list \<Rightarrow> nat option \<Rightarrow> unit act" where
  "dpiStmt__getBatchErrors_loop [] target = ret ()"
| "dpiStmt__getBatchErrors_loop (i # rest) target =
     bindS (catchS (call (OciParamGet i))) (\<lambda>got.
       if got = None then dpiError__set DPI_ERR_INVALID_INDEX
       else
         bindS (catchS (callTo target (OciAttrGet DPI_OCI_ATTR_DML_ROW_OFFSET))) (\<lambda>off.
           case off of
             None \<Rightarrow> dpiError__set DPI_ERR_CANNOT_GET_ROW_OFFSET
           | Some rowOffset \<Rightarrow>
               bindS (ignoreS (callTo (Some i) ErrorCheck)) (\<lambda>_.
               bindS (getS (\<lambda>m. (eb_errorNum (errbuf m), eb_fnName (errbuf m)))) (\<lambda>(en, fn).
                 if en \<noteq> DPI_ERR_NO_ERR then failS
                 else
                   bindS (modify (upd_batchError i
                            (\<lambda>b. b\<lparr>eb_fnName := fn, eb_offset := rowOffset mod 2 ^ 32\<rparr>))) (\<lambda>_.
                   dpiStmt__getBatchErrors_loop rest (Some i))))))"

text \<open>dpiStmt__getBatchErrors (lines 634-715).\<close>

definition dpiStmt__getBatchErrors :: "unit act" where
  "dpiStmt__getBatchErrors =
     bindS (call (OciAttrGet DPI_OCI_ATTR_NUM_DML_ERRORS)) (\<lambda>n0.
     bindS (modify (\<lambda>s. s\<lparr>numBatchErrors := n0 mod 2 ^ 32\<rparr>)) (\<lambda>_.
     bindS (allocS (Calloc (n0 mod 2 ^ 32))) (\<lambda>ok.
     bindS (modify (\<lambda>s. s\<lparr>batchErrors :=
              (if ok then Some (replicate (n0 mod 2 ^ 32) zeroErrorBuffer) else None)\<rparr>)) (\<lambda>_.
     if \<not> ok then
       bindS (modify (\<lambda>s. s\<lparr>numBatchErrors := 0\<rparr>)) (\<lambda>_. dpiError__set DPI_ERR_NO_MEMORY)
     else
       bindS (catchS (call OciHandleAlloc)) (\<lambda>localErrorHandle.
       if localErrorHandle = None then bindS dpiStmt__clearBatchErrors (\<lambda>_. failS)
       else
         bindS (catchS (call OciHandleAlloc)) (\<lambda>batchErrorHandle.
         if batchErrorHandle = None then
           bindS dpiStmt__clearBatchErrors (\<lambda>_.
           bindS (ignoreS (call OciHandleFree)) (\<lambda>_. failS))
         else
           bindS (getS (\<lambda>m. numBatchErrors (stmt m))) (\<lambda>n.
           bindS (catchS (dpiStmt__getBatchErrors_loop [0..<n] None)) (\<lambda>overallStatus.
           bindS (ignoreS (call OciHandleFree)) (\<lambda>_.
           bindS (ignoreS (call OciHandleFree)) (\<lambda>_.
           bindS (whenS (overallStatus = None) dpiStmt__clearBatchErrors) (\<lambda>_.
           if overallStatus = None then failS else ret ())))))))))))"

text \<open>dpiStmt_executeMany (lines 1194-1229).\<close>

definition dpiStmt_executeMany_checkSize :: "nat \<Rightarrow> nat \<Rightarrow> unit act" where
  "dpiStmt_executeMany_checkSize numIters i =
     bindS (getS (\<lambda>m. bv_var (bindVars (stmt m) ! i))) (\<lambda>bound.
       case bound of
         None \<Rightarrow> ub
       | Some v \<Rightarrow>
           bindS (getS (\<lambda>m. maxArraySize (vars m v))) (\<lambda>n.
           if n < numIters then dpiError__set DPI_ERR_ARRAY_SIZE_TOO_SMALL else ret ()))"

definition dpiStmt_executeMany :: "32 word \<Rightarrow> nat \<Rightarrow> unit act" where
  "dpiStmt_executeMany mode numIters =
     bindS dpiStmt__checkOpen (\<lambda>_.
     bindS (getS (\<lambda>m. (statementType (stmt m), numBindVars (stmt m)))) (\<lambda>(t, n).
     if t = DPI_STMT_TYPE_SELECT then dpiError__set DPI_ERR_NOT_SUPPORTED
     else
       bindS (forS [0..<n] (dpiStmt_executeMany_checkSize numIters)) (\<lambda>_.
       bindS dpiStmt__clearBatchErrors (\<lambda>_.
       bindS (dpiStmt__execute numIters mode False) (\<lambda>_.
       whenS (mode AND DPI_MODE_EXEC_BATCH_ERRORS \<noteq> 0) dpiStmt__getBatchErrors)))))"

text \<open>dpiStmt_getBatchErrorCount (lines 1304-1313).\<close>

definition dpiStmt_getBatchErrorCount :: "bool \<Rightarrow> nat act" where
  "dpiStmt_getBatchErrorCount count_ok =
     bindS dpiStmt__checkOpen (\<lambda>_.
     bindS (DPI_CHECK_PTR_NOT_NULL count_ok) (\<lambda>_.
     getS (\<lambda>m. numBatchErrors (stmt m))))"

section \<open>Scrolling\<close>

text \<open>
  dpiStmt_scroll, "validate mode; determine desired row to fetch" (lines 1657-1679):
  the desired row (not set for mode "last") and the offset handed to the protocol.
  The arithmetic is that of uint64_t, with the int32_t arguments sign-extended.
\<close>

definition scroll_desiredRow ::
  "dpiFetchMode \<Rightarrow> 32 word \<Rightarrow> 32 word \<Rightarrow> dpiStmt \<Rightarrow> (64 word option \<times> 32 word) option" where
  "scroll_desiredRow mode off rowCountOffset s =
     (case mode of
        DPI_MODE_FETCH_NEXT \<Rightarrow> Some (Some (rowCount s + scast rowCountOffset + 1), off)
      | DPI_MODE_FETCH_PRIOR \<Rightarrow> Some (Some (rowCount s + scast rowCountOffset - 1), off)
      | DPI_MODE_FETCH_FIRST \<Rightarrow> Some (Some 1, off)
      | DPI_MODE_FETCH_LAST \<Rightarrow> Some (None, off)
      | DPI_MODE_FETCH_ABSOLUTE \<Rightarrow> Some (Some (scast off), off)
      | DPI_MODE_FETCH_RELATIVE \<Rightarrow>
          (let desiredRow = rowCount s + scast rowCountOffset + scast off
           in Some (Some desiredRow,
                    ucast (desiredRow - (bufferMinRow s + ucast (bufferRowCount s) - 1))))
      | DPI_MODE_FETCH_INVALID _ \<Rightarrow> None)"

text \<open>The test "determine if a fetch is actually required" (lines 1682-1683).\<close>

definition scroll_inWindow :: "dpiFetchMode \<Rightarrow> 64 word option \<Rightarrow> dpiStmt \<Rightarrow> bool" where
  "scroll_inWindow mode desired s =
     (case desired of
        None \<Rightarrow> False
      | Some desiredRow \<Rightarrow>
          mode \<noteq> DPI_MODE_FETCH_LAST \<and> desiredRow \<ge> bufferMinRow s \<and>
          desiredRow < bufferMinRow s + ucast (bufferRowCount s))"

text \<open>dpiStmt_scroll from "perform any pre-fetch activities required" on (lines 1689-1730).\<close>

definition dpiStmt_scroll_fetch :: "dpiFetchMode \<Rightarrow> 32 word \<Rightarrow> unit act" where
  "dpiStmt_scroll_fetch mode off =
     bindS dpiStmt__preFetch (\<lambda>_.
     bindS (getS (\<lambda>m. fetchArraySize (stmt m))) (\<lambda>fas.
     bindS (dpiOci__stmtFetch2 (if mode = DPI_MODE_FETCH_LAST then 1 else fas) mode off) (\<lambda>_.
     bindS (call (OciAttrGet DPI_OCI_ATTR_ROWS_FETCHED)) (\<lambda>rows.
     bindS (modify (\<lambda>s. s\<lparr>bufferRowCount := word_of_nat rows\<rparr>)) (\<lambda>_.
     if (word_of_nat rows :: 32 word) = 0 then
       (if mode \<noteq> DPI_MODE_FETCH_FIRST \<and> mode \<noteq> DPI_MODE_FETCH_LAST
        then dpiError__set DPI_ERR_SCROLL_OUT_OF_RS
        else modify (\<lambda>s. s\<lparr>hasRowsToFetch := False, rowCount := 0, bufferRowIndex := 0,
                            bufferMinRow := 0\<rparr>))
     else
       bindS (call (OciAttrGet DPI_OCI_ATTR_CURRENT_POSITION)) (\<lambda>currentPosition.
       bindS (modify (\<lambda>s. s\<lparr>rowCount :=
                ucast ((word_of_nat currentPosition :: 32 word) - bufferRowCount s)\<rparr>)) (\<lambda>_.
       bindS (modify (\<lambda>s. s\<lparr>bufferMinRow := rowCount s + 1, bufferRowIndex := 0\<rparr>)) (\<lambda>_.
       dpiStmt__postFetch))))))))"

text \<open>dpiStmt_scroll (lines 1645-1731).\<close>

definition dpiStmt_scroll :: "dpiFetchMode \<Rightarrow> 32 word \<Rightarrow> 32 word \<Rightarrow> unit act" where
  "dpiStmt_scroll mode off rowCountOffset =
     bindS dpiStmt__checkOpen (\<lambda>_.
     bindS (getS stmt) (\<lambda>s.
       case scroll_desiredRow mode off rowCountOffset s of
         None \<Rightarrow> dpiError__set DPI_ERR_NOT_SUPPORTED
       | Some (desired, off') \<Rightarrow>
           if scroll_inWindow mode desired s
           then modify (\<lambda>s. s\<lparr>bufferRowIndex := ucast (the desired - bufferMinRow s),
                               rowCount := the desired - 1\<rparr>)
           else dpiStmt_scroll_fetch mode off'))"

section \<open>Observations of a run\<close>

text \<open>An action keeps an observation of the machine when no run of it changes it.\<close>

definition keeps :: "(machine \<Rightarrow> 'o) \<Rightarrow> 'a act \<Rightarrow> bool" where
  "keeps obs f = (\<forall>m. obs (snd (f m)) = obs m)"

text \<open>
  \<open>frame obs\<close>: the observation does not read the error buffer, the variables or the
  crash flag.  \<open>quiet obs c\<close>: logging the call \<open>c\<close> does not change it.
\<close>

definition frame :: "(machine \<Rightarrow> 'o) \<Rightarrow> bool" where
  "frame obs =
     ((\<forall>m e. obs (m\<lparr>errbuf := e\<rparr>) = obs m) \<and> (\<forall>m v. obs (m\<lparr>vars := v\<rparr>) = obs m) \<and>
      (\<forall>m b. obs (m\<lparr>crashed := b\<rparr>) = obs m))"

definition quiet :: "(machine \<Rightarrow> 'o) \<Rightarrow> ext_call \<Rightarrow> bool" where
  "quiet obs c = (\<forall>m r. obs (m\<lparr>log := log m @ [(c, r)]\<rparr>) = obs m)"

text \<open>
  The calls that the claims count: the protocol fetch, the protocol execute and the
  read of the statement text with which dpiStmt__reExecute starts.  An observation is
  inert when only these calls and the batch errors of the statement can change it.
\<close>

definition major_call :: "ext_call \<Rightarrow> bool" where
  "major_call c =
     (case c of
        OciStmtFetch2 n md off \<Rightarrow> True
      | OciStmtExecute n md \<Rightarrow> True
      | OciAttrGet a \<Rightarrow> a = DPI_OCI_ATTR_STATEMENT
      | _ \<Rightarrow> False)"

definition majors :: "machine \<Rightarrow> ext_call list" where
  "majors m = filter major_call (map fst (log m))"

definition batch :: "machine \<Rightarrow> nat \<times> dpiErrorBuffer list option" where
  "batch m = (numBatchErrors (stmt m), batchErrors (stmt m))"

definition inert :: "(machine \<Rightarrow> 'o) \<Rightarrow> bool" where
  "inert obs =
     (frame obs \<and> (\<forall>c. \<not> major_call c \<longrightarrow> quiet obs c) \<and>
      (\<forall>m r. obs (m\<lparr>refCount := r\<rparr>) = obs m) \<and>
      (\<forall>m f. numBatchErrors (f (stmt m)) = numBatchErrors (stmt m) \<and>
              batchErrors (f (stmt m)) = batchErrors (stmt m) \<longrightarrow>
              obs (upd_stmt f m) = obs m))"

text \<open>The protocol fetches, the protocol executes and the recoveries in the log.\<close>

definition is_fetch :: "ext_call \<Rightarrow> bool" where
  "is_fetch c = (case c of OciStmtFetch2 n md off \<Rightarrow> True | _ \<Rightarrow> False)"

definition protocol_fetches :: "machine \<Rightarrow> ext_call list" where
  "protocol_fetches m = filter is_fetch (map fst (log m))"

definition is_execute :: "ext_call \<Rightarrow> bool" where
  "is_execute c = (case c of OciStmtExecute n md \<Rightarrow> True | _ \<Rightarrow> False)"

definition protocol_executes :: "machine \<Rightarrow> ext_call list" where
  "protocol_executes m = filter is_execute (map fst (log m))"

definition recoveries :: "machine \<Rightarrow> ext_call list" where
  "recoveries m = filter (\<lambda>c. c = OciAttrGet DPI_OCI_ATTR_STATEMENT) (map fst (log m))"

text \<open>The releases of the handle \<open>a\<close> in the log, and its reference count.\<close>

definition releases :: "nat \<Rightarrow> machine \<Rightarrow> ext_call list" where
  "releases a m = filter (\<lambda>c. c = GenSetRefCount a (- 1)) (map fst (log m))"

definition ownership :: "nat \<Rightarrow> machine \<Rightarrow> int \<times> ext_call list" where
  "ownership a m = (refCount m a, releases a m)"

text \<open>
  A locator as the public bind functions pass it: no name with length 0, or a name of
  at least the length given.
\<close>

definition locator_ok :: "string option \<Rightarrow> nat \<Rightarrow> bool" where
  "locator_ok nm len = (case nm of None \<Rightarrow> len = 0 | Some bytes \<Rightarrow> len \<le> length bytes)"


text \<open>
  The locators of the registry, and the registry as dpiStmt__bind builds it: every
  entry has no name and name length 0, or a name of its name length.
\<close>

definition entry_key :: "dpiBindVar \<Rightarrow> nat \<times> string option \<times> nat" where
  "entry_key e = (bv_pos e, bv_name e, bv_nameLength e)"

definition registry_keys :: "machine \<Rightarrow> (nat \<times> string option \<times> nat) list" where
  "registry_keys m = map entry_key (bindVars (stmt m))"

definition keys_ok :: "(nat \<times> string option \<times> nat) list \<Rightarrow> bool" where
  "keys_ok ks = list_all (\<lambda>(p, nm, len). locator_ok nm len) ks"

section \<open>Concrete statements for the examples\<close>

text \<open>A NUMBER variable with room for three values.\<close>

definition var0 :: dpiVar where
  "var0 =
     \<lparr>maxArraySize = 3, actualArraySize = 0, isDynamic = False, objectIndicator = False,
      requiresPreFetch = False, varSizeInBytes = 22, hasError = False,
      typeOracleTypeNum = 2010, typeCharsetForm = 1, typeSizeInBytes = 22,
      typeRequiresPreFetch = False, dataIsStmt = (\<lambda>_. False)\<rparr>"

text \<open>
  An open scrollable query statement with fetch array size 3, described (no columns),
  nothing bound, nothing fetched.
\<close>

definition stmt0 :: dpiStmt where
  "stmt0 =
     \<lparr>conn = Some 1, handle = Some 2, isOwned = False, fetchArraySize = 3,
      bufferRowCount = 0, bufferRowIndex = 0, numQueryVars = 0, queryVars = Some [],
      queryInfo = Some [], allocatedBindVars = 0, bindVars = [], numBatchErrors = 0,
      batchErrors = None, rowCount = 0, bufferMinRow = 0, statementType = 1,
      hasRowsToFetch = True, scrollable = True, isReturning = False,
      deleteFromCache = False\<rparr>"

text \<open>A machine around a statement and an environment, on a live connection.\<close>

definition machine0 ::
  "dpiStmt \<Rightarrow> ((ext_call \<times> reply) list \<Rightarrow> ext_call \<Rightarrow> reply) \<Rightarrow> machine" where
  "machine0 s e =
     \<lparr>stmt = s, vars = (\<lambda>_. var0), refCount = (\<lambda>_. 1), errbuf = zeroErrorBuffer,
      versionNum = 12, conn_handle = Some 1, conn_closing = False, conn_charsetId = 873,
      env_charsetId = 873, env_maxBytesPerCharacter = 4, env_nmaxBytesPerCharacter = 2,
      crashed = False, log = [], env = e\<rparr>"

text \<open>An environment in which every call succeeds; the SQL text has two placeholders.\<close>

definition env_two_binds :: "(ext_call \<times> reply) list \<Rightarrow> ext_call \<Rightarrow> reply" where
  "env_two_binds h c = (if c = OciAttrGet DPI_OCI_ATTR_BIND_COUNT then Ok 2 else Ok 0)"


text \<open>
  An environment in which every call succeeds, every protocol fetch delivers three rows
  and more rows remain.
\<close>

definition env_rows3 :: "(ext_call \<times> reply) list \<Rightarrow> ext_call \<Rightarrow> reply" where
  "env_rows3 h c =
     (if c = OciAttrGet DPI_OCI_ATTR_ROWS_FETCHED then Ok 3
      else if is_fetch c then Ok 1 else Ok 0)"


text \<open>The state after one more call of dpiStmt_fetch with valid pointers.\<close>

definition fetch_once :: "machine \<Rightarrow> machine" where
  "fetch_once m = snd (dpiStmt_fetch True True m)"


text \<open>
  The states of the fetch scenario: a batch of three rows is buffered, the index is at
  \<open>idx\<close>, \<open>rc\<close> rows have been handed out, \<open>l\<close> is the log.
\<close>

definition fetched :: "32 word \<Rightarrow> 64 word \<Rightarrow> (ext_call \<times> reply) list \<Rightarrow> machine" where
  "fetched idx rc l =
     (machine0 (stmt0\<lparr>bufferRowCount := 3, bufferRowIndex := idx, bufferMinRow := 1,
                        rowCount := rc\<rparr>) env_rows3)\<lparr>log := l\<rparr>"


text \<open>An environment in which every call succeeds and the result set is empty.\<close>

definition env_empty :: "(ext_call \<times> reply) list \<Rightarrow> ext_call \<Rightarrow> reply" where
  "env_empty h c = Ok 0"

text \<open>
  An environment in which every call succeeds, a positioned fetch delivers three rows
  and leaves the cursor on row 12.
\<close>

definition env_scroll :: "(ext_call \<times> reply) list \<Rightarrow> ext_call \<Rightarrow> reply" where
  "env_scroll h c =
     (if c = OciAttrGet DPI_OCI_ATTR_ROWS_FETCHED then Ok 3
      else if c = OciAttrGet DPI_OCI_ATTR_CURRENT_POSITION then Ok 12
      else if is_fetch c then Ok 1 else Ok 0)"


text \<open>
  An environment in which every protocol execute fails with the server error code given
  and every other call succeeds; the statement is a query.
\<close>

definition env_exec_fail :: "int \<Rightarrow> (ext_call \<times> reply) list \<Rightarrow> ext_call \<Rightarrow> reply" where
  "env_exec_fail ora h c =
     (if is_execute c
        then Fail \<lparr>eb_code = ora, eb_offset = 0, eb_errorNum = DPI_ERR_OTHER 1, eb_fnName = []\<rparr>
      else if c = OciAttrGet DPI_OCI_ATTR_STMT_TYPE then Ok 1 else Ok 0)"


text \<open>
  An environment for a batch insert of five rows of which one fails: the execution
  succeeds, one batch error is reported, and the read of its error handle fails.
\<close>

definition env_batch :: "(ext_call \<times> reply) list \<Rightarrow> ext_call \<Rightarrow> reply" where
  "env_batch h c =
     (if c = OciAttrGet DPI_OCI_ATTR_NUM_DML_ERRORS then Ok 1
      else if c = OciParamGet 0
        then Fail \<lparr>eb_code = 24328, eb_offset = 0, eb_errorNum = DPI_ERR_OTHER 1, eb_fnName = []\<rparr>
      else Ok 0)"

text \<open>An open INSERT statement with nothing bound.\<close>

definition stmt_insert :: dpiStmt where
  "stmt_insert = stmt0\<lparr>statementType := 4, hasRowsToFetch := False, scrollable := False,
                        queryVars := None, queryInfo := None\<rparr>"

text \<open>
  The calls of the protocol layer (dpiOci__*) in the log; the two attribute reads of
  dpiStmt__init, with which the open check initialises a statement whose type it does
  not know yet, are \<open>init_read\<close>.
\<close>

definition is_oci :: "ext_call \<Rightarrow> bool" where
  "is_oci c =
     (case c of
        VarSetValue v j \<Rightarrow> False
      | VarGetValue v j \<Rightarrow> False
      | VarConvertToLob v \<Rightarrow> False
      | VarExtendedPreFetch v \<Rightarrow> False
      | VarAllocate t n sz b ot \<Rightarrow> False
      | OracleTypeGetFromQueryInfo dt cf \<Rightarrow> False
      | ObjectTypeAllocate \<Rightarrow> False
      | ErrorCheck \<Rightarrow> False
      | GenStartPublicFn \<Rightarrow> False
      | GenCheckHandle v \<Rightarrow> False
      | GenSetRefCount p i \<Rightarrow> False
      | ConnDecrementOpenChildCount \<Rightarrow> False
      | Calloc n \<Rightarrow> False
      | Malloc n \<Rightarrow> False
      | _ \<Rightarrow> True)"

definition protocol_calls :: "machine \<Rightarrow> ext_call list" where
  "protocol_calls m = filter is_oci (map fst (log m))"

definition init_read :: "ext_call \<Rightarrow> bool" where
  "init_read c =
     (c = OciAttrGet DPI_OCI_ATTR_STMT_TYPE \<or> c = OciAttrGet DPI_OCI_ATTR_STMT_IS_RETURNING)"

definition other_protocol_calls :: "machine \<Rightarrow> ext_call list" where
  "other_protocol_calls m = filter (\<lambda>c. \<not> init_read c) (protocol_calls m)"

text \<open>An open statement whose type has not been read yet.\<close>

definition stmt_untyped :: dpiStmt where
  "stmt_untyped = stmt0\<lparr>statementType := 0, hasRowsToFetch := False\<rparr>"

text \<open>
  An environment in which the variable handle 7 is not valid (dpiGen__checkHandle fails
  for it) and every other call succeeds.
\<close>

definition env_bad_handle :: "(ext_call \<times> reply) list \<Rightarrow> ext_call \<Rightarrow> reply" where
  "env_bad_handle h c =
     (if c = GenCheckHandle 7
        then Fail \<lparr>eb_code = 0, eb_offset = 0, eb_errorNum = DPI_ERR_INVALID_HANDLE,
                   eb_fnName = []\<rparr>
      else Ok 0)"

text \<open>
  The server error codes with which the protocol executes in the log failed (\<open>None\<close>
  for one that succeeded).
\<close>

definition execute_codes :: "machine \<Rightarrow> int option list" where
  "execute_codes m =
     map (\<lambda>(c, r). case r of Fail b \<Rightarrow> Some (eb_code b) | _ \<Rightarrow> None)
       (filter (\<lambda>(c, r). is_execute c) (log m))"

text \<open>
  An environment in which every protocol execute fails with the server error code
  \<open>ora\<close>, every read of the parse error offset fails too, with the error code \<open>other\<close>,
  and every other call succeeds; the statement is a query.
\<close>

definition env_offset_fail ::
  "int \<Rightarrow> int \<Rightarrow> (ext_call \<times> reply) list \<Rightarrow> ext_call \<Rightarrow> reply" where
  "env_offset_fail ora other h c =
     (if is_execute c
        then Fail \<lparr>eb_code = ora, eb_offset = 0, eb_errorNum = DPI_ERR_OTHER 1, eb_fnName = []\<rparr>
      else if c = OciAttrGet DPI_OCI_ATTR_PARSE_ERROR_OFFSET
        then Fail \<lparr>eb_code = other, eb_offset = 0, eb_errorNum = DPI_ERR_OTHER 1,
                   eb_fnName = []\<rparr>
      else if c = OciAttrGet DPI_OCI_ATTR_STMT_TYPE then Ok 1 else Ok 0)"

text \<open>
  The reads of the batch error collection that failed: of a per-iteration error handle
  and of a row offset.
\<close>

definition is_collect_read :: "ext_call \<Rightarrow> bool" where
  "is_collect_read c =
     (case c of
        OciParamGet i \<Rightarrow> True
      | OciAttrGet a \<Rightarrow> a = DPI_OCI_ATTR_DML_ROW_OFFSET
      | _ \<Rightarrow> False)"

definition is_fail :: "reply \<Rightarrow> bool" where
  "is_fail r = (case r of Fail b \<Rightarrow> True | _ \<Rightarrow> False)"

definition failed_reads :: "machine \<Rightarrow> (ext_call \<times> reply) list" where
  "failed_reads m = filter (\<lambda>(c, r). is_collect_read c \<and> is_fail r) (log m)"

text \<open>
  An environment for a batch insert of which one row fails: the execution succeeds, one
  batch error is reported, its error handle and its row offset (3) are read, and the
  rendering of its message fails: dpiError__check leaves DPI_ERR_GET_FAILED in the
  buffer it was given.
\<close>

definition env_render_fail :: "(ext_call \<times> reply) list \<Rightarrow> ext_call \<Rightarrow> reply" where
  "env_render_fail h c =
     (if c = OciAttrGet DPI_OCI_ATTR_NUM_DML_ERRORS then Ok 1
      else if c = OciAttrGet DPI_OCI_ATTR_DML_ROW_OFFSET then Ok 3
      else if c = ErrorCheck
        then Fail \<lparr>eb_code = 0, eb_offset = 0, eb_errorNum = DPI_ERR_GET_FAILED,
                   eb_fnName = []\<rparr>
      else Ok 0)"

section \<open>Reasoning about actions\<close>

declare dpiStmt__execute.simps [simp del] dpiStmt__reExecute.simps [simp del]

lemma ret_apply [simp]: "ret x m = (Some x, m)"
  by (simp add: ret_def)

lemma getS_apply [simp]: "getS f m = (Some (f m), m)"
  by (simp add: getS_def)

lemma failS_apply [simp]: "failS m = (None, m)"
  by (simp add: failS_def)

lemma modify_apply [simp]: "modify f m = (Some (), upd_stmt f m)"
  by (simp add: modify_def)

lemma modifyVar_apply [simp]: "modifyVar v f m = (Some (), upd_var v f m)"
  by (simp add: modifyVar_def)

lemma whenS_simps [simp]: "whenS True f = f" "whenS False f = ret ()"
  by (simp_all add: whenS_def)

lemma catchS_apply [simp]: "catchS f m = (Some (fst (f m)), snd (f m))"
  by (simp add: catchS_def)

lemma ignoreS_apply [simp]: "ignoreS f m = (Some (), snd (f m))"
  by (simp add: ignoreS_def)

lemma stmt_upd_stmt [simp]: "stmt (upd_stmt f m) = f (stmt m)"
  by (simp add: upd_stmt_def)

lemma bindS_Some: "f m = (Some x, m1) \<Longrightarrow> bindS f g m = g x m1"
  by (simp add: bindS_def)

lemma bindS_None: "f m = (None, m1) \<Longrightarrow> bindS f g m = (None, m1)"
  by (simp add: bindS_def)

lemma bindS_E:
  assumes "bindS f g m = (r, m')"
  obtains (fail) "f m = (None, m')" "r = None"
        | (ok) x m1 where "f m = (Some x, m1)" "g x m1 = (r, m')"
  using assms by (auto simp: bindS_def split: prod.splits option.splits)

lemma keepsD: "keeps obs f \<Longrightarrow> f m = (r, m') \<Longrightarrow> obs m' = obs m"
  by (auto simp: keeps_def dest: spec [where x = m])

lemma keeps_ret: "keeps obs (ret x)"
  by (simp add: keeps_def)

lemma keeps_getS: "keeps obs (getS f)"
  by (simp add: keeps_def)

lemma keeps_failS: "keeps obs failS"
  by (simp add: keeps_def)

lemma keeps_bindS: "keeps obs f \<Longrightarrow> (\<And>x. keeps obs (g x)) \<Longrightarrow> keeps obs (bindS f g)"
  by (auto simp: keeps_def bindS_def split: prod.splits option.splits)
     (metis snd_conv)+

lemma keeps_whenS: "keeps obs f \<Longrightarrow> keeps obs (whenS b f)"
  by (simp add: whenS_def keeps_ret)

lemma keeps_if: "keeps obs f \<Longrightarrow> keeps obs g \<Longrightarrow> keeps obs (if b then f else g)"
  by simp

lemma keeps_case_option:
  "keeps obs f \<Longrightarrow> (\<And>x. keeps obs (g x)) \<Longrightarrow> keeps obs (case opt of None \<Rightarrow> f | Some x \<Rightarrow> g x)"
  by (cases opt) simp_all

lemma keeps_case_prod: "(\<And>a b. keeps obs (f a b)) \<Longrightarrow> keeps obs (case p of (a, b) \<Rightarrow> f a b)"
  by (cases p) simp

lemma keeps_catchS: "keeps obs f \<Longrightarrow> keeps obs (catchS f)"
  by (simp add: keeps_def)

lemma keeps_ignoreS: "keeps obs f \<Longrightarrow> keeps obs (ignoreS f)"
  by (simp add: keeps_def)

lemma keeps_forS: "(\<And>i. keeps obs (body i)) \<Longrightarrow> keeps obs (forS is body)"
  by (induction "is") (simp_all add: keeps_ret keeps_bindS)

lemma keeps_modify: "(\<And>m. obs (upd_stmt f m) = obs m) \<Longrightarrow> keeps obs (modify f)"
  by (simp add: keeps_def)

lemma keeps_ext: "quiet obs c \<Longrightarrow> obs (snd (ext c m)) = obs m"
  by (simp add: ext_def quiet_def Let_def)

lemma keeps_call: "frame obs \<Longrightarrow> quiet obs c \<Longrightarrow> keeps obs (call c)"
  by (auto simp: keeps_def call_def ext_def Let_def frame_def quiet_def split: reply.splits)

lemma keeps_callU: "frame obs \<Longrightarrow> quiet obs c \<Longrightarrow> keeps obs (callU c)"
  by (simp add: callU_def keeps_bindS keeps_call keeps_ret)

lemma keeps_callV: "frame obs \<Longrightarrow> quiet obs c \<Longrightarrow> keeps obs (callV c)"
  by (auto simp: keeps_def callV_def ext_def Let_def frame_def quiet_def split: reply.splits)

lemma keeps_callT: "frame obs \<Longrightarrow> quiet obs c \<Longrightarrow> keeps obs (callT c)"
  by (auto simp: keeps_def callT_def ext_def Let_def frame_def quiet_def split: reply.splits)

lemma keeps_allocS: "quiet obs c \<Longrightarrow> keeps obs (allocS c)"
  by (auto simp: keeps_def allocS_def ext_def Let_def quiet_def split: reply.splits)

lemma keeps_dpiError__set: "frame obs \<Longrightarrow> keeps obs (dpiError__set e)"
  by (simp add: keeps_def dpiError__set_def frame_def)

lemma keeps_ub: "frame obs \<Longrightarrow> keeps obs ub"
  by (simp add: keeps_def ub_def frame_def)

lemma keeps_modifyVar: "frame obs \<Longrightarrow> keeps obs (modifyVar v f)"
  by (simp add: keeps_def upd_var_def frame_def)

lemma keeps_setRefCount:
  "quiet obs (GenSetRefCount p i) \<Longrightarrow> (\<And>m r. obs (m\<lparr>refCount := r\<rparr>) = obs m) \<Longrightarrow>
   keeps obs (dpiGen__setRefCount p i)"
  by (simp add: keeps_def dpiGen__setRefCount_def ext_def Let_def quiet_def)

lemma keeps_nthS: "frame obs \<Longrightarrow> keeps obs (nthS arr i)"
  by (simp add: nthS_def keeps_ret keeps_ub split: option.splits)

lemmas keeps_intros =
  keeps_ret keeps_getS keeps_failS keeps_bindS keeps_whenS keeps_if keeps_case_option
  keeps_case_prod keeps_catchS keeps_ignoreS keeps_forS keeps_modify keeps_call keeps_callU
  keeps_callV keeps_callT keeps_allocS keeps_dpiError__set keeps_ub keeps_modifyVar
  keeps_setRefCount keeps_nthS

lemma inert_majors: "inert majors"
  by (simp add: inert_def frame_def quiet_def majors_def upd_stmt_def)

lemma inert_batch: "inert batch"
  by (simp add: inert_def frame_def quiet_def batch_def upd_stmt_def)

lemma inert_modify:
  "inert obs \<Longrightarrow> (\<And>s. numBatchErrors (f s) = numBatchErrors s) \<Longrightarrow>
   (\<And>s. batchErrors (f s) = batchErrors s) \<Longrightarrow> keeps obs (modify f)"
  by (simp add: inert_def keeps_def)

lemma inert_call: "inert obs \<Longrightarrow> \<not> major_call c \<Longrightarrow> keeps obs (call c)"
  by (simp add: inert_def keeps_call)

lemma inert_callU: "inert obs \<Longrightarrow> \<not> major_call c \<Longrightarrow> keeps obs (callU c)"
  by (simp add: inert_def keeps_callU)

lemma inert_callV: "inert obs \<Longrightarrow> \<not> major_call c \<Longrightarrow> keeps obs (callV c)"
  by (simp add: inert_def keeps_callV)

lemma inert_callT: "inert obs \<Longrightarrow> \<not> major_call c \<Longrightarrow> keeps obs (callT c)"
  by (simp add: inert_def keeps_callT)

lemma inert_allocS: "inert obs \<Longrightarrow> \<not> major_call c \<Longrightarrow> keeps obs (allocS c)"
  by (simp add: inert_def keeps_allocS)

lemma inert_error: "inert obs \<Longrightarrow> keeps obs (dpiError__set e)"
  by (simp add: inert_def keeps_dpiError__set)

lemma inert_ub: "inert obs \<Longrightarrow> keeps obs ub"
  by (simp add: inert_def keeps_ub)

lemma inert_modifyVar: "inert obs \<Longrightarrow> keeps obs (modifyVar v f)"
  by (simp add: inert_def keeps_modifyVar)

lemma inert_setRefCount: "inert obs \<Longrightarrow> keeps obs (dpiGen__setRefCount p i)"
  by (rule keeps_setRefCount) (simp_all add: inert_def major_call_def)

lemma inert_nthS: "inert obs \<Longrightarrow> keeps obs (nthS arr i)"
  by (simp add: inert_def keeps_nthS)

lemmas keeps_struct =
  keeps_ret keeps_getS keeps_failS keeps_bindS keeps_whenS keeps_if keeps_case_option
  keeps_case_prod keeps_catchS keeps_ignoreS keeps_forS

lemmas inert_leaf =
  inert_modify inert_call inert_callU inert_callV inert_callT inert_allocS
  inert_error inert_ub inert_modifyVar inert_setRefCount inert_nthS

lemma inert_init: "inert obs \<Longrightarrow> keeps obs dpiStmt__init"
  unfolding dpiStmt__init_def
  by (intro keeps_struct inert_leaf; simp add: major_call_def)

lemma inert_checkOpen: "inert obs \<Longrightarrow> keeps obs dpiStmt__checkOpen"
  unfolding dpiStmt__checkOpen_def
  by (intro keeps_struct inert_leaf inert_init; simp add: major_call_def)

lemma inert_CHECK_PTR: "inert obs \<Longrightarrow> keeps obs (DPI_CHECK_PTR_NOT_NULL ok)"
  unfolding DPI_CHECK_PTR_NOT_NULL_def
  by (intro keeps_struct inert_leaf; simp)

lemma inert_clearQueryVars_slot: "inert obs \<Longrightarrow> keeps obs (dpiStmt__clearQueryVars_slot i)"
  unfolding dpiStmt__clearQueryVars_slot_def
  by (intro keeps_struct inert_leaf; simp add: major_call_def)

lemma inert_clearQueryVars: "inert obs \<Longrightarrow> keeps obs dpiStmt__clearQueryVars"
  unfolding dpiStmt__clearQueryVars_def
  by (intro keeps_struct inert_leaf inert_clearQueryVars_slot; simp add: major_call_def)

lemma inert_clearBindVars: "inert obs \<Longrightarrow> keeps obs dpiStmt__clearBindVars"
  unfolding dpiStmt__clearBindVars_def
  by (intro keeps_struct inert_leaf; simp add: major_call_def)

lemma inert_byteSizes: "inert obs \<Longrightarrow> keeps obs (queryInfo_byteSizes ot)"
  unfolding queryInfo_byteSizes_def
  by (intro keeps_struct inert_leaf; simp add: major_call_def)

lemma inert_charSizes: "inert obs \<Longrightarrow> keeps obs (queryInfo_charSizes ot cf sizes)"
  unfolding queryInfo_charSizes_def
  by (intro keeps_struct inert_leaf; simp add: major_call_def)

lemma inert_getQueryInfoFromParam: "inert obs \<Longrightarrow> keeps obs dpiStmt__getQueryInfoFromParam"
  unfolding dpiStmt__getQueryInfoFromParam_def
  by (intro keeps_struct inert_leaf inert_byteSizes inert_charSizes; simp add: major_call_def)

lemma inert_getQueryInfo: "inert obs \<Longrightarrow> keeps obs (dpiStmt__getQueryInfo p)"
  unfolding dpiStmt__getQueryInfo_def
  by (intro keeps_struct inert_leaf inert_getQueryInfoFromParam; simp add: major_call_def)

lemma inert_createQueryVars_column:
  "inert obs \<Longrightarrow> keeps obs (dpiStmt__createQueryVars_column i)"
  unfolding dpiStmt__createQueryVars_column_def
  by (intro keeps_struct inert_leaf inert_getQueryInfo inert_clearQueryVars;
      simp add: major_call_def)

lemma inert_createQueryVars_alloc:
  "inert obs \<Longrightarrow> keeps obs (dpiStmt__createQueryVars_alloc n)"
  unfolding dpiStmt__createQueryVars_alloc_def
  by (intro keeps_struct inert_leaf inert_createQueryVars_column inert_clearQueryVars;
      simp add: major_call_def)

lemma inert_createQueryVars: "inert obs \<Longrightarrow> keeps obs dpiStmt__createQueryVars"
  unfolding dpiStmt__createQueryVars_def
  by (intro keeps_struct inert_leaf inert_createQueryVars_alloc inert_clearQueryVars;
      simp add: major_call_def)

lemma inert_define: "inert obs \<Longrightarrow> keeps obs (dpiStmt__define p v)"
  unfolding dpiStmt__define_def
  by (intro keeps_struct inert_leaf; simp add: major_call_def)

lemma inert_preFetch_column: "inert obs \<Longrightarrow> keeps obs (dpiStmt__preFetch_column i)"
  unfolding dpiStmt__preFetch_column_def
  by (intro keeps_struct inert_leaf inert_define; simp add: major_call_def)

lemma inert_preFetch: "inert obs \<Longrightarrow> keeps obs dpiStmt__preFetch"
  unfolding dpiStmt__preFetch_def
  by (intro keeps_struct inert_leaf inert_preFetch_column inert_createQueryVars;
      simp add: major_call_def)

lemma inert_postFetch_column: "inert obs \<Longrightarrow> keeps obs (dpiStmt__postFetch_column i)"
  unfolding dpiStmt__postFetch_column_def
  by (intro keeps_struct inert_leaf; simp add: major_call_def)

lemma inert_postFetch: "inert obs \<Longrightarrow> keeps obs dpiStmt__postFetch"
  unfolding dpiStmt__postFetch_def
  by (intro keeps_struct inert_leaf inert_postFetch_column; simp add: major_call_def)

section \<open>Binding a locator again (C2)\<close>

lemma frame_stmt: "frame stmt"
  by (simp add: frame_def)

lemma quiet_stmt: "quiet stmt c"
  by (simp add: quiet_def)

lemma frame_ownership: "frame (ownership a)"
  by (simp add: frame_def ownership_def releases_def)

lemma quiet_ownership: "c \<noteq> GenSetRefCount a (- 1) \<Longrightarrow> quiet (ownership a) c"
  by (simp add: quiet_def ownership_def releases_def)

lemma ownership_upd_stmt [simp]: "ownership a (upd_stmt f m) = ownership a m"
  by (simp add: ownership_def releases_def upd_stmt_def)

lemma ownership_retain: "v \<noteq> a \<Longrightarrow> keeps (ownership a) (dpiGen__setRefCount v i)"
  by (simp add: keeps_def dpiGen__setRefCount_def ext_def Let_def ownership_def releases_def)

lemma bind_oci_stmt: "keeps stmt (dpiStmt__bind_oci v d p nm len)"
  unfolding dpiStmt__bind_oci_def
  by (intro keeps_struct keeps_call frame_stmt quiet_stmt)

lemma bind_oci_ownership: "keeps (ownership a) (dpiStmt__bind_oci v d p nm len)"
  unfolding dpiStmt__bind_oci_def
  by (intro keeps_struct keeps_call frame_ownership quiet_ownership; simp)

lemma bind_attrs_stmt: "keeps stmt (dpiStmt__bind_attrs v d)"
  unfolding dpiStmt__bind_attrs_def
  by (intro keeps_struct keeps_callU keeps_modifyVar frame_stmt quiet_stmt)

lemma bind_attrs_ownership: "keeps (ownership a) (dpiStmt__bind_attrs v d)"
  unfolding dpiStmt__bind_attrs_def
  by (intro keeps_struct keeps_callU keeps_modifyVar frame_ownership quiet_ownership; simp)

lemma bind_perform_ownership:
  "v \<noteq> a \<Longrightarrow> keeps (ownership a) (dpiStmt__bind_perform i v ar p nm len)"
  unfolding dpiStmt__bind_perform_def
  by (intro keeps_struct keeps_callV keeps_modify ownership_retain bind_oci_ownership
        bind_attrs_ownership frame_ownership quiet_ownership; simp)


lemma toLob_stmt:
  "whenS b (bindS (callV c) (\<lambda>_. ret ())) m = (r, m') \<Longrightarrow> stmt m' = stmt m"
proof -
  have "keeps stmt (whenS b (bindS (callV c) (\<lambda>_. ret ())))"
    by (intro keeps_struct keeps_callV frame_stmt quiet_stmt)
  then show "whenS b (bindS (callV c) (\<lambda>_. ret ())) m = (r, m') \<Longrightarrow> stmt m' = stmt m"
    by (rule keepsD)
qed

lemma keeps_stmt_setRefCount: "keeps stmt (dpiGen__setRefCount v i)"
  by (rule keeps_setRefCount) (simp_all add: quiet_def)

lemma setRefCount_Some: "fst (dpiGen__setRefCount v i m) = Some ()"
  by (simp add: dpiGen__setRefCount_def Let_def)

lemma retain_stmt:
  "whenS b (dpiGen__setRefCount v i) m = (r, m') \<Longrightarrow> stmt m' = stmt m \<and> r = Some ()"
  using keepsD [OF keeps_stmt_setRefCount, of v i m r m'] setRefCount_Some [of v i m]
  by (cases b) auto

lemma bind_perform_stmt:
  assumes "dpiStmt__bind_perform i v ar p nm len m = (r, m')"
  shows "(r = None \<and> stmt m' = stmt m) \<or> stmt m' = set_entry_var i (Some v) (stmt m)"
  using assms unfolding dpiStmt__bind_perform_def
  by (auto elim!: bindS_E dest!: toLob_stmt retain_stmt keepsD [OF bind_oci_stmt]
        keepsD [OF bind_attrs_stmt])

lemma strncmp_differs_take: "n \<le> length xs \<Longrightarrow> \<not> strncmp_differs (take n xs) xs n"
proof (induction n arbitrary: xs)
  case 0
  then show ?case by simp
next
  case (Suc n)
  then obtain y ys where "xs = y # ys" by (cases xs) auto
  with Suc show ?case by simp
qed

lemma entry_matches_var [simp]:
  "entry_matches (e\<lparr>bv_var := x\<rparr>) p nm len = entry_matches e p nm len"
  by (simp add: entry_matches_def)

lemma find_entry_Some:
  "find_entry es p nm len = Some i \<Longrightarrow> i < length es \<and> entry_matches (es ! i) p nm len"
proof (induction es arbitrary: i)
  case Nil
  then show ?case by simp
next
  case (Cons e es)
  then show ?case by (auto split: if_splits)
qed

lemma find_entry_set_var:
  "find_entry (es[k := (es ! k)\<lparr>bv_var := x\<rparr>]) p nm len = find_entry es p nm len"
proof (induction es arbitrary: k)
  case Nil
  then show ?case by simp
next
  case (Cons e es)
  then show ?case by (cases k) simp_all
qed

lemma find_entry_append:
  "find_entry es p nm len = None \<Longrightarrow> entry_matches e p nm len \<Longrightarrow>
   find_entry (es @ [e]) p nm len = Some (length es)"
  by (induction es) (auto split: if_splits)


lemma bind_add_ownership: "keeps (ownership a) (dpiStmt__bind_add p nm len)"
  unfolding dpiStmt__bind_add_def
  by (intro keeps_struct keeps_allocS keeps_modify keeps_dpiError__set frame_ownership
        quiet_ownership; simp)

lemma allocS_stmt: "allocS c m = (r, m') \<Longrightarrow> stmt m' = stmt m"
  by (rule keepsD [OF keeps_allocS [OF quiet_stmt]])

lemma dpiError__set_None: "dpiError__set e m = (r, m') \<Longrightarrow> r = None"
  by (auto simp: dpiError__set_def)

lemma bind_add_Some:
  assumes "dpiStmt__bind_add p nm len m = (Some i, m')" and "locator_ok nm len"
  shows "i = length (bindVars (stmt m)) \<and>
         (\<exists>e. bindVars (stmt m') = bindVars (stmt m) @ [e] \<and> bv_var e = None \<and>
              entry_matches e p nm len)"
proof (cases nm)
  case None
  with assms show ?thesis
    unfolding dpiStmt__bind_add_def numBindVars_def
    by (auto elim!: bindS_E dest!: allocS_stmt dpiError__set_None
          simp: whenS_def locator_ok_def entry_matches_def split: if_splits)
next
  case (Some bytes)
  with assms show ?thesis
    unfolding dpiStmt__bind_add_def numBindVars_def
    by (auto elim!: bindS_E dest!: allocS_stmt dpiError__set_None
          simp: whenS_def locator_ok_def entry_matches_def strncmp_ne_def
            strncmp_differs_take split: if_splits)
qed

lemma bind_release_Some:
  assumes "bv_var (bindVars (stmt m) ! i) = Some a"
  shows "\<exists>m'. dpiStmt__bind_release i m = (Some (), m') \<and>
              stmt m' = set_entry_var i None (stmt m) \<and>
              refCount m' a = refCount m a - 1 \<and>
              releases a m' = releases a m @ [GenSetRefCount a (- 1)]"
  using assms
  by (simp add: dpiStmt__bind_release_def bindS_def dpiGen__setRefCount_def ext_def Let_def
        releases_def upd_stmt_def)

lemma bind_release_None:
  assumes "bv_var (bindVars (stmt m) ! i) = None"
  shows "dpiStmt__bind_release i m = (Some (), m)"
  using assms by (simp add: dpiStmt__bind_release_def bindS_def)

lemma bv_var_None_same: "bv_var e = None \<Longrightarrow> e\<lparr>bv_var := None\<rparr> = e"
  by (cases e) simp

lemma bind_release_stmt:
  "dpiStmt__bind_release i m = (r, m') \<Longrightarrow> stmt m' = set_entry_var i None (stmt m)"
  by (cases "bv_var (bindVars (stmt m) ! i)")
     (auto simp: dpiStmt__bind_release_def bindS_def dpiGen__setRefCount_def ext_def Let_def
        upd_stmt_def set_entry_var_def bv_var_None_same)

lemma set_entry_var_twice [simp]:
  "set_entry_var i x (set_entry_var i y s) = set_entry_var i x s"
  by (cases "i < length (bindVars s)") (simp_all add: set_entry_var_def list_update_beyond)

lemma bindVars_set_entry_var [simp]:
  "bindVars (set_entry_var i x s) = (bindVars s)[i := (bindVars s ! i)\<lparr>bv_var := x\<rparr>]"
  by (simp add: set_entry_var_def)

text \<open>After a successful bind the locator is in the registry, bound to the variable.\<close>

lemma bind_success_bound:
  assumes ok: "dpiStmt__bind a ra p nm len m = (Some (), m1)" and wf: "locator_ok nm len"
  shows "\<exists>i. find_entry (bindVars (stmt m1)) p nm len = Some i \<and>
             bv_var (bindVars (stmt m1) ! i) = Some a"
proof (cases "find_entry (bindVars (stmt m)) p nm len")
  case None
  with ok obtain i m' where add: "dpiStmt__bind_add p nm len m = (Some i, m')"
    and perf: "dpiStmt__bind_perform i a ra p nm len m' = (Some (), m1)"
    by (auto simp: dpiStmt__bind_def dpiError__set_def split: if_splits elim!: bindS_E)
  from bind_add_Some [OF add wf] obtain e where
    i: "i = length (bindVars (stmt m))" and
    e: "bindVars (stmt m') = bindVars (stmt m) @ [e]" "entry_matches e p nm len"
    by blast
  from bind_perform_stmt [OF perf]
  have "bindVars (stmt m1) = (bindVars (stmt m'))[i := (bindVars (stmt m') ! i)\<lparr>bv_var := Some a\<rparr>]"
    by simp
  moreover have "find_entry (bindVars (stmt m')) p nm len = Some i"
    using find_entry_append [OF None e(2)] e(1) i by simp
  moreover have "i < length (bindVars (stmt m'))"
    using e(1) i by simp
  ultimately show ?thesis
    by (simp add: find_entry_set_var)
next
  case (Some i)
  note found = find_entry_Some [OF Some]
  show ?thesis
  proof (cases "bv_var (bindVars (stmt m) ! i) = Some a")
    case True
    with ok Some have "m1 = m"
      by (auto simp: dpiStmt__bind_def dpiError__set_def bindS_def split: if_splits)
    with True Some show ?thesis by simp
  next
    case False
    with ok Some obtain m' where rel: "dpiStmt__bind_release i m = (Some (), m')"
      and perf: "dpiStmt__bind_perform i a ra p nm len m' = (Some (), m1)"
      by (auto simp: dpiStmt__bind_def dpiError__set_def split: if_splits elim!: bindS_E)
    from bind_perform_stmt [OF perf] bind_release_stmt [OF rel]
    have "bindVars (stmt m1) = (bindVars (stmt m))[i := (bindVars (stmt m) ! i)\<lparr>bv_var := Some a\<rparr>]"
      by simp
    with Some found show ?thesis
      by (simp add: find_entry_set_var)
  qed
qed


lemma bind_rejects_zero: "dpiStmt__bind v ar 0 nm 0 m = (r, m') \<Longrightarrow> r = None"
  by (simp add: dpiStmt__bind_def dpiError__set_def)

text \<open>
  Claim C2, as amended.  Let a bind of the variable \<open>a\<close> at a locator succeed, and let a
  different variable \<open>b\<close> be bound at the same locator afterwards.  Then the locator
  is an entry \<open>i\<close> of the registry holding \<open>a\<close>; the second bind leaves the number of
  entries as it is and changes only the variable of entry \<open>i\<close> (to \<open>b\<close>, or to NULL
  when the bind fails on the way); and it releases \<open>a\<close> exactly once: one
  dpiGen__setRefCount(a, -1) is added to the log and the reference count of \<open>a\<close> drops
  by one.  The position must not be 0 with a name of length 0, or the first bind fails.
\<close>

theorem rebind_replaces_entry:
  assumes wf: "locator_ok nm len"
    and first: "dpiStmt__bind a ra p nm len m = (Some (), m1)"
    and ne: "b \<noteq> a"
    and second: "dpiStmt__bind b rb p nm len m1 = (r, m2)"
  shows "\<exists>i. find_entry (bindVars (stmt m1)) p nm len = Some i \<and>
             bv_var (bindVars (stmt m1) ! i) = Some a \<and>
             numBindVars (stmt m2) = numBindVars (stmt m1) \<and>
             (bindVars (stmt m2) =
                (bindVars (stmt m1))[i := (bindVars (stmt m1) ! i)\<lparr>bv_var := Some b\<rparr>] \<or>
              r = None \<and>
              bindVars (stmt m2) =
                (bindVars (stmt m1))[i := (bindVars (stmt m1) ! i)\<lparr>bv_var := None\<rparr>]) \<and>
             refCount m2 a = refCount m1 a - 1 \<and>
             releases a m2 = releases a m1 @ [GenSetRefCount a (- 1)]"
proof -
  from bind_success_bound [OF first wf] obtain i where
    found: "find_entry (bindVars (stmt m1)) p nm len = Some i" and
    bound: "bv_var (bindVars (stmt m1) ! i) = Some a"
    by blast
  have valid: "\<not> (p = 0 \<and> len = 0)"
  proof
    assume "p = 0 \<and> len = 0"
    with first have "dpiStmt__bind a ra 0 nm 0 m = (Some (), m1)" by simp
    from bind_rejects_zero [OF this] show False by simp
  qed
  from bind_release_Some [OF bound] obtain m' where
    rel: "dpiStmt__bind_release i m1 = (Some (), m')" and
    st: "stmt m' = set_entry_var i None (stmt m1)" and
    rc: "refCount m' a = refCount m1 a - 1" and
    ev: "releases a m' = releases a m1 @ [GenSetRefCount a (- 1)]"
    by blast
  have "dpiStmt__bind b rb p nm len m1 = dpiStmt__bind_perform i b rb p nm len m'"
    using valid found bound ne rel by (auto simp: dpiStmt__bind_def bindS_def)
  with second have perf: "dpiStmt__bind_perform i b rb p nm len m' = (r, m2)"
    by simp
  have own: "ownership a m2 = ownership a m'"
    by (rule keepsD [OF bind_perform_ownership [OF ne] perf])
  from bind_perform_stmt [OF perf] st
  have regs: "bindVars (stmt m2) =
                (bindVars (stmt m1))[i := (bindVars (stmt m1) ! i)\<lparr>bv_var := Some b\<rparr>] \<or>
              r = None \<and>
              bindVars (stmt m2) =
                (bindVars (stmt m1))[i := (bindVars (stmt m1) ! i)\<lparr>bv_var := None\<rparr>]"
    by auto
  then have "numBindVars (stmt m2) = numBindVars (stmt m1)"
    by (auto simp: numBindVars_def)
  with found bound regs own rc ev show ?thesis
    by (simp add: ownership_def)
qed

lemmas eval_defs =
  dpiStmt__bind_def dpiStmt__bind_add_def dpiStmt__bind_perform_def dpiStmt__bind_release_def
  dpiStmt__bind_oci_def dpiStmt__bind_attrs_def dpiStmt_bindByPos_def dpiStmt_getBindCount_def
  dpiStmt__checkOpen_def DPI_CHECK_PTR_NOT_NULL_def
  bindS_def call_def callU_def callV_def allocS_def ext_def dpiGen__setRefCount_def
  dpiError__set_def upd_stmt_def upd_var_def set_entry_var_def numBindVars_def
  machine0_def stmt0_def var0_def zeroErrorBuffer_def env_two_binds_def
  reply_value_def is_plsql_def DPI_SQLCS_IMPLICIT_def entry_matches_def Let_def

lemma ex_bind1:
  "dpiStmt__bind 7 True 1 None 0 (machine0 stmt0 env_two_binds) =
     (Some (), snd (dpiStmt__bind 7 True 1 None 0 (machine0 stmt0 env_two_binds)))"
  by (simp add: eval_defs)

theorem rebind_replaces_entry_witness:
  "numBindVars (stmt (snd (dpiStmt__bind 8 True 1 None 0
      (snd (dpiStmt__bind 7 True 1 None 0 (machine0 stmt0 env_two_binds)))))) = 1 \<and>
   refCount (snd (dpiStmt__bind 8 True 1 None 0
      (snd (dpiStmt__bind 7 True 1 None 0 (machine0 stmt0 env_two_binds))))) 7 =
   refCount (snd (dpiStmt__bind 7 True 1 None 0 (machine0 stmt0 env_two_binds))) 7 - 1"
  using rebind_replaces_entry [of None 0 7 True 1 "machine0 stmt0 env_two_binds"
      "snd (dpiStmt__bind 7 True 1 None 0 (machine0 stmt0 env_two_binds))" 8 True
      "fst (dpiStmt__bind 8 True 1 None 0
         (snd (dpiStmt__bind 7 True 1 None 0 (machine0 stmt0 env_two_binds))))"
      "snd (dpiStmt__bind 8 True 1 None 0
         (snd (dpiStmt__bind 7 True 1 None 0 (machine0 stmt0 env_two_binds))))"]
    ex_bind1
  by (simp add: locator_ok_def) (simp add: eval_defs)

text \<open>
  dpiStmt_getBindCount does not count the entries of the registry: it returns the
  attribute DPI_OCI_ATTR_BIND_COUNT of the protocol layer.  For a statement whose SQL
  text has two placeholders, binding position 1 to variable 7 and then to variable 8
  leaves one entry in the registry, and the bind count reported is 2.
\<close>

theorem bind_count_counterexample:
  "fst (dpiStmt_bindByPos 1 7 (machine0 stmt0 env_two_binds)) = Some () \<and>
   fst (dpiStmt_bindByPos 1 8 (snd (dpiStmt_bindByPos 1 7 (machine0 stmt0 env_two_binds))))
     = Some () \<and>
   fst (dpiStmt_getBindCount True
     (snd (dpiStmt_bindByPos 1 8 (snd (dpiStmt_bindByPos 1 7 (machine0 stmt0 env_two_binds))))))
     = Some 2"
  by (simp add: eval_defs)

section \<open>The locator with position 0 and no name (C7)\<close>

text \<open>
  dpiStmt_bindByPos and dpiStmt_bindByName with position 0 and name length 0, case by
  case: the open check, the test of the name pointer (by name only), the check of the
  variable handle, and the rejection in dpiStmt__bind.
\<close>

lemma bindByPos_zero_cases:
  "dpiStmt_bindByPos 0 v m =
     (case dpiStmt__checkOpen m of
        (None, m1) \<Rightarrow> (None, m1)
      | (Some _, m1) \<Rightarrow>
          (case call (GenCheckHandle v) m1 of
             (None, m2) \<Rightarrow> (None, m2)
           | (Some _, m2) \<Rightarrow>
               (None, m2\<lparr>errbuf := (errbuf m2)\<lparr>eb_errorNum := DPI_ERR_NOT_SUPPORTED\<rparr>\<rparr>)))"
  by (simp add: dpiStmt_bindByPos_def dpiStmt__bind_def dpiError__set_def bindS_def
        split: prod.splits option.splits)

lemma bindByName_zero_cases:
  "dpiStmt_bindByName nm 0 v m =
     (case dpiStmt__checkOpen m of
        (None, m1) \<Rightarrow> (None, m1)
      | (Some _, m1) \<Rightarrow>
          if nm = None
          then (None, m1\<lparr>errbuf := (errbuf m1)\<lparr>eb_errorNum := DPI_ERR_NULL_POINTER_PARAMETER\<rparr>\<rparr>)
          else
            (case call (GenCheckHandle v) m1 of
               (None, m2) \<Rightarrow> (None, m2)
             | (Some _, m2) \<Rightarrow>
                 (None, m2\<lparr>errbuf := (errbuf m2)\<lparr>eb_errorNum := DPI_ERR_NOT_SUPPORTED\<rparr>\<rparr>)))"
  by (auto simp: dpiStmt_bindByName_def dpiStmt__bind_def dpiError__set_def bindS_def
        DPI_CHECK_PTR_NOT_NULL_def split: prod.splits option.splits)

lemma checkOpen_bindVars: "keeps (\<lambda>m. bindVars (stmt m)) dpiStmt__checkOpen"
  unfolding dpiStmt__checkOpen_def dpiStmt__init_def
  by (intro keeps_struct keeps_call keeps_modify keeps_dpiError__set;
      simp add: frame_def quiet_def)

lemma checkOpen_other_calls: "keeps other_protocol_calls dpiStmt__checkOpen"
  unfolding dpiStmt__checkOpen_def dpiStmt__init_def
  by (intro keeps_struct keeps_call keeps_modify keeps_dpiError__set;
      simp add: frame_def quiet_def other_protocol_calls_def protocol_calls_def is_oci_def
        init_read_def upd_stmt_def)

lemma checkOpen_typed_calls:
  "statementType (stmt m) \<noteq> 0 \<Longrightarrow>
   protocol_calls (snd (dpiStmt__checkOpen m)) = protocol_calls m"
  by (auto simp: dpiStmt__checkOpen_def bindS_def call_def ext_def Let_def dpiError__set_def
        protocol_calls_def is_oci_def split: reply.splits)

lemma checkHandle_keeps:
  assumes "call (GenCheckHandle v) m1 = (r, m2)"
  shows "bindVars (stmt m2) = bindVars (stmt m1)"
    and "protocol_calls m2 = protocol_calls m1"
  using assms
  by (auto simp: call_def ext_def Let_def protocol_calls_def is_oci_def split: reply.splits)

lemma bindByPos_zero_facts:
  "fst (dpiStmt_bindByPos 0 v m) = None \<and>
   bindVars (stmt (snd (dpiStmt_bindByPos 0 v m))) = bindVars (stmt m) \<and>
   protocol_calls (snd (dpiStmt_bindByPos 0 v m)) = protocol_calls (snd (dpiStmt__checkOpen m))"
proof (cases "dpiStmt__checkOpen m")
  case (Pair a m1)
  note open1 = keepsD [OF checkOpen_bindVars Pair]
  show ?thesis
  proof (cases a)
    case None
    with Pair open1 show ?thesis
      by (simp add: bindByPos_zero_cases)
  next
    case (Some u)
    obtain r m2 where c: "call (GenCheckHandle v) m1 = (r, m2)"
      by (cases "call (GenCheckHandle v) m1") auto
    from Pair Some c open1 checkHandle_keeps [OF c] show ?thesis
      by (cases r) (simp_all add: bindByPos_zero_cases protocol_calls_def)
  qed
qed

lemma bindByName_zero_facts:
  "fst (dpiStmt_bindByName nm 0 v m) = None \<and>
   bindVars (stmt (snd (dpiStmt_bindByName nm 0 v m))) = bindVars (stmt m) \<and>
   protocol_calls (snd (dpiStmt_bindByName nm 0 v m)) =
     protocol_calls (snd (dpiStmt__checkOpen m))"
proof (cases "dpiStmt__checkOpen m")
  case (Pair a m1)
  note open1 = keepsD [OF checkOpen_bindVars Pair]
  show ?thesis
  proof (cases a)
    case None
    with Pair open1 show ?thesis
      by (simp add: bindByName_zero_cases)
  next
    case (Some u)
    obtain r m2 where c: "call (GenCheckHandle v) m1 = (r, m2)"
      by (cases "call (GenCheckHandle v) m1") auto
    from Pair Some c open1 checkHandle_keeps [OF c] show ?thesis
      by (cases r) (simp_all add: bindByName_zero_cases protocol_calls_def)
  qed
qed

text \<open>
  Claim C7, as amended.  A bind call with position 0 and name length 0, through
  dpiStmt_bindByPos or through dpiStmt_bindByName, never succeeds and leaves the bind
  registry as it was.  It makes no call of the protocol layer after the open check, and
  the open check makes none when the statement type is known; when it is not, the only
  ones are the two attribute reads of the lazy initialisation.  On an open statement
  (the open check passes) and with a valid variable handle the error is
  DPI_ERR_NOT_SUPPORTED, set by dpiStmt__bind, and nothing else of the state changes;
  dpiStmt_bindByName with a NULL name is rejected before that, as a NULL pointer
  argument.
\<close>

theorem bind_zero_locator_rejected:
  "fst (dpiStmt_bindByPos 0 v m) = None \<and>
   fst (dpiStmt_bindByName nm 0 v m) = None \<and>
   bindVars (stmt (snd (dpiStmt_bindByPos 0 v m))) = bindVars (stmt m) \<and>
   bindVars (stmt (snd (dpiStmt_bindByName nm 0 v m))) = bindVars (stmt m) \<and>
   other_protocol_calls (snd (dpiStmt_bindByPos 0 v m)) = other_protocol_calls m \<and>
   other_protocol_calls (snd (dpiStmt_bindByName nm 0 v m)) = other_protocol_calls m \<and>
   (statementType (stmt m) \<noteq> 0 \<longrightarrow>
      protocol_calls (snd (dpiStmt_bindByPos 0 v m)) = protocol_calls m \<and>
      protocol_calls (snd (dpiStmt_bindByName nm 0 v m)) = protocol_calls m) \<and>
   (dpiStmt__checkOpen m = (Some (), m1) \<and> call (GenCheckHandle v) m1 = (Some u, m2) \<longrightarrow>
      dpiStmt_bindByPos 0 v m =
        (None, m2\<lparr>errbuf := (errbuf m2)\<lparr>eb_errorNum := DPI_ERR_NOT_SUPPORTED\<rparr>\<rparr>) \<and>
      (nm \<noteq> None \<longrightarrow>
         dpiStmt_bindByName nm 0 v m =
           (None, m2\<lparr>errbuf := (errbuf m2)\<lparr>eb_errorNum := DPI_ERR_NOT_SUPPORTED\<rparr>\<rparr>))) \<and>
   (dpiStmt__checkOpen m = (Some (), m1) \<longrightarrow>
      dpiStmt_bindByName None 0 v m =
        (None, m1\<lparr>errbuf := (errbuf m1)\<lparr>eb_errorNum := DPI_ERR_NULL_POINTER_PARAMETER\<rparr>\<rparr>))"
proof -
  have other: "other_protocol_calls (snd (dpiStmt__checkOpen m)) = other_protocol_calls m"
    using checkOpen_other_calls by (simp add: keeps_def)
  have pos: "other_protocol_calls (snd (dpiStmt_bindByPos 0 v m)) = other_protocol_calls m"
    using bindByPos_zero_facts [of v m] other by (simp add: other_protocol_calls_def)
  have name: "other_protocol_calls (snd (dpiStmt_bindByName nm 0 v m)) = other_protocol_calls m"
    using bindByName_zero_facts [of nm v m] other by (simp add: other_protocol_calls_def)
  have typed: "protocol_calls (snd (dpiStmt_bindByPos 0 v m)) = protocol_calls m \<and>
      protocol_calls (snd (dpiStmt_bindByName nm 0 v m)) = protocol_calls m"
    if "statementType (stmt m) \<noteq> 0"
    using bindByPos_zero_facts [of v m] bindByName_zero_facts [of nm v m]
      checkOpen_typed_calls [OF that]
    by simp
  have exact: "dpiStmt_bindByPos 0 v m =
        (None, m2\<lparr>errbuf := (errbuf m2)\<lparr>eb_errorNum := DPI_ERR_NOT_SUPPORTED\<rparr>\<rparr>) \<and>
      (nm \<noteq> None \<longrightarrow>
         dpiStmt_bindByName nm 0 v m =
           (None, m2\<lparr>errbuf := (errbuf m2)\<lparr>eb_errorNum := DPI_ERR_NOT_SUPPORTED\<rparr>\<rparr>))"
    if "dpiStmt__checkOpen m = (Some (), m1)" "call (GenCheckHandle v) m1 = (Some u, m2)"
    using that by (simp add: bindByPos_zero_cases bindByName_zero_cases)
  have null: "dpiStmt_bindByName None 0 v m =
        (None, m1\<lparr>errbuf := (errbuf m1)\<lparr>eb_errorNum := DPI_ERR_NULL_POINTER_PARAMETER\<rparr>\<rparr>)"
    if "dpiStmt__checkOpen m = (Some (), m1)"
    using that by (simp add: bindByName_zero_cases)
  from bindByPos_zero_facts [of v m] bindByName_zero_facts [of nm v m] pos name typed exact null
  show ?thesis
    by blast
qed

lemma ex_zero_open:
  "dpiStmt__checkOpen (machine0 stmt0 env_two_binds) =
     (Some (), (machine0 stmt0 env_two_binds)\<lparr>log := [(GenStartPublicFn, Ok 0)]\<rparr>)"
  by (simp add: eval_defs)

lemma ex_zero_handle:
  "call (GenCheckHandle 7) ((machine0 stmt0 env_two_binds)\<lparr>log := [(GenStartPublicFn, Ok 0)]\<rparr>) =
     (Some 0, (machine0 stmt0 env_two_binds)
                \<lparr>log := [(GenStartPublicFn, Ok 0), (GenCheckHandle 7, Ok 0)]\<rparr>)"
  by (simp add: eval_defs)

text \<open>
  On an open query statement with nothing bound, binding the variable 7 at position 0,
  or at the name "a" with name length 0, fails with DPI_ERR_NOT_SUPPORTED; the only
  calls logged are those of the scaffold, and the registry stays empty.
\<close>

theorem bind_zero_locator_rejected_witness:
  "dpiStmt_bindByPos 0 7 (machine0 stmt0 env_two_binds) =
     (None, (machine0 stmt0 env_two_binds)
        \<lparr>log := [(GenStartPublicFn, Ok 0), (GenCheckHandle 7, Ok 0)],
         errbuf := zeroErrorBuffer\<lparr>eb_errorNum := DPI_ERR_NOT_SUPPORTED\<rparr>\<rparr>) \<and>
   dpiStmt_bindByName (Some ''a'') 0 7 (machine0 stmt0 env_two_binds) =
     (None, (machine0 stmt0 env_two_binds)
        \<lparr>log := [(GenStartPublicFn, Ok 0), (GenCheckHandle 7, Ok 0)],
         errbuf := zeroErrorBuffer\<lparr>eb_errorNum := DPI_ERR_NOT_SUPPORTED\<rparr>\<rparr>) \<and>
   dpiStmt_bindByName None 0 7 (machine0 stmt0 env_two_binds) =
     (None, (machine0 stmt0 env_two_binds)
        \<lparr>log := [(GenStartPublicFn, Ok 0)],
         errbuf := zeroErrorBuffer\<lparr>eb_errorNum := DPI_ERR_NULL_POINTER_PARAMETER\<rparr>\<rparr>) \<and>
   protocol_calls (snd (dpiStmt_bindByPos 0 7 (machine0 stmt0 env_two_binds))) = [] \<and>
   bindVars (stmt (snd (dpiStmt_bindByPos 0 7 (machine0 stmt0 env_two_binds)))) = []"
  using bind_zero_locator_rejected
    [where v = 7 and nm = "Some ''a''" and m = "machine0 stmt0 env_two_binds" and u = 0
       and ?m1.0 = "(machine0 stmt0 env_two_binds)\<lparr>log := [(GenStartPublicFn, Ok 0)]\<rparr>"
       and ?m2.0 = "(machine0 stmt0 env_two_binds)
                      \<lparr>log := [(GenStartPublicFn, Ok 0), (GenCheckHandle 7, Ok 0)]\<rparr>"]
  by (simp add: ex_zero_open ex_zero_handle)
     (simp add: machine0_def stmt0_def protocol_calls_def is_oci_def)

lemma ex_untyped_run:
  "dpiStmt_bindByPos 0 7 (machine0 stmt_untyped env_two_binds) =
     (None, (machine0 stmt_untyped env_two_binds)
        \<lparr>log := [(GenStartPublicFn, Ok 0), (OciAttrGet DPI_OCI_ATTR_STMT_TYPE, Ok 0),
                 (OciAttrGet DPI_OCI_ATTR_STMT_IS_RETURNING, Ok 0), (GenCheckHandle 7, Ok 0)],
         errbuf := zeroErrorBuffer\<lparr>eb_errorNum := DPI_ERR_NOT_SUPPORTED\<rparr>\<rparr>)"
  by (simp add: eval_defs dpiStmt__init_def stmt_untyped_def DPI_STMT_TYPE_SELECT_def)

text \<open>
  Four bind calls with position 0 and name length 0 on open statements.  Through
  dpiStmt_bindByPos the error is DPI_ERR_NOT_SUPPORTED, not InvalidArgument.  Through
  dpiStmt_bindByName with a NULL name it is DPI_ERR_NULL_POINTER_PARAMETER.  With a
  variable handle that is not valid it is the error of the handle check.  On a
  statement whose type has not been read yet, the open check reads two attributes
  through the protocol layer before the call is rejected.
\<close>

theorem bind_zero_locator_counterexample:
  "fst (dpiStmt_bindByPos 0 7 (machine0 stmt0 env_two_binds)) = None \<and>
   eb_errorNum (errbuf (snd (dpiStmt_bindByPos 0 7 (machine0 stmt0 env_two_binds))))
     = DPI_ERR_NOT_SUPPORTED \<and>
   eb_errorNum (errbuf (snd (dpiStmt_bindByPos 0 7 (machine0 stmt0 env_two_binds))))
     \<noteq> DPI_ERR_INVALID_ARGUMENT \<and>
   eb_errorNum (errbuf (snd (dpiStmt_bindByName None 0 7 (machine0 stmt0 env_two_binds))))
     = DPI_ERR_NULL_POINTER_PARAMETER \<and>
   eb_errorNum (errbuf (snd (dpiStmt_bindByPos 0 7 (machine0 stmt0 env_bad_handle))))
     = DPI_ERR_INVALID_HANDLE \<and>
   fst (dpiStmt_bindByPos 0 7 (machine0 stmt_untyped env_two_binds)) = None \<and>
   protocol_calls (snd (dpiStmt_bindByPos 0 7 (machine0 stmt_untyped env_two_binds))) =
     [OciAttrGet DPI_OCI_ATTR_STMT_TYPE, OciAttrGet DPI_OCI_ATTR_STMT_IS_RETURNING]"
  by (simp add: ex_untyped_run)
     (simp add: eval_defs dpiStmt_bindByName_def protocol_calls_def is_oci_def
        env_bad_handle_def)

section \<open>Fetching from the window (C3, C10)\<close>

lemma inert_protocol_fetches: "inert protocol_fetches"
  by (simp add: inert_def frame_def quiet_def protocol_fetches_def upd_stmt_def
        major_call_def is_fetch_def split: ext_call.splits)

lemma bindS_keeps_snd: "(\<And>x. keeps obs (g x)) \<Longrightarrow> obs (snd (bindS f g m)) = obs (snd (f m))"
  by (auto simp: bindS_def keeps_def split: prod.splits option.splits)

lemma keeps_snd: "keeps obs f \<Longrightarrow> obs (snd (f m)) = obs m"
  by (simp add: keeps_def)

lemma stmtFetch2_fetches:
  "protocol_fetches (snd (dpiOci__stmtFetch2 n md off m)) =
     protocol_fetches m @ [OciStmtFetch2 n md off]"
  by (simp add: dpiOci__stmtFetch2_def bindS_def call_def ext_def Let_def protocol_fetches_def
        is_fetch_def upd_stmt_def split: reply.splits)

lemma fetch_tail_keeps:
  "keeps protocol_fetches
     (bindS (call (OciAttrGet DPI_OCI_ATTR_ROWS_FETCHED)) (\<lambda>rows.
      bindS (modify (\<lambda>s. s\<lparr>bufferRowCount := word_of_nat rows\<rparr>)) (\<lambda>_.
      bindS (modify (\<lambda>s. s\<lparr>bufferMinRow := rowCount s + 1, bufferRowIndex := 0\<rparr>)) (\<lambda>_.
      dpiStmt__postFetch))))"
  by (intro keeps_struct inert_leaf inert_postFetch inert_protocol_fetches;
      simp add: major_call_def)

lemma fetch_internal_fetches:
  assumes "dpiStmt__preFetch m1 = (Some (), m2)"
  shows "protocol_fetches (snd (dpiStmt__fetch m1)) =
           protocol_fetches m1 @ [OciStmtFetch2 (fetchArraySize (stmt m2)) DPI_MODE_FETCH_NEXT 0]"
proof -
  have pre: "protocol_fetches m2 = protocol_fetches m1"
    by (rule keepsD [OF inert_preFetch [OF inert_protocol_fetches] assms])
  have "dpiStmt__fetch m1 =
          bindS (dpiOci__stmtFetch2 (fetchArraySize (stmt m2)) DPI_MODE_FETCH_NEXT 0) (\<lambda>_.
            bindS (call (OciAttrGet DPI_OCI_ATTR_ROWS_FETCHED)) (\<lambda>rows.
            bindS (modify (\<lambda>s. s\<lparr>bufferRowCount := word_of_nat rows\<rparr>)) (\<lambda>_.
            bindS (modify (\<lambda>s. s\<lparr>bufferMinRow := rowCount s + 1, bufferRowIndex := 0\<rparr>)) (\<lambda>_.
            dpiStmt__postFetch)))) m2"
    using assms by (simp add: dpiStmt__fetch_def bindS_def)
  then show ?thesis
    by (simp add: bindS_keeps_snd [OF fetch_tail_keeps] stmtFetch2_fetches pre)
qed

lemma fetch_internal_keeps_when_prefetch_fails:
  assumes "dpiStmt__preFetch m1 = (None, m2)"
  shows "protocol_fetches (snd (dpiStmt__fetch m1)) = protocol_fetches m1"
  using assms keepsD [OF inert_preFetch [OF inert_protocol_fetches] assms]
  by (simp add: dpiStmt__fetch_def bindS_def)

lemma checkOpen_fetches: "dpiStmt__checkOpen m = (r, m1) \<Longrightarrow> protocol_fetches m1 = protocol_fetches m"
  by (rule keepsD [OF inert_checkOpen [OF inert_protocol_fetches]])

lemma fetch_no_protocol_call:
  assumes "dpiStmt__checkOpen m = (Some (), m1)"
    and "\<not> (bufferRowCount (stmt m1) \<le> bufferRowIndex (stmt m1) \<and> hasRowsToFetch (stmt m1))"
  shows "protocol_fetches (snd (dpiStmt_fetch fo io m)) = protocol_fetches m"
  using assms checkOpen_fetches [OF assms(1)]
  by (auto simp: dpiStmt_fetch_def bindS_def DPI_CHECK_PTR_NOT_NULL_def dpiError__set_def
        protocol_fetches_def upd_stmt_def)

lemma fetchRows_no_protocol_call:
  assumes "dpiStmt__checkOpen m = (Some (), m1)"
    and "\<not> (bufferRowCount (stmt m1) \<le> bufferRowIndex (stmt m1) \<and> hasRowsToFetch (stmt m1))"
  shows "protocol_fetches (snd (dpiStmt_fetchRows maxRows io no mo m)) = protocol_fetches m"
  using assms checkOpen_fetches [OF assms(1)]
  by (auto simp: dpiStmt_fetchRows_def bindS_def DPI_CHECK_PTR_NOT_NULL_def dpiError__set_def
        protocol_fetches_def upd_stmt_def)

lemma fetch_closed_no_protocol_call:
  assumes "dpiStmt__checkOpen m = (None, m1)"
  shows "protocol_fetches (snd (dpiStmt_fetch fo io m)) = protocol_fetches m"
    and "protocol_fetches (snd (dpiStmt_fetchRows maxRows io no mo m)) = protocol_fetches m"
  using assms checkOpen_fetches [OF assms]
  by (simp_all add: dpiStmt_fetch_def dpiStmt_fetchRows_def bindS_def)

lemma fetch_consumes_buffered_row:
  assumes "dpiStmt__checkOpen m = (Some (), m1)"
    and "bufferRowIndex (stmt m1) < bufferRowCount (stmt m1)"
  shows "dpiStmt_fetch True True m =
           (Some (True, Some (bufferRowIndex (stmt m1))),
            upd_stmt (\<lambda>s. s\<lparr>bufferRowIndex := bufferRowIndex s + 1,
                              rowCount := rowCount s + 1\<rparr>) m1)"
proof -
  from assms(2) have "\<not> bufferRowCount (stmt m1) \<le> bufferRowIndex (stmt m1)"
    by simp
  with assms(1) show ?thesis
    by (simp add: dpiStmt_fetch_def bindS_def DPI_CHECK_PTR_NOT_NULL_def)
qed

lemma upd_stmt_fetches [simp]: "protocol_fetches (upd_stmt f m) = protocol_fetches m"
  by (simp add: protocol_fetches_def upd_stmt_def)

lemma fetch_issues_protocol_call:
  assumes "dpiStmt__checkOpen m = (Some (), m1)"
    and "bufferRowCount (stmt m1) \<le> bufferRowIndex (stmt m1)" and "hasRowsToFetch (stmt m1)"
    and "dpiStmt__preFetch m1 = (Some (), m2)"
  shows "protocol_fetches (snd (dpiStmt_fetch True True m)) =
           protocol_fetches m @ [OciStmtFetch2 (fetchArraySize (stmt m2)) DPI_MODE_FETCH_NEXT 0]"
proof -
  have "protocol_fetches (snd (dpiStmt_fetch True True m)) = protocol_fetches (snd (dpiStmt__fetch m1))"
    using assms(1-3)
    by (cases "dpiStmt__fetch m1")
       (auto simp: dpiStmt_fetch_def bindS_def DPI_CHECK_PTR_NOT_NULL_def split: option.splits)
  with fetch_internal_fetches [OF assms(4)] checkOpen_fetches [OF assms(1)]
  show ?thesis by simp
qed

lemma fetchRows_issues_protocol_call:
  assumes "dpiStmt__checkOpen m = (Some (), m1)"
    and "bufferRowCount (stmt m1) \<le> bufferRowIndex (stmt m1)" and "hasRowsToFetch (stmt m1)"
    and "dpiStmt__preFetch m1 = (Some (), m2)"
  shows "protocol_fetches (snd (dpiStmt_fetchRows maxRows True True True m)) =
           protocol_fetches m @ [OciStmtFetch2 (fetchArraySize (stmt m2)) DPI_MODE_FETCH_NEXT 0]"
proof -
  have "protocol_fetches (snd (dpiStmt_fetchRows maxRows True True True m)) =
          protocol_fetches (snd (dpiStmt__fetch m1))"
    using assms(1-3)
    by (cases "dpiStmt__fetch m1")
       (auto simp: dpiStmt_fetchRows_def bindS_def DPI_CHECK_PTR_NOT_NULL_def
          split: option.splits)
  with fetch_internal_fetches [OF assms(4)] checkOpen_fetches [OF assms(1)]
  show ?thesis by simp
qed


text \<open>
  Claim C3, as amended.  On an open statement (dpiStmt__checkOpen succeeds and leaves the
  state \<open>m1\<close>):
  \<^item> unless the window is exhausted (bufferRowIndex has reached bufferRowCount) and more
    rows are known to exist, neither dpiStmt_fetch nor dpiStmt_fetchRows issues a
    protocol fetch, whatever number of rows is asked for;
  \<^item> while the window holds a row, dpiStmt_fetch hands out the row at bufferRowIndex and
    advances the index and the row count by one;
  \<^item> when the window is exhausted, more rows are known to exist and the pre-fetch step
    succeeds, each of the two issues exactly one protocol fetch, for fetchArraySize
    rows in mode "next".
\<close>

theorem fetch_only_when_window_exhausted:
  assumes "dpiStmt__checkOpen m = (Some (), m1)"
  shows "(\<not> (bufferRowCount (stmt m1) \<le> bufferRowIndex (stmt m1) \<and> hasRowsToFetch (stmt m1)) \<longrightarrow>
            protocol_fetches (snd (dpiStmt_fetch fo io m)) = protocol_fetches m \<and>
            protocol_fetches (snd (dpiStmt_fetchRows maxRows io no mo m)) = protocol_fetches m) \<and>
         (bufferRowIndex (stmt m1) < bufferRowCount (stmt m1) \<longrightarrow>
            dpiStmt_fetch True True m =
              (Some (True, Some (bufferRowIndex (stmt m1))),
               upd_stmt (\<lambda>s. s\<lparr>bufferRowIndex := bufferRowIndex s + 1,
                                 rowCount := rowCount s + 1\<rparr>) m1)) \<and>
         (bufferRowCount (stmt m1) \<le> bufferRowIndex (stmt m1) \<and> hasRowsToFetch (stmt m1) \<and>
          dpiStmt__preFetch m1 = (Some (), m2) \<longrightarrow>
            protocol_fetches (snd (dpiStmt_fetch True True m)) =
              protocol_fetches m @
                [OciStmtFetch2 (fetchArraySize (stmt m2)) DPI_MODE_FETCH_NEXT 0] \<and>
            protocol_fetches (snd (dpiStmt_fetchRows maxRows True True True m)) =
              protocol_fetches m @
                [OciStmtFetch2 (fetchArraySize (stmt m2)) DPI_MODE_FETCH_NEXT 0])"
  using fetch_no_protocol_call [OF assms] fetchRows_no_protocol_call [OF assms]
    fetch_consumes_buffered_row [OF assms] fetch_issues_protocol_call [OF assms]
    fetchRows_issues_protocol_call [OF assms]
  by blast

lemmas fetch_eval_defs =
  fetch_once_def dpiStmt_fetch_def dpiStmt_fetchRows_def dpiStmt__fetch_def
  dpiStmt__preFetch_def dpiStmt__postFetch_def dpiOci__stmtFetch2_def dpiStmt__checkOpen_def
  DPI_CHECK_PTR_NOT_NULL_def bindS_def call_def ext_def dpiError__set_def upd_stmt_def
  machine0_def stmt0_def zeroErrorBuffer_def env_rows3_def is_fetch_def reply_value_def
  protocol_fetches_def Let_def

lemma checkOpen_fetched:
  "dpiStmt__checkOpen (fetched i r l) = (Some (), fetched i r (l @ [(GenStartPublicFn, Ok 0)]))"
  by (simp add: fetched_def fetch_eval_defs)

lemma preFetch_fetched: "dpiStmt__preFetch (fetched i r l) = (Some (), fetched i r l)"
  by (simp add: fetched_def fetch_eval_defs)

lemma fetch_once_first:
  "fetch_once (machine0 stmt0 env_rows3) =
     fetched 1 1 [(GenStartPublicFn, Ok 0), (OciStmtFetch2 3 DPI_MODE_FETCH_NEXT 0, Ok 1),
                  (OciAttrGet DPI_OCI_ATTR_ROWS_FETCHED, Ok 3)]"
  by (simp add: fetched_def fetch_eval_defs)

lemma fetched_fields:
  "bufferRowIndex (stmt (fetched i r l)) = i" "bufferRowCount (stmt (fetched i r l)) = 3"
  "hasRowsToFetch (stmt (fetched i r l))" "fetchArraySize (stmt (fetched i r l)) = 3"
  "protocol_fetches (fetched i r l) = filter is_fetch (map fst l)"
  by (simp_all add: fetched_def machine0_def stmt0_def protocol_fetches_def)

lemma fetched_advance:
  "upd_stmt (\<lambda>s. s\<lparr>bufferRowIndex := bufferRowIndex s + 1, rowCount := rowCount s + 1\<rparr>)
     (fetched i r l) = fetched (i + 1) (r + 1) l"
  by (simp add: fetched_def machine0_def stmt0_def upd_stmt_def)

text \<open>
  The scenario of the claim: fetch array size 3, a server that delivers three rows per
  batch.  The first dpiStmt_fetch issues a protocol fetch, the second and the third
  consume the batch, and the fourth issues the next protocol fetch.
\<close>

theorem fetch_only_when_window_exhausted_witness:
  "protocol_fetches (fetch_once (machine0 stmt0 env_rows3)) =
     [OciStmtFetch2 3 DPI_MODE_FETCH_NEXT 0] \<and>
   protocol_fetches (fetch_once (fetch_once (machine0 stmt0 env_rows3))) =
     [OciStmtFetch2 3 DPI_MODE_FETCH_NEXT 0] \<and>
   protocol_fetches (fetch_once (fetch_once (fetch_once (machine0 stmt0 env_rows3)))) =
     [OciStmtFetch2 3 DPI_MODE_FETCH_NEXT 0] \<and>
   protocol_fetches (fetch_once (fetch_once (fetch_once (fetch_once
       (machine0 stmt0 env_rows3))))) =
     [OciStmtFetch2 3 DPI_MODE_FETCH_NEXT 0, OciStmtFetch2 3 DPI_MODE_FETCH_NEXT 0]"
proof -
  have step: "fetch_once (fetched i r l) = fetched (i + 1) (r + 1) (l @ [(GenStartPublicFn, Ok 0)])"
    if "i < 3" for i r l
    using fetch_only_when_window_exhausted [OF checkOpen_fetched [of i r l]] that
    by (simp add: fetched_fields fetched_advance fetch_once_def)
  have last: "protocol_fetches (fetch_once (fetched 3 r l)) =
                protocol_fetches (fetched 3 r l) @ [OciStmtFetch2 3 DPI_MODE_FETCH_NEXT 0]"
    for r l
    using fetch_only_when_window_exhausted
        [where ?m2.0 = "fetched 3 r (l @ [(GenStartPublicFn, Ok 0)])",
         OF checkOpen_fetched [of 3 r l]]
    by (simp add: fetched_fields preFetch_fetched fetch_once_def)
  show ?thesis
    by (simp add: fetch_once_first step last fetched_fields is_fetch_def)
qed

text \<open>
  dpiStmt_fetchRows with maxRows = 0 on an exhausted window: the window holds as many
  rows as are asked for, none, and a protocol fetch is issued all the same.
\<close>

theorem fetchRows_zero_counterexample:
  "0 \<le> bufferRowCount (stmt (machine0 stmt0 env_rows3)) -
         bufferRowIndex (stmt (machine0 stmt0 env_rows3)) \<and>
   protocol_fetches (machine0 stmt0 env_rows3) = [] \<and>
   protocol_fetches (snd (dpiStmt_fetchRows 0 True True True (machine0 stmt0 env_rows3))) =
     [OciStmtFetch2 3 DPI_MODE_FETCH_NEXT 0]"
  by (simp add: fetch_eval_defs)

text \<open>
  Claim C10.  On an open statement whose window is exhausted and which has no more
  rows to fetch, dpiStmt_fetch succeeds with found = 0 and dpiStmt_fetchRows succeeds
  with bufferRowIndex = 0, numRowsFetched = 0 and moreRows = 0; neither changes the
  state that the open check left.
\<close>

theorem end_of_result_set_is_success:
  assumes "dpiStmt__checkOpen m = (Some (), m1)"
    and "bufferRowCount (stmt m1) \<le> bufferRowIndex (stmt m1)"
    and "\<not> hasRowsToFetch (stmt m1)"
  shows "dpiStmt_fetch True True m = (Some (False, None), m1) \<and>
         dpiStmt_fetchRows maxRows True True True m = (Some (0, 0, False), m1)"
  using assms
  by (simp add: dpiStmt_fetch_def dpiStmt_fetchRows_def bindS_def DPI_CHECK_PTR_NOT_NULL_def)

theorem end_of_result_set_is_success_witness:
  "fst (dpiStmt_fetch True True (machine0 (stmt0\<lparr>hasRowsToFetch := False\<rparr>) env_rows3)) =
     Some (False, None) \<and>
   fst (dpiStmt_fetchRows 5 True True True
          (machine0 (stmt0\<lparr>hasRowsToFetch := False\<rparr>) env_rows3)) = Some (0, 0, False)"
  using end_of_result_set_is_success
    [of "machine0 (stmt0\<lparr>hasRowsToFetch := False\<rparr>) env_rows3"
        "snd (dpiStmt__checkOpen (machine0 (stmt0\<lparr>hasRowsToFetch := False\<rparr>) env_rows3))" 5]
  by (simp add: fetch_eval_defs)

section \<open>Scrolling (C4, C5)\<close>

lemma postFetch_column_stmt: "keeps stmt (dpiStmt__postFetch_column i)"
  unfolding dpiStmt__postFetch_column_def
  by (intro keeps_struct keeps_callU keeps_modifyVar keeps_nthS keeps_ub frame_stmt quiet_stmt)

lemma postFetch_stmt: "keeps stmt dpiStmt__postFetch"
  unfolding dpiStmt__postFetch_def
  by (intro keeps_struct postFetch_column_stmt)

lemma scroll_dispatch:
  assumes "dpiStmt__checkOpen m = (Some (), m1)"
    and "scroll_desiredRow mode off rco (stmt m1) = Some (desired, off')"
  shows "dpiStmt_scroll mode off rco m =
           (if scroll_inWindow mode desired (stmt m1)
            then (Some (), upd_stmt (\<lambda>s. s\<lparr>bufferRowIndex := ucast (the desired - bufferMinRow s),
                                               rowCount := the desired - 1\<rparr>) m1)
            else dpiStmt_scroll_fetch mode off' m1)"
  using assms by (simp add: dpiStmt_scroll_def bindS_def)

lemma scroll_fetch_zero_rows:
  assumes "dpiStmt__preFetch m1 = (Some (), m2)"
    and "dpiOci__stmtFetch2 (if mode = DPI_MODE_FETCH_LAST then 1 else fetchArraySize (stmt m2))
           mode off' m2 = (Some (), m3)"
    and "call (OciAttrGet DPI_OCI_ATTR_ROWS_FETCHED) m3 = (Some n, m4)"
    and "(word_of_nat n :: 32 word) = 0"
  shows "dpiStmt_scroll_fetch mode off' m1 =
           (if mode = DPI_MODE_FETCH_FIRST \<or> mode = DPI_MODE_FETCH_LAST
            then (Some (), upd_stmt (\<lambda>s. s\<lparr>bufferRowCount := 0, hasRowsToFetch := False,
                     rowCount := 0, bufferRowIndex := 0, bufferMinRow := 0\<rparr>) m4)
            else (None, (upd_stmt (\<lambda>s. s\<lparr>bufferRowCount := 0\<rparr>) m4)
                    \<lparr>errbuf := (errbuf m4)\<lparr>eb_errorNum := DPI_ERR_SCROLL_OUT_OF_RS\<rparr>\<rparr>))"
  using assms
  by (simp add: dpiStmt_scroll_fetch_def bindS_def dpiError__set_def upd_stmt_def)

lemma scroll_tail_keeps:
  "keeps protocol_fetches
     (bindS (call (OciAttrGet DPI_OCI_ATTR_ROWS_FETCHED)) (\<lambda>rows.
      bindS (modify (\<lambda>s. s\<lparr>bufferRowCount := word_of_nat rows\<rparr>)) (\<lambda>_.
      if (word_of_nat rows :: 32 word) = 0 then
        (if mode \<noteq> DPI_MODE_FETCH_FIRST \<and> mode \<noteq> DPI_MODE_FETCH_LAST
         then dpiError__set DPI_ERR_SCROLL_OUT_OF_RS
         else modify (\<lambda>s. s\<lparr>hasRowsToFetch := False, rowCount := 0, bufferRowIndex := 0,
                             bufferMinRow := 0\<rparr>))
      else
        bindS (call (OciAttrGet DPI_OCI_ATTR_CURRENT_POSITION)) (\<lambda>currentPosition.
        bindS (modify (\<lambda>s. s\<lparr>rowCount :=
                 ucast ((word_of_nat currentPosition :: 32 word) - bufferRowCount s)\<rparr>)) (\<lambda>_.
        bindS (modify (\<lambda>s. s\<lparr>bufferMinRow := rowCount s + 1, bufferRowIndex := 0\<rparr>)) (\<lambda>_.
        dpiStmt__postFetch))))))"
  by (intro keeps_struct inert_leaf inert_postFetch inert_protocol_fetches;
      simp add: major_call_def)

lemma scroll_fetch_fetches:
  assumes "dpiStmt__preFetch m1 = (Some (), m2)"
  shows "protocol_fetches (snd (dpiStmt_scroll_fetch mode off' m1)) =
           protocol_fetches m1 @
             [OciStmtFetch2 (if mode = DPI_MODE_FETCH_LAST then 1 else fetchArraySize (stmt m2))
                mode off']"
proof -
  have pre: "protocol_fetches m2 = protocol_fetches m1"
    by (rule keepsD [OF inert_preFetch [OF inert_protocol_fetches] assms])
  show ?thesis
    using assms
    by (simp add: dpiStmt_scroll_fetch_def bindS_Some [where f = dpiStmt__preFetch]
          bindS_Some [where f = "getS f" for f]
          bindS_keeps_snd [OF scroll_tail_keeps] stmtFetch2_fetches pre)
qed

lemma scroll_fetch_window:
  assumes "dpiStmt__preFetch m1 = (Some (), m2)"
    and "dpiOci__stmtFetch2 (if mode = DPI_MODE_FETCH_LAST then 1 else fetchArraySize (stmt m2))
           mode off' m2 = (Some (), m3)"
    and "call (OciAttrGet DPI_OCI_ATTR_ROWS_FETCHED) m3 = (Some n, m4)"
    and "(word_of_nat n :: 32 word) \<noteq> 0"
    and "call (OciAttrGet DPI_OCI_ATTR_CURRENT_POSITION)
           (upd_stmt (\<lambda>s. s\<lparr>bufferRowCount := word_of_nat n\<rparr>) m4) = (Some cp, m5)"
  shows "stmt (snd (dpiStmt_scroll_fetch mode off' m1)) =
           (stmt m5)\<lparr>rowCount := ucast ((word_of_nat cp :: 32 word) - word_of_nat n),
                      bufferMinRow := ucast ((word_of_nat cp :: 32 word) - word_of_nat n) + 1,
                      bufferRowIndex := 0\<rparr> \<and>
         bufferRowCount (stmt m5) = word_of_nat n"
proof -
  have st: "stmt m5 = (stmt m4)\<lparr>bufferRowCount := word_of_nat n\<rparr>"
    using keepsD [OF keeps_call [OF frame_stmt quiet_stmt] assms(5)] by simp
  have "dpiStmt_scroll_fetch mode off' m1 =
          dpiStmt__postFetch
            (upd_stmt (\<lambda>s. s\<lparr>bufferMinRow := rowCount s + 1, bufferRowIndex := 0\<rparr>)
              (upd_stmt (\<lambda>s. s\<lparr>rowCount :=
                  ucast ((word_of_nat cp :: 32 word) - bufferRowCount s)\<rparr>) m5))"
    using assms by (simp add: dpiStmt_scroll_fetch_def bindS_def)
  then show ?thesis
    using st by (simp add: keeps_snd [OF postFetch_stmt])
qed


text \<open>
  Claim C4, as amended.  On an open statement (dpiStmt__checkOpen succeeds and leaves the
  state \<open>m1\<close>), for a mode other than "last" with desired row \<open>d\<close>:
  \<^item> if \<open>d\<close> lies in the buffered window, the call succeeds, sets bufferRowIndex to
    \<open>d - bufferMinRow\<close> and rowCount to \<open>d - 1\<close>, and changes nothing else: no call is
    made after the open check;
  \<^item> if \<open>d\<close> lies outside the window and the pre-fetch step succeeds, exactly one
    protocol fetch is issued, positioned by the mode and the offset, for fetchArraySize
    rows;
  \<^item> if that fetch succeeds, at least one row is read back and the current position
    \<open>cp\<close> can be read, then rowCount = \<open>cp - bufferRowCount\<close> (in 32 bits),
    bufferMinRow = rowCount + 1 and bufferRowIndex = 0.
\<close>

theorem scroll_window:
  assumes "dpiStmt__checkOpen m = (Some (), m1)"
    and "mode \<noteq> DPI_MODE_FETCH_LAST"
    and "scroll_desiredRow mode off rco (stmt m1) = Some (Some d, off')"
  shows "(scroll_inWindow mode (Some d) (stmt m1) \<longrightarrow>
            dpiStmt_scroll mode off rco m =
              (Some (), upd_stmt (\<lambda>s. s\<lparr>bufferRowIndex := ucast (d - bufferMinRow s),
                                          rowCount := d - 1\<rparr>) m1)) \<and>
         (\<not> scroll_inWindow mode (Some d) (stmt m1) \<and> dpiStmt__preFetch m1 = (Some (), m2) \<longrightarrow>
            protocol_fetches (snd (dpiStmt_scroll mode off rco m)) =
              protocol_fetches m @ [OciStmtFetch2 (fetchArraySize (stmt m2)) mode off']) \<and>
         (\<not> scroll_inWindow mode (Some d) (stmt m1) \<and> dpiStmt__preFetch m1 = (Some (), m2) \<and>
          dpiOci__stmtFetch2 (fetchArraySize (stmt m2)) mode off' m2 = (Some (), m3) \<and>
          call (OciAttrGet DPI_OCI_ATTR_ROWS_FETCHED) m3 = (Some n, m4) \<and>
          (word_of_nat n :: 32 word) \<noteq> 0 \<and>
          call (OciAttrGet DPI_OCI_ATTR_CURRENT_POSITION)
            (upd_stmt (\<lambda>s. s\<lparr>bufferRowCount := word_of_nat n\<rparr>) m4) = (Some cp, m5) \<longrightarrow>
            stmt (snd (dpiStmt_scroll mode off rco m)) =
              (stmt m5)\<lparr>rowCount := ucast ((word_of_nat cp :: 32 word) - word_of_nat n),
                         bufferMinRow := ucast ((word_of_nat cp :: 32 word) - word_of_nat n) + 1,
                         bufferRowIndex := 0\<rparr> \<and>
            bufferRowCount (stmt m5) = word_of_nat n)"
proof -
  note disp = scroll_dispatch [OF assms(1,3)]
  have inside: "dpiStmt_scroll mode off rco m =
               (Some (), upd_stmt (\<lambda>s. s\<lparr>bufferRowIndex := ucast (d - bufferMinRow s),
                                           rowCount := d - 1\<rparr>) m1)"
    if "scroll_inWindow mode (Some d) (stmt m1)"
    using that by (simp add: disp)
  have outside: "dpiStmt_scroll mode off rco m = dpiStmt_scroll_fetch mode off' m1"
    if "\<not> scroll_inWindow mode (Some d) (stmt m1)"
    using that by (simp add: disp)
  have issued: "protocol_fetches (snd (dpiStmt_scroll mode off rco m)) =
               protocol_fetches m @ [OciStmtFetch2 (fetchArraySize (stmt m2)) mode off']"
    if "\<not> scroll_inWindow mode (Some d) (stmt m1)" "dpiStmt__preFetch m1 = (Some (), m2)"
    using scroll_fetch_fetches [OF that(2), of mode off'] checkOpen_fetches [OF assms(1)]
      assms(2) outside [OF that(1)]
    by simp
  have window: "stmt (snd (dpiStmt_scroll mode off rco m)) =
              (stmt m5)\<lparr>rowCount := ucast ((word_of_nat cp :: 32 word) - word_of_nat n),
                         bufferMinRow := ucast ((word_of_nat cp :: 32 word) - word_of_nat n) + 1,
                         bufferRowIndex := 0\<rparr> \<and>
            bufferRowCount (stmt m5) = word_of_nat n"
    if "\<not> scroll_inWindow mode (Some d) (stmt m1)" "dpiStmt__preFetch m1 = (Some (), m2)"
      "dpiOci__stmtFetch2 (fetchArraySize (stmt m2)) mode off' m2 = (Some (), m3)"
      "call (OciAttrGet DPI_OCI_ATTR_ROWS_FETCHED) m3 = (Some n, m4)"
      "(word_of_nat n :: 32 word) \<noteq> 0"
      "call (OciAttrGet DPI_OCI_ATTR_CURRENT_POSITION)
         (upd_stmt (\<lambda>s. s\<lparr>bufferRowCount := word_of_nat n\<rparr>) m4) = (Some cp, m5)"
    using scroll_fetch_window [of m1 m2 mode off' m3 n m4 cp m5] that assms(2)
      outside [OF that(1)]
    by simp
  from inside issued window show ?thesis
    by blast
qed

text \<open>
  Claim C5.  When a scroll call on an open statement gets as far as the protocol fetch
  (the desired row is outside the window or the mode is "last", the pre-fetch step and
  the fetch succeed) and reads back zero rows: for the modes "first" and "last" it
  succeeds, with rowCount, bufferMinRow, bufferRowIndex and bufferRowCount 0 and
  hasRowsToFetch cleared; for every other mode it fails with DPI_ERR_SCROLL_OUT_OF_RS.
\<close>

theorem scroll_zero_rows:
  assumes "dpiStmt__checkOpen m = (Some (), m1)"
    and "scroll_desiredRow mode off rco (stmt m1) = Some (desired, off')"
    and "\<not> scroll_inWindow mode desired (stmt m1)"
    and "dpiStmt__preFetch m1 = (Some (), m2)"
    and "dpiOci__stmtFetch2 (if mode = DPI_MODE_FETCH_LAST then 1 else fetchArraySize (stmt m2))
           mode off' m2 = (Some (), m3)"
    and "call (OciAttrGet DPI_OCI_ATTR_ROWS_FETCHED) m3 = (Some n, m4)"
    and "(word_of_nat n :: 32 word) = 0"
  shows "dpiStmt_scroll mode off rco m =
           (if mode = DPI_MODE_FETCH_FIRST \<or> mode = DPI_MODE_FETCH_LAST
            then (Some (), upd_stmt (\<lambda>s. s\<lparr>bufferRowCount := 0, hasRowsToFetch := False,
                     rowCount := 0, bufferRowIndex := 0, bufferMinRow := 0\<rparr>) m4)
            else (None, (upd_stmt (\<lambda>s. s\<lparr>bufferRowCount := 0\<rparr>) m4)
                    \<lparr>errbuf := (errbuf m4)\<lparr>eb_errorNum := DPI_ERR_SCROLL_OUT_OF_RS\<rparr>\<rparr>))"
  using assms(3) scroll_fetch_zero_rows [OF assms(4-7)]
  by (simp add: scroll_dispatch [OF assms(1,2)])

lemmas scroll_eval_defs =
  dpiStmt_scroll_def dpiStmt_scroll_fetch_def scroll_desiredRow_def scroll_inWindow_def
  dpiStmt__preFetch_def dpiStmt__postFetch_def dpiOci__stmtFetch2_def dpiStmt__checkOpen_def
  bindS_def call_def ext_def dpiError__set_def upd_stmt_def
  machine0_def stmt0_def zeroErrorBuffer_def env_empty_def env_scroll_def is_fetch_def
  reply_value_def protocol_fetches_def Let_def

text \<open>
  The scenario of the claim: mode "absolute", offset 1, on a cursor that has fetched
  nothing and whose result set is empty; and mode "first" on the same cursor.
\<close>

theorem scroll_zero_rows_witness:
  "fst (dpiStmt_scroll DPI_MODE_FETCH_ABSOLUTE 1 0 (machine0 stmt0 env_empty)) = None \<and>
   eb_errorNum (errbuf (snd (dpiStmt_scroll DPI_MODE_FETCH_ABSOLUTE 1 0
     (machine0 stmt0 env_empty)))) = DPI_ERR_SCROLL_OUT_OF_RS \<and>
   fst (dpiStmt_scroll DPI_MODE_FETCH_FIRST 0 0 (machine0 stmt0 env_empty)) = Some ()"
  using scroll_zero_rows
    [of "machine0 stmt0 env_empty"
        "(machine0 stmt0 env_empty)\<lparr>log := [(GenStartPublicFn, Ok 0)]\<rparr>"
        DPI_MODE_FETCH_ABSOLUTE 1 0 "Some 1" 1
        "(machine0 stmt0 env_empty)\<lparr>log := [(GenStartPublicFn, Ok 0)]\<rparr>"
        "(machine0 (stmt0\<lparr>hasRowsToFetch := False\<rparr>) env_empty)
           \<lparr>log := [(GenStartPublicFn, Ok 0), (OciStmtFetch2 3 DPI_MODE_FETCH_ABSOLUTE 1, Ok 0)]\<rparr>"
        0
        "(machine0 (stmt0\<lparr>hasRowsToFetch := False\<rparr>) env_empty)
           \<lparr>log := [(GenStartPublicFn, Ok 0), (OciStmtFetch2 3 DPI_MODE_FETCH_ABSOLUTE 1, Ok 0),
                    (OciAttrGet DPI_OCI_ATTR_ROWS_FETCHED, Ok 0)]\<rparr>"]
    scroll_zero_rows
    [of "machine0 stmt0 env_empty"
        "(machine0 stmt0 env_empty)\<lparr>log := [(GenStartPublicFn, Ok 0)]\<rparr>"
        DPI_MODE_FETCH_FIRST 0 0 "Some 1" 0
        "(machine0 stmt0 env_empty)\<lparr>log := [(GenStartPublicFn, Ok 0)]\<rparr>"
        "(machine0 (stmt0\<lparr>hasRowsToFetch := False\<rparr>) env_empty)
           \<lparr>log := [(GenStartPublicFn, Ok 0), (OciStmtFetch2 3 DPI_MODE_FETCH_FIRST 0, Ok 0)]\<rparr>"
        0
        "(machine0 (stmt0\<lparr>hasRowsToFetch := False\<rparr>) env_empty)
           \<lparr>log := [(GenStartPublicFn, Ok 0), (OciStmtFetch2 3 DPI_MODE_FETCH_FIRST 0, Ok 0),
                    (OciAttrGet DPI_OCI_ATTR_ROWS_FETCHED, Ok 0)]\<rparr>"]
  by (simp add: scroll_eval_defs)

text \<open>
  Mode "first" on an empty result set: the desired row 1 is outside the window, the
  pre-fetch step succeeds and the protocol fetch is issued, and the call succeeds; but
  the window base is set to 0 and the current position is never read.  The server
  would report the position 0, and with no rows the formula
  currentPosition - bufferRowCount + 1 gives 1.
\<close>

theorem scroll_first_empty_counterexample:
  "env_empty [] (OciAttrGet DPI_OCI_ATTR_CURRENT_POSITION) = Ok 0 \<and>
   fst (dpiStmt_scroll DPI_MODE_FETCH_FIRST 0 0 (machine0 stmt0 env_empty)) = Some () \<and>
   protocol_fetches (snd (dpiStmt_scroll DPI_MODE_FETCH_FIRST 0 0 (machine0 stmt0 env_empty))) =
     [OciStmtFetch2 3 DPI_MODE_FETCH_FIRST 0] \<and>
   OciAttrGet DPI_OCI_ATTR_CURRENT_POSITION \<notin>
     set (map fst (log (snd (dpiStmt_scroll DPI_MODE_FETCH_FIRST 0 0
       (machine0 stmt0 env_empty))))) \<and>
   bufferMinRow (stmt (snd (dpiStmt_scroll DPI_MODE_FETCH_FIRST 0 0
       (machine0 stmt0 env_empty)))) = 0 \<and>
   bufferMinRow (stmt (snd (dpiStmt_scroll DPI_MODE_FETCH_FIRST 0 0
       (machine0 stmt0 env_empty)))) \<noteq>
     ucast ((0 :: 32 word) - bufferRowCount (stmt (snd (dpiStmt_scroll DPI_MODE_FETCH_FIRST 0 0
       (machine0 stmt0 env_empty))))) + 1"
  by (simp add: scroll_eval_defs)

text \<open>
  A run of the amended claim: scrolling to row 10 of a cursor that has fetched nothing
  issues one positioned fetch, after which the window starts at row 10 (the cursor is
  on row 12, three rows were read); scrolling to row 11 from there moves the index to 1
  and issues nothing.
\<close>

lemma ex_scroll_to_10:
  "dpiStmt_scroll DPI_MODE_FETCH_ABSOLUTE 10 0 (machine0 stmt0 env_scroll) =
     (Some (),
      (machine0 (stmt0\<lparr>bufferRowCount := 3, rowCount := 9, bufferMinRow := 10\<rparr>) env_scroll)
        \<lparr>log := [(GenStartPublicFn, Ok 0), (OciStmtFetch2 3 DPI_MODE_FETCH_ABSOLUTE 10, Ok 1),
                 (OciAttrGet DPI_OCI_ATTR_ROWS_FETCHED, Ok 3),
                 (OciAttrGet DPI_OCI_ATTR_CURRENT_POSITION, Ok 12)]\<rparr>)"
  by (simp add: scroll_eval_defs)

theorem scroll_window_witness:
  "protocol_fetches (snd (dpiStmt_scroll DPI_MODE_FETCH_ABSOLUTE 10 0
      (machine0 stmt0 env_scroll))) = [OciStmtFetch2 3 DPI_MODE_FETCH_ABSOLUTE 10] \<and>
   bufferMinRow (stmt (snd (dpiStmt_scroll DPI_MODE_FETCH_ABSOLUTE 10 0
      (machine0 stmt0 env_scroll)))) = 10 \<and>
   bufferRowIndex (stmt (snd (dpiStmt_scroll DPI_MODE_FETCH_ABSOLUTE 11 0
      (snd (dpiStmt_scroll DPI_MODE_FETCH_ABSOLUTE 10 0 (machine0 stmt0 env_scroll)))))) = 1 \<and>
   protocol_fetches (snd (dpiStmt_scroll DPI_MODE_FETCH_ABSOLUTE 11 0
      (snd (dpiStmt_scroll DPI_MODE_FETCH_ABSOLUTE 10 0 (machine0 stmt0 env_scroll))))) =
     [OciStmtFetch2 3 DPI_MODE_FETCH_ABSOLUTE 10]"
  using scroll_window
    [of "machine0 stmt0 env_scroll"
        "(machine0 stmt0 env_scroll)\<lparr>log := [(GenStartPublicFn, Ok 0)]\<rparr>"
        DPI_MODE_FETCH_ABSOLUTE 10 0 10 10
        "(machine0 stmt0 env_scroll)\<lparr>log := [(GenStartPublicFn, Ok 0)]\<rparr>"]
    scroll_window
    [of "snd (dpiStmt_scroll DPI_MODE_FETCH_ABSOLUTE 10 0 (machine0 stmt0 env_scroll))"
        "(machine0 (stmt0\<lparr>bufferRowCount := 3, rowCount := 9, bufferMinRow := 10\<rparr>) env_scroll)
        \<lparr>log := [(GenStartPublicFn, Ok 0), (OciStmtFetch2 3 DPI_MODE_FETCH_ABSOLUTE 10, Ok 1),
                 (OciAttrGet DPI_OCI_ATTR_ROWS_FETCHED, Ok 3),
                 (OciAttrGet DPI_OCI_ATTR_CURRENT_POSITION, Ok 12), (GenStartPublicFn, Ok 0)]\<rparr>"
        DPI_MODE_FETCH_ABSOLUTE 11 0 11 11]
  by (simp add: ex_scroll_to_10) (simp add: scroll_eval_defs)

section \<open>Closing a closed statement (C8)\<close>

lemma checkOpen_closed:
  assumes "handle (stmt m) = None"
  shows "dpiStmt__checkOpen m =
           (None, m\<lparr>log := log m @ [(GenStartPublicFn, env m (log m) GenStartPublicFn)],
                    errbuf := (case env m (log m) GenStartPublicFn of
                                 Fail b \<Rightarrow> b
                               | _ \<Rightarrow> (errbuf m)\<lparr>eb_errorNum := DPI_ERR_STMT_CLOSED\<rparr>)\<rparr>)"
  using assms
  by (simp add: dpiStmt__checkOpen_def bindS_def call_def ext_def Let_def dpiError__set_def
        split: reply.splits)

text \<open>A successful close leaves the statement closed: its handle is NULL.\<close>

lemma call_stmtD: "call c m = (r, m') \<Longrightarrow> stmt m' = stmt m"
  by (rule keepsD [OF keeps_call [OF frame_stmt quiet_stmt]])

lemma setRefCount_stmtD: "dpiGen__setRefCount p i m = (r, m') \<Longrightarrow> stmt m' = stmt m"
  by (rule keepsD [OF keeps_stmt_setRefCount])

lemma stmt_snd_call: "stmt (snd (call c m)) = stmt m"
  by (rule keeps_snd [OF keeps_call [OF frame_stmt quiet_stmt]])

lemma close_internal_closes:
  assumes "dpiStmt__close propagate m = (Some (), m')"
  shows "handle (stmt m') = None"
  using assms unfolding dpiStmt__close_def
  by (auto elim!: bindS_E dest!: call_stmtD setRefCount_stmtD
        simp: whenS_def callU_def stmt_snd_call split: if_splits option.splits)

lemma close_success_closes:
  assumes "dpiStmt_close tag_ok tagLength m = (Some (), m')"
  shows "handle (stmt m') = None"
  using assms unfolding dpiStmt_close_def
  by (auto elim!: bindS_E dest: close_internal_closes)

text \<open>
  Claim C8.  On a closed statement (its handle is NULL, as every successful close
  leaves it) dpiStmt_close stops at the open check: it fails (with DPI_ERR_STMT_CLOSED, unless dpiGen__startPublicFn itself
  reports an error), the only call it makes is dpiGen__startPublicFn, and the statement,
  the variables and the reference counts are as they were.  The close sequence is not
  entered: nothing is released.
\<close>

theorem close_closed_statement:
  assumes "handle (stmt m) = None"
  shows "dpiStmt_close tag_ok tagLength m =
           (None, m\<lparr>log := log m @ [(GenStartPublicFn, env m (log m) GenStartPublicFn)],
                    errbuf := (case env m (log m) GenStartPublicFn of
                                 Fail b \<Rightarrow> b
                               | _ \<Rightarrow> (errbuf m)\<lparr>eb_errorNum := DPI_ERR_STMT_CLOSED\<rparr>)\<rparr>)"
  by (simp add: dpiStmt_close_def bindS_def checkOpen_closed [OF assms])

lemmas close_eval_defs =
  dpiStmt_close_def dpiStmt__close_def dpiStmt__checkOpen_def DPI_CHECK_PTR_AND_LENGTH_def
  dpiStmt__clearBatchErrors_def dpiStmt__clearBindVars_def dpiStmt__clearQueryVars_def
  dpiGen__setRefCount_def bindS_def call_def callU_def ext_def dpiError__set_def upd_stmt_def
  machine0_def stmt0_def zeroErrorBuffer_def env_empty_def reply_value_def Let_def

lemma ex_close_once:
  "dpiStmt_close True 0 (machine0 stmt0 env_empty) =
     (Some (),
      (machine0 (stmt0\<lparr>conn := None, handle := None, queryVars := None, queryInfo := None\<rparr>)
         env_empty)
        \<lparr>refCount := (\<lambda>_. 1)(1 := 0),
         log := [(GenStartPublicFn, Ok 0), (OciStmtRelease False True, Ok 0),
                 (ConnDecrementOpenChildCount, Ok 0), (GenSetRefCount 1 (- 1), Ok 0)]\<rparr>)"
  by (simp add: close_eval_defs)

text \<open>Closing twice: the first close succeeds, the second leaves the statement alone.\<close>

theorem close_closed_statement_witness:
  "fst (dpiStmt_close True 0 (machine0 stmt0 env_empty)) = Some () \<and>
   fst (dpiStmt_close True 0 (snd (dpiStmt_close True 0 (machine0 stmt0 env_empty)))) = None \<and>
   stmt (snd (dpiStmt_close True 0 (snd (dpiStmt_close True 0 (machine0 stmt0 env_empty))))) =
     stmt (snd (dpiStmt_close True 0 (machine0 stmt0 env_empty))) \<and>
   refCount (snd (dpiStmt_close True 0 (snd (dpiStmt_close True 0 (machine0 stmt0 env_empty))))) =
     refCount (snd (dpiStmt_close True 0 (machine0 stmt0 env_empty))) \<and>
   eb_errorNum (errbuf (snd (dpiStmt_close True 0
     (snd (dpiStmt_close True 0 (machine0 stmt0 env_empty)))))) = DPI_ERR_STMT_CLOSED"
  using close_closed_statement
    [of "snd (dpiStmt_close True 0 (machine0 stmt0 env_empty))" True 0]
  by (simp add: ex_close_once) (simp add: machine0_def stmt0_def env_empty_def)

section \<open>Execution and recovery (C9, C1)\<close>

lemma inert_bind_oci: "inert obs \<Longrightarrow> keeps obs (dpiStmt__bind_oci v d p nm len)"
  unfolding dpiStmt__bind_oci_def
  by (intro keeps_struct inert_leaf; simp add: major_call_def)

lemma inert_bind_attrs: "inert obs \<Longrightarrow> keeps obs (dpiStmt__bind_attrs v d)"
  unfolding dpiStmt__bind_attrs_def
  by (intro keeps_struct inert_leaf; simp add: major_call_def)

lemma inert_bind_perform: "inert obs \<Longrightarrow> keeps obs (dpiStmt__bind_perform i v ar p nm len)"
  unfolding dpiStmt__bind_perform_def
  by (intro keeps_struct inert_leaf inert_bind_oci inert_bind_attrs;
      simp add: major_call_def set_entry_var_def)

lemma inert_bind_add: "inert obs \<Longrightarrow> keeps obs (dpiStmt__bind_add p nm len)"
  unfolding dpiStmt__bind_add_def
  by (intro keeps_struct inert_leaf; simp add: major_call_def)

lemma inert_bind_release: "inert obs \<Longrightarrow> keeps obs (dpiStmt__bind_release i)"
  unfolding dpiStmt__bind_release_def
  by (intro keeps_struct inert_leaf; simp add: major_call_def set_entry_var_def)

lemma inert_bind: "inert obs \<Longrightarrow> keeps obs (dpiStmt__bind v ar p nm len)"
  unfolding dpiStmt__bind_def
  by (intro keeps_struct inert_leaf inert_bind_perform inert_bind_add inert_bind_release)

lemma inert_setValues: "inert obs \<Longrightarrow> keeps obs (dpiStmt__execute_setValues i)"
  unfolding dpiStmt__execute_setValues_def
  by (intro keeps_struct inert_leaf; simp add: major_call_def)

lemma inert_getValues: "inert obs \<Longrightarrow> keeps obs (dpiStmt__execute_getValues i)"
  unfolding dpiStmt__execute_getValues_def
  by (intro keeps_struct inert_leaf; simp add: major_call_def)

lemma inert_execute_after: "inert obs \<Longrightarrow> keeps obs dpiStmt__execute_after"
  unfolding dpiStmt__execute_after_def
  by (intro keeps_struct inert_leaf inert_getValues inert_createQueryVars;
      simp add: major_call_def)

lemma inert_parseOffset: "inert obs \<Longrightarrow> keeps obs dpiStmt__execute_parseOffset"
  by (auto simp: dpiStmt__execute_parseOffset_def keeps_def bindS_def call_def ext_def Let_def
        inert_def frame_def quiet_def major_call_def split: reply.splits)

lemma inert_stmtPrepare2: "inert obs \<Longrightarrow> keeps obs (dpiOci__stmtPrepare2 sql tagLen)"
  unfolding dpiOci__stmtPrepare2_def
  by (intro keeps_struct inert_leaf; simp add: major_call_def)

lemma inert_prepare: "inert obs \<Longrightarrow> keeps obs (dpiStmt__prepare sql tagLen)"
  unfolding dpiStmt__prepare_def
  by (intro keeps_struct inert_stmtPrepare2 inert_init)

lemma inert_rebind: "inert obs \<Longrightarrow> keeps obs (dpiStmt__reExecute_rebind i)"
  unfolding dpiStmt__reExecute_rebind_def
  by (intro keeps_struct inert_leaf inert_bind; simp add: set_entry_var_def)


lemma inert_recoveries: "inert recoveries"
  by (simp add: inert_def frame_def quiet_def recoveries_def upd_stmt_def major_call_def
        split: ext_call.splits)

lemma recoveries_upd_stmt [simp]: "recoveries (upd_stmt f m) = recoveries m"
  by (simp add: recoveries_def upd_stmt_def)

lemma frame_recoveries: "frame recoveries"
  by (simp add: frame_def recoveries_def)

lemma quiet_recoveries: "c \<noteq> OciAttrGet DPI_OCI_ATTR_STATEMENT \<Longrightarrow> quiet recoveries c"
  by (simp add: quiet_def recoveries_def)

lemma execute_before_recoveries: "keeps recoveries (dpiStmt__execute_before mode)"
  unfolding dpiStmt__execute_before_def dpiStmt__clearBatchErrors_def
  by (intro keeps_struct keeps_modify keeps_callU inert_setValues inert_recoveries
        frame_recoveries quiet_recoveries; simp)

lemma execute_call_recoveries: "keeps recoveries (call (OciStmtExecute n md))"
  by (intro keeps_call frame_recoveries quiet_recoveries) simp

lemma execute_norecover_recoveries: "keeps recoveries (dpiStmt__execute numIters mode False)"
  by (subst dpiStmt__execute.simps, simp)
     (intro keeps_struct keeps_modify execute_before_recoveries execute_call_recoveries
        inert_execute_after inert_parseOffset inert_recoveries; simp)

lemma reExecute_tail_recoveries:
  "keeps recoveries
     (bindS (getS (\<lambda>m. handle (stmt m))) (\<lambda>origHandle.
      bindS (catchS (dpiStmt__prepare sql 0)) (\<lambda>status.
      bindS (getS (\<lambda>m. handle (stmt m))) (\<lambda>newHandle.
      bindS (modify (\<lambda>s. s\<lparr>handle := origHandle, deleteFromCache := True\<rparr>)) (\<lambda>_.
      bindS (catchS (call (OciStmtRelease True True))) (\<lambda>released.
      if released = None \<or> status = None then failS
      else
        bindS (modify (\<lambda>s. s\<lparr>handle := newHandle\<rparr>)) (\<lambda>_.
        bindS dpiStmt__clearBatchErrors (\<lambda>_.
        bindS dpiStmt__clearQueryVars (\<lambda>_.
        bindS (getS (\<lambda>m. numBindVars (stmt m))) (\<lambda>n.
        forS [0..<n] dpiStmt__reExecute_rebind))))))))))"
  unfolding dpiStmt__clearBatchErrors_def
  by (intro keeps_struct keeps_modify keeps_call inert_prepare inert_clearQueryVars inert_rebind
        inert_recoveries frame_recoveries quiet_recoveries; simp)

lemma call_statement_recoveries:
  "recoveries (snd (call (OciAttrGet DPI_OCI_ATTR_STATEMENT) m)) =
     recoveries m @ [OciAttrGet DPI_OCI_ATTR_STATEMENT]"
  by (simp add: call_def ext_def Let_def recoveries_def split: reply.splits)

lemma reExecute_before_recoveries:
  "recoveries (snd (dpiStmt__reExecute_before m)) =
     recoveries m @ [OciAttrGet DPI_OCI_ATTR_STATEMENT]"
  unfolding dpiStmt__reExecute_before_def
  by (simp add: bindS_keeps_snd [OF reExecute_tail_recoveries] call_statement_recoveries)

lemma reExecute_recoveries:
  "recoveries (snd (dpiStmt__reExecute numIters mode m)) =
     recoveries m @ [OciAttrGet DPI_OCI_ATTR_STATEMENT]"
  by (subst dpiStmt__reExecute.simps)
     (simp add: bindS_keeps_snd [OF execute_norecover_recoveries] reExecute_before_recoveries)

text \<open>dpiStmt__execute once the steps before the protocol call have succeeded.\<close>

lemma execute_after_before:
  assumes "dpiStmt__execute_before mode m = (Some mode', m1)"
    and "call (OciStmtExecute numIters mode') m1 = (r, m2)"
  shows "dpiStmt__execute numIters mode reExecute m =
           (case r of
              Some _ \<Rightarrow> dpiStmt__execute_after m2
            | None \<Rightarrow>
                (if reExecute \<and> eb_code (errbuf (snd (dpiStmt__execute_parseOffset m2))) = 1007
                 then dpiStmt__reExecute numIters mode' (snd (dpiStmt__execute_parseOffset m2))
                 else (None,
                       if eb_code (errbuf (snd (dpiStmt__execute_parseOffset m2))) = 1
                       then snd (dpiStmt__execute_parseOffset m2)
                       else upd_stmt (\<lambda>s. s\<lparr>deleteFromCache := True\<rparr>)
                              (snd (dpiStmt__execute_parseOffset m2)))))"
  using assms
  by (subst dpiStmt__execute.simps)
     (simp add: bindS_def dpiStmt__execute_parseOffset_def split: option.splits)

lemma execute_before_fails:
  assumes "dpiStmt__execute_before mode m = (None, m1)"
  shows "dpiStmt__execute numIters mode reExecute m = (None, m1)"
  using assms by (subst dpiStmt__execute.simps) (simp add: bindS_def)


text \<open>
  What dpiStmt__execute does when the steps before the protocol execute succeed, the
  protocol execute fails and the recovery path is not taken: it fails, and it sets
  deleteFromCache unless the error code found in the buffer after the read of the parse
  error offset is exactly 1, in which case the flag is left as it was.  That code is the
  one of the failed execute whenever the read of the parse error offset succeeds.
\<close>

lemma execute_failure_flag:
  assumes "dpiStmt__execute_before mode m = (Some mode', m1)"
    and "call (OciStmtExecute numIters mode') m1 = (None, m2)"
    and "dpiStmt__execute_parseOffset m2 = (Some (), m3)"
    and "\<not> (reExecute \<and> eb_code (errbuf m3) = 1007)"
  shows "dpiStmt__execute numIters mode reExecute m =
           (None, if eb_code (errbuf m3) = 1 then m3
                  else upd_stmt (\<lambda>s. s\<lparr>deleteFromCache := True\<rparr>) m3) \<and>
         (fst (call (OciAttrGet DPI_OCI_ATTR_PARSE_ERROR_OFFSET) m2) \<noteq> None \<longrightarrow>
            eb_code (errbuf m3) = eb_code (errbuf m2))"
proof -
  have "eb_code (errbuf m3) = eb_code (errbuf m2)"
    if "fst (call (OciAttrGet DPI_OCI_ATTR_PARSE_ERROR_OFFSET) m2) \<noteq> None"
    using that assms(3)
    by (auto simp: dpiStmt__execute_parseOffset_def bindS_def call_def ext_def Let_def
          split: reply.splits)
  then show ?thesis
    using assms(3,4) by (auto simp: execute_after_before [OF assms(1,2)])
qed

lemmas execute_eval_defs =
  dpiStmt__execute.simps dpiStmt__reExecute.simps dpiStmt_execute_def
  dpiStmt__execute_before_def dpiStmt__execute_after_def dpiStmt__execute_parseOffset_def
  dpiStmt__reExecute_before_def dpiStmt__prepare_def dpiOci__stmtPrepare2_def dpiStmt__init_def
  dpiStmt__checkOpen_def dpiStmt__clearBatchErrors_def dpiStmt__clearQueryVars_def
  numBindVars_def DPI_STMT_TYPE_SELECT_def DPI_OCI_STMT_SCROLLABLE_READONLY_def
  bindS_def call_def callU_def ext_def dpiError__set_def upd_stmt_def
  machine0_def stmt0_def zeroErrorBuffer_def env_exec_fail_def is_execute_def
  reply_value_def recoveries_def protocol_executes_def Let_def

lemma ex_before:
  "dpiStmt__execute_before 0 (machine0 stmt0 (env_exec_fail ora)) =
     (Some 8, (machine0 stmt0 (env_exec_fail ora))
                \<lparr>log := [(OciAttrSet DPI_OCI_ATTR_PREFETCH_ROWS 3, Ok 0)]\<rparr>)"
  by (simp add: execute_eval_defs)

lemma ex_exec_call:
  "call (OciStmtExecute 0 8)
     ((machine0 stmt0 (env_exec_fail ora))
        \<lparr>log := [(OciAttrSet DPI_OCI_ATTR_PREFETCH_ROWS 3, Ok 0)]\<rparr>) =
     (None, (machine0 stmt0 (env_exec_fail ora))
        \<lparr>log := [(OciAttrSet DPI_OCI_ATTR_PREFETCH_ROWS 3, Ok 0),
                 (OciStmtExecute 0 8,
                  Fail \<lparr>eb_code = ora, eb_offset = 0, eb_errorNum = DPI_ERR_OTHER 1,
                        eb_fnName = []\<rparr>)],
         errbuf := \<lparr>eb_code = ora, eb_offset = 0, eb_errorNum = DPI_ERR_OTHER 1,
                     eb_fnName = []\<rparr>\<rparr>)"
  by (simp add: execute_eval_defs)

lemma ex_parseOffset:
  "dpiStmt__execute_parseOffset
     ((machine0 stmt0 (env_exec_fail ora))
        \<lparr>log := [(OciAttrSet DPI_OCI_ATTR_PREFETCH_ROWS 3, Ok 0),
                 (OciStmtExecute 0 8,
                  Fail \<lparr>eb_code = ora, eb_offset = 0, eb_errorNum = DPI_ERR_OTHER 1,
                        eb_fnName = []\<rparr>)],
         errbuf := \<lparr>eb_code = ora, eb_offset = 0, eb_errorNum = DPI_ERR_OTHER 1,
                     eb_fnName = []\<rparr>\<rparr>) =
     (Some (), (machine0 stmt0 (env_exec_fail ora))
        \<lparr>log := [(OciAttrSet DPI_OCI_ATTR_PREFETCH_ROWS 3, Ok 0),
                 (OciStmtExecute 0 8,
                  Fail \<lparr>eb_code = ora, eb_offset = 0, eb_errorNum = DPI_ERR_OTHER 1,
                        eb_fnName = []\<rparr>),
                 (OciAttrGet DPI_OCI_ATTR_PARSE_ERROR_OFFSET, Ok 0)],
         errbuf := \<lparr>eb_code = ora, eb_offset = 0, eb_errorNum = DPI_ERR_OTHER 1,
                     eb_fnName = []\<rparr>\<rparr>)"
  by (simp add: execute_eval_defs)

text \<open>
  A query whose execution fails with ORA-00942 is marked for eviction; one whose
  execution fails with ORA-00001 is not.
\<close>

lemma execute_failure_flag_example:
  "fst (dpiStmt__execute 0 0 True (machine0 stmt0 (env_exec_fail 942))) = None \<and>
   deleteFromCache (stmt (snd (dpiStmt__execute 0 0 True (machine0 stmt0 (env_exec_fail 942))))) \<and>
   fst (dpiStmt__execute 0 0 True (machine0 stmt0 (env_exec_fail 1))) = None \<and>
   \<not> deleteFromCache (stmt (snd (dpiStmt__execute 0 0 True (machine0 stmt0 (env_exec_fail 1)))))"
  using execute_failure_flag
      [OF ex_before [of 942] ex_exec_call [of 942] ex_parseOffset [of 942], of True]
    execute_failure_flag
      [OF ex_before [of 1] ex_exec_call [of 1] ex_parseOffset [of 1], of True]
  by (simp add: upd_stmt_def machine0_def stmt0_def)

lemmas offset_eval_defs = execute_eval_defs env_offset_fail_def execute_codes_def

text \<open>
  Claim C9.  A query is executed through dpiStmt_execute with recovery permitted.  The
  protocol execute fails with ORA-00001, and the read of the parse error offset that
  follows (lines 542-544) fails as well, with ORA-24315; it was given the error
  structure of the call, so the code in the error buffer is now 24315.  The recovery
  path is not taken, the call fails, and deleteFromCache, unset before, is set: the
  statement is marked for eviction although its execution failed with code 1.  In the
  same way a statement whose execution fails with ORA-00942 is not marked when the
  failing read leaves code 1 in the buffer.  The tests of lines 545 and 547 read the
  buffer after the read of the parse error offset has overwritten it, where the
  comment of lines 539-540 speaks of the error of the execution.
\<close>

theorem eviction_follows_overwritten_code:
  "fst (dpiStmt_execute 0 (machine0 stmt0 (env_offset_fail 1 24315))) = None \<and>
   execute_codes (snd (dpiStmt_execute 0 (machine0 stmt0 (env_offset_fail 1 24315)))) =
     [Some 1] \<and>
   recoveries (snd (dpiStmt_execute 0 (machine0 stmt0 (env_offset_fail 1 24315)))) = [] \<and>
   \<not> deleteFromCache (stmt (machine0 stmt0 (env_offset_fail 1 24315))) \<and>
   deleteFromCache (stmt (snd (dpiStmt_execute 0 (machine0 stmt0 (env_offset_fail 1 24315))))) \<and>
   fst (dpiStmt_execute 0 (machine0 stmt0 (env_offset_fail 942 1))) = None \<and>
   execute_codes (snd (dpiStmt_execute 0 (machine0 stmt0 (env_offset_fail 942 1)))) =
     [Some 942] \<and>
   recoveries (snd (dpiStmt_execute 0 (machine0 stmt0 (env_offset_fail 942 1)))) = [] \<and>
   \<not> deleteFromCache (stmt (snd (dpiStmt_execute 0 (machine0 stmt0 (env_offset_fail 942 1)))))"
  by (simp add: offset_eval_defs)

lemma execute_recoveries_cases:
  assumes "dpiStmt__execute_before mode m = (Some mode', m1)"
    and "call (OciStmtExecute numIters mode') m1 = (r, m2)"
  shows "recoveries (snd (dpiStmt__execute numIters mode reExecute m)) =
           (if reExecute \<and> r = None \<and>
               eb_code (errbuf (snd (dpiStmt__execute_parseOffset m2))) = 1007
            then recoveries m @ [OciAttrGet DPI_OCI_ATTR_STATEMENT]
            else recoveries m)"
proof -
  have m2: "recoveries m2 = recoveries m"
    using keepsD [OF execute_before_recoveries assms(1)]
      keepsD [OF execute_call_recoveries assms(2)]
    by simp
  have m3: "recoveries (snd (dpiStmt__execute_parseOffset m2)) = recoveries m"
    using keeps_snd [OF inert_parseOffset [OF inert_recoveries], of m2] m2 by simp
  have after: "recoveries (snd (dpiStmt__execute_after m2)) = recoveries m"
    using keeps_snd [OF inert_execute_after [OF inert_recoveries], of m2] m2 by simp
  show ?thesis
    by (cases r)
       (simp_all add: execute_after_before [OF assms] m3 after reExecute_recoveries)
qed

lemma execute_recoveries_before_fails:
  assumes "fst (dpiStmt__execute_before mode m) = None"
  shows "recoveries (snd (dpiStmt__execute numIters mode reExecute m)) = recoveries m"
proof -
  obtain m1 where b: "dpiStmt__execute_before mode m = (None, m1)"
    using assms by (cases "dpiStmt__execute_before mode m") auto
  from keepsD [OF execute_before_recoveries b] show ?thesis
    by (simp add: execute_before_fails [OF b])
qed

lemma execute_recoveries_at_most_one:
  "recoveries (snd (dpiStmt__execute numIters mode reExecute m)) = recoveries m \<or>
   recoveries (snd (dpiStmt__execute numIters mode reExecute m)) =
     recoveries m @ [OciAttrGet DPI_OCI_ATTR_STATEMENT]"
proof (cases "dpiStmt__execute_before mode m")
  case (Pair a m1)
  show ?thesis
  proof (cases a)
    case None
    with Pair show ?thesis
      by (simp add: execute_recoveries_before_fails)
  next
    case (Some mode')
    obtain r m2 where c: "call (OciStmtExecute numIters mode') m1 = (r, m2)"
      by (cases "call (OciStmtExecute numIters mode') m1") auto
    from Pair Some have b: "dpiStmt__execute_before mode m = (Some mode', m1)"
      by simp
    show ?thesis
      by (simp add: execute_recoveries_cases [OF b c])
  qed
qed

lemma public_execute_recoveries:
  "recoveries (snd (dpiStmt_execute mode m)) = recoveries m \<or>
   recoveries (snd (dpiStmt_execute mode m)) = recoveries m @ [OciAttrGet DPI_OCI_ATTR_STATEMENT]"
proof (cases "dpiStmt__checkOpen m")
  case (Pair a m1)
  have m1: "recoveries m1 = recoveries m"
    by (rule keepsD [OF inert_checkOpen [OF inert_recoveries] Pair])
  show ?thesis
  proof (cases a)
    case None
    with Pair m1 show ?thesis
      by (simp add: dpiStmt_execute_def bindS_def)
  next
    case (Some u)
    have "recoveries (snd (dpiStmt_execute mode m)) =
            recoveries (snd (dpiStmt__execute
              (if statementType (stmt m1) = DPI_STMT_TYPE_SELECT then 0 else 1) mode True m1))"
      using Pair Some
      by (simp add: dpiStmt_execute_def bindS_def split: prod.splits option.splits)
    with execute_recoveries_at_most_one
           [of "if statementType (stmt m1) = DPI_STMT_TYPE_SELECT then 0 else 1" mode True m1] m1
    show ?thesis by simp
  qed
qed

text \<open>
  The result of the recovery is the result of the retry: dpiStmt__reExecute fails when
  its own steps fail, and otherwise returns what dpiStmt__execute with recovery disabled
  returns; an execute that enters the recovery returns what dpiStmt__reExecute returns.
\<close>

lemma reExecute_returns_retry:
  "dpiStmt__reExecute_before m = (Some (), m1) \<Longrightarrow>
   dpiStmt__reExecute numIters mode m = dpiStmt__execute numIters mode False m1"
  by (subst dpiStmt__reExecute.simps) (simp add: bindS_def)

lemma reExecute_before_fails:
  "dpiStmt__reExecute_before m = (None, m1) \<Longrightarrow>
   dpiStmt__reExecute numIters mode m = (None, m1)"
  by (subst dpiStmt__reExecute.simps) (simp add: bindS_def)

lemma execute_returns_recovery:
  assumes "dpiStmt__execute_before mode m = (Some mode', m1)"
    and "call (OciStmtExecute numIters mode') m1 = (None, m2)"
    and "eb_code (errbuf (snd (dpiStmt__execute_parseOffset m2))) = 1007"
  shows "dpiStmt__execute numIters mode True m =
           dpiStmt__reExecute numIters mode' (snd (dpiStmt__execute_parseOffset m2))"
  using assms(3) by (simp add: execute_after_before [OF assms(1,2)])

text \<open>
  A second failure of the protocol execute, in the retry, is the failure of the call,
  whatever its error code: the retry runs with recovery disabled.
\<close>

lemma second_failure_propagates:
  assumes "dpiStmt__execute_before mode m = (Some mode', m1)"
    and "call (OciStmtExecute numIters mode') m1 = (None, m2)"
    and "eb_code (errbuf (snd (dpiStmt__execute_parseOffset m2))) = 1007"
    and "dpiStmt__reExecute_before (snd (dpiStmt__execute_parseOffset m2)) = (Some (), m4)"
    and "dpiStmt__execute_before mode' m4 = (Some mode'', m5)"
    and "call (OciStmtExecute numIters mode'') m5 = (None, m6)"
  shows "fst (dpiStmt__execute numIters mode True m) = None"
proof -
  have "dpiStmt__execute numIters mode True m = dpiStmt__execute numIters mode' False m4"
    by (simp add: execute_returns_recovery [OF assms(1-3)] reExecute_returns_retry [OF assms(4)])
  then show ?thesis
    by (simp add: execute_after_before [OF assms(5,6)])
qed

text \<open>
  The recovery path is dpiStmt__reExecute, and every entry into it is marked in the log
  by its first call, the read of the statement text.
  \<^item> An execute with recovery disabled never enters it.
  \<^item> dpiStmt__reExecute adds exactly its own entry: the execution it ends in runs with
    recovery disabled and cannot enter it again.
  \<^item> An execute call, internal or public, enters it at most once.
  \<^item> It is entered only when recovery is permitted, the protocol execute failed and the
    error code in the buffer, after the read of the parse error offset, is 1007.
  \<^item> A failure of the protocol execute with recovery disabled, as in the retry, is a
    failure of the call.
\<close>

lemma recovery_entries:
  "recoveries (snd (dpiStmt__execute numIters mode False m)) = recoveries m \<and>
   recoveries (snd (dpiStmt__reExecute numIters mode m)) =
     recoveries m @ [OciAttrGet DPI_OCI_ATTR_STATEMENT] \<and>
   (recoveries (snd (dpiStmt__execute numIters mode True m)) = recoveries m \<or>
    recoveries (snd (dpiStmt__execute numIters mode True m)) =
      recoveries m @ [OciAttrGet DPI_OCI_ATTR_STATEMENT]) \<and>
   (recoveries (snd (dpiStmt_execute mode m)) = recoveries m \<or>
    recoveries (snd (dpiStmt_execute mode m)) =
      recoveries m @ [OciAttrGet DPI_OCI_ATTR_STATEMENT]) \<and>
   (fst (dpiStmt__execute_before mode m) = None \<longrightarrow>
      recoveries (snd (dpiStmt__execute numIters mode reExecute m)) = recoveries m) \<and>
   (dpiStmt__execute_before mode m = (Some mode', m1) \<and>
    call (OciStmtExecute numIters mode') m1 = (r, m2) \<and>
    recoveries (snd (dpiStmt__execute numIters mode reExecute m)) \<noteq> recoveries m \<longrightarrow>
      reExecute \<and> r = None \<and>
      eb_code (errbuf (snd (dpiStmt__execute_parseOffset m2))) = 1007) \<and>
   (dpiStmt__execute_before mode m = (Some mode', m1) \<and>
    call (OciStmtExecute numIters mode') m1 = (None, m2) \<longrightarrow>
      fst (dpiStmt__execute numIters mode False m) = None)"
proof -
  have only_when: "reExecute \<and> r = None \<and>
      eb_code (errbuf (snd (dpiStmt__execute_parseOffset m2))) = 1007"
    if "dpiStmt__execute_before mode m = (Some mode', m1)"
      "call (OciStmtExecute numIters mode') m1 = (r, m2)"
      "recoveries (snd (dpiStmt__execute numIters mode reExecute m)) \<noteq> recoveries m"
    using that(3) by (simp add: execute_recoveries_cases [OF that(1,2)] split: if_splits)
  have retry_fails: "fst (dpiStmt__execute numIters mode False m) = None"
    if "dpiStmt__execute_before mode m = (Some mode', m1)"
      "call (OciStmtExecute numIters mode') m1 = (None, m2)"
    by (simp add: execute_after_before [OF that])
  show ?thesis
    using keeps_snd [OF execute_norecover_recoveries, of numIters mode m]
      reExecute_recoveries [of numIters mode m]
      execute_recoveries_at_most_one [of numIters mode True m]
      public_execute_recoveries [of mode m]
      execute_recoveries_before_fails [of mode m numIters reExecute]
      only_when retry_fails
    by blast
qed


lemma ex_stale_run:
  "fst (dpiStmt__execute 0 0 True (machine0 stmt0 (env_exec_fail 1007))) = None \<and>
   recoveries (snd (dpiStmt__execute 0 0 True (machine0 stmt0 (env_exec_fail 1007)))) =
     [OciAttrGet DPI_OCI_ATTR_STATEMENT] \<and>
   protocol_executes (snd (dpiStmt__execute 0 0 True (machine0 stmt0 (env_exec_fail 1007)))) =
     [OciStmtExecute 0 8, OciStmtExecute 0 8]"
  by (simp add: execute_eval_defs)

text \<open>
  A query whose every execution fails with ORA-01007: the first failure enters the
  recovery, the failure of the retry is the failure of the call; the protocol execute
  ran twice, the recovery once.
\<close>

lemma recovery_entries_example:
  "fst (dpiStmt__execute 0 0 True (machine0 stmt0 (env_exec_fail 1007))) = None \<and>
   recoveries (snd (dpiStmt__execute 0 0 True (machine0 stmt0 (env_exec_fail 1007)))) =
     [OciAttrGet DPI_OCI_ATTR_STATEMENT] \<and>
   protocol_executes (snd (dpiStmt__execute 0 0 True (machine0 stmt0 (env_exec_fail 1007)))) =
     [OciStmtExecute 0 8, OciStmtExecute 0 8] \<and>
   recoveries (snd (dpiStmt__execute 0 0 False (machine0 stmt0 (env_exec_fail 1007)))) = []"
  using recovery_entries
    [where numIters = 0 and mode = 0 and m = "machine0 stmt0 (env_exec_fail 1007)"
       and reExecute = True and mode' = 8 and r = None
       and ?m1.0 = "(machine0 stmt0 (env_exec_fail 1007))
           \<lparr>log := [(OciAttrSet DPI_OCI_ATTR_PREFETCH_ROWS 3, Ok 0)]\<rparr>"
       and ?m2.0 = "(machine0 stmt0 (env_exec_fail 1007))
        \<lparr>log := [(OciAttrSet DPI_OCI_ATTR_PREFETCH_ROWS 3, Ok 0),
                 (OciStmtExecute 0 8,
                  Fail \<lparr>eb_code = 1007, eb_offset = 0, eb_errorNum = DPI_ERR_OTHER 1,
                        eb_fnName = []\<rparr>)],
         errbuf := \<lparr>eb_code = 1007, eb_offset = 0, eb_errorNum = DPI_ERR_OTHER 1,
                     eb_fnName = []\<rparr>\<rparr>"]
    ex_stale_run
  by (simp add: ex_before ex_exec_call) (simp add: machine0_def recoveries_def)


section \<open>Batch errors (C6)\<close>

lemma batch_call [simp]: "batch (snd (call c m)) = batch m"
  by (simp add: call_def ext_def Let_def batch_def split: reply.splits)

lemma batch_callD: "call c m = (r, m') \<Longrightarrow> batch m' = batch m"
  using batch_call [of c m] by simp

lemma batch_allocD: "allocS c m = (r, m') \<Longrightarrow> batch m' = batch m"
  by (auto simp: allocS_def ext_def Let_def batch_def split: reply.splits)

lemma batch_upd_stmt [simp]:
  "batch (upd_stmt f m) = (numBatchErrors (f (stmt m)), batchErrors (f (stmt m)))"
  by (simp add: batch_def)

lemma batch_errorD: "dpiError__set e m = (r, m') \<Longrightarrow> batch m' = batch m"
  by (auto simp: dpiError__set_def batch_def)

lemma allocS_NoneE: "allocS c m = (None, m') \<Longrightarrow> P"
  by (auto simp: allocS_def ext_def Let_def split: reply.splits)

lemma getBatchErrors_failure_clears:
  assumes "batch m = (0, None)" and "dpiStmt__getBatchErrors m = (None, m')"
  shows "batch m' = (0, None)"
  using assms unfolding dpiStmt__getBatchErrors_def dpiStmt__clearBatchErrors_def
  by (auto elim!: bindS_E allocS_NoneE dest!: batch_callD batch_allocD batch_errorD
        simp: whenS_def split: if_splits)


lemma execute_before_clears:
  "dpiStmt__execute_before mode m = (Some mode', m1) \<Longrightarrow> batch m1 = (0, None)"
  unfolding dpiStmt__execute_before_def dpiStmt__clearBatchErrors_def
  by (auto elim!: bindS_E)

lemma execute_success_clears:
  assumes "dpiStmt__execute numIters mode False m = (Some (), m')"
  shows "batch m' = (0, None)"
proof (cases "dpiStmt__execute_before mode m")
  case (Pair a m1)
  show ?thesis
  proof (cases a)
    case None
    with Pair assms show ?thesis
      by (simp add: execute_before_fails)
  next
    case (Some mode')
    with Pair have b: "dpiStmt__execute_before mode m = (Some mode', m1)"
      by simp
    obtain r m2 where c: "call (OciStmtExecute numIters mode') m1 = (r, m2)"
      by (cases "call (OciStmtExecute numIters mode') m1") auto
    have m2: "batch m2 = (0, None)"
      using execute_before_clears [OF b] batch_callD [OF c] by simp
    from assms have "\<exists>u. r = Some u \<and> dpiStmt__execute_after m2 = (Some (), m')"
      by (cases r) (simp_all add: execute_after_before [OF b c])
    then have "dpiStmt__execute_after m2 = (Some (), m')"
      by blast
    from keepsD [OF inert_execute_after [OF inert_batch] this] m2 show ?thesis
      by simp
  qed
qed

lemma getBatchErrorCount_reads:
  "fst (dpiStmt_getBatchErrorCount True m) = None \<or>
   fst (dpiStmt_getBatchErrorCount True m) = Some (numBatchErrors (stmt m))"
proof (cases "dpiStmt__checkOpen m")
  case (Pair a m1)
  from keepsD [OF inert_checkOpen [OF inert_batch] Pair]
  have "numBatchErrors (stmt m1) = numBatchErrors (stmt m)"
    by (simp add: batch_def)
  with Pair show ?thesis
    by (cases a) (simp_all add: dpiStmt_getBatchErrorCount_def bindS_def
          DPI_CHECK_PTR_NOT_NULL_def)
qed

text \<open>
  In dpiStmt_executeMany with the batch error mode, when the execution itself succeeds
  and the collection of the batch errors fails (dpiStmt__getBatchErrors returns
  DPI_FAILURE), no batch error record is left: numBatchErrors is 0 and the array is
  gone, a later dpiStmt_getBatchErrorCount that succeeds reports 0, and
  dpiStmt_executeMany fails with the state, and so the error, that the collection left.
\<close>

lemma collection_failure_clears:
  assumes "dpiStmt__execute numIters mode False m1 = (Some (), m2)"
    and "dpiStmt__getBatchErrors m2 = (None, m3)"
  shows "numBatchErrors (stmt m3) = 0 \<and> batchErrors (stmt m3) = None \<and>
         (fst (dpiStmt_getBatchErrorCount True m3) = None \<or>
          fst (dpiStmt_getBatchErrorCount True m3) = Some 0) \<and>
         (dpiStmt__checkOpen m = (Some (), m0) \<and>
          statementType (stmt m0) \<noteq> DPI_STMT_TYPE_SELECT \<and>
          forS [0..<numBindVars (stmt m0)] (dpiStmt_executeMany_checkSize numIters) m0 =
            (Some (), m0') \<and>
          dpiStmt__clearBatchErrors m0' = (Some (), m1) \<and>
          mode AND DPI_MODE_EXEC_BATCH_ERRORS \<noteq> 0 \<longrightarrow>
            dpiStmt_executeMany mode numIters m = (None, m3))"
proof -
  have cleared: "batch m3 = (0, None)"
    by (rule getBatchErrors_failure_clears [OF execute_success_clears [OF assms(1)] assms(2)])
  then have zero: "numBatchErrors (stmt m3) = 0" "batchErrors (stmt m3) = None"
    by (simp_all add: batch_def)
  have surfaced: "dpiStmt_executeMany mode numIters m = (None, m3)"
    if "dpiStmt__checkOpen m = (Some (), m0)"
      "statementType (stmt m0) \<noteq> DPI_STMT_TYPE_SELECT"
      "forS [0..<numBindVars (stmt m0)] (dpiStmt_executeMany_checkSize numIters) m0 =
         (Some (), m0')"
      "dpiStmt__clearBatchErrors m0' = (Some (), m1)"
      "mode AND DPI_MODE_EXEC_BATCH_ERRORS \<noteq> 0"
    using that assms by (simp add: dpiStmt_executeMany_def bindS_def)
  from zero surfaced getBatchErrorCount_reads [of m3] show ?thesis
    by auto
qed


lemmas batch_eval_defs =
  dpiStmt_executeMany_def dpiStmt__getBatchErrors_def dpiStmt_getBatchErrorCount_def
  dpiStmt__execute.simps dpiStmt__execute_before_def dpiStmt__execute_after_def
  dpiStmt__checkOpen_def dpiStmt__clearBatchErrors_def DPI_CHECK_PTR_NOT_NULL_def
  numBindVars_def DPI_STMT_TYPE_SELECT_def DPI_MODE_EXEC_BATCH_ERRORS_def is_plsql_def
  bindS_def call_def callTo_def allocS_def ext_def dpiError__set_def upd_stmt_def
  upd_batchError_def machine0_def stmt0_def stmt_insert_def zeroErrorBuffer_def env_batch_def
  reply_value_def Let_def

lemma ex_many_open:
  "dpiStmt__checkOpen (machine0 stmt_insert env_batch) =
     (Some (), (machine0 stmt_insert env_batch)\<lparr>log := [(GenStartPublicFn, Ok 0)]\<rparr>)"
  by (simp add: batch_eval_defs)

lemma ex_many_execute:
  "dpiStmt__execute 5 0x80 False
     ((machine0 stmt_insert env_batch)\<lparr>log := [(GenStartPublicFn, Ok 0)]\<rparr>) =
     (Some (), (machine0 stmt_insert env_batch)
                 \<lparr>log := [(GenStartPublicFn, Ok 0), (OciStmtExecute 5 0x80, Ok 0)]\<rparr>)"
  by (simp add: batch_eval_defs)

lemma ex_many_collect:
  "dpiStmt__getBatchErrors
     ((machine0 stmt_insert env_batch)
        \<lparr>log := [(GenStartPublicFn, Ok 0), (OciStmtExecute 5 0x80, Ok 0)]\<rparr>) =
   (None, (machine0 stmt_insert env_batch)
        \<lparr>log := [(GenStartPublicFn, Ok 0), (OciStmtExecute 5 0x80, Ok 0),
                 (OciAttrGet DPI_OCI_ATTR_NUM_DML_ERRORS, Ok 1), (Calloc 1, Ok 0),
                 (OciHandleAlloc, Ok 0), (OciHandleAlloc, Ok 0),
                 (OciParamGet 0,
                  Fail \<lparr>eb_code = 24328, eb_offset = 0, eb_errorNum = DPI_ERR_OTHER 1,
                        eb_fnName = []\<rparr>),
                 (OciHandleFree, Ok 0), (OciHandleFree, Ok 0)],
         errbuf := \<lparr>eb_code = 24328, eb_offset = 0, eb_errorNum = DPI_ERR_INVALID_INDEX,
                     eb_fnName = []\<rparr>\<rparr>)"
  by (simp add: batch_eval_defs)

text \<open>
  A batch insert of five rows in batch error mode: the execution succeeds, one batch
  error is reported, and reading its error handle fails.  dpiStmt_executeMany fails
  with DPI_ERR_INVALID_INDEX, and the batch error count is 0 afterwards.
\<close>

lemma collection_failure_clears_example:
  "fst (dpiStmt_executeMany 0x80 5 (machine0 stmt_insert env_batch)) = None \<and>
   eb_errorNum (errbuf (snd (dpiStmt_executeMany 0x80 5 (machine0 stmt_insert env_batch)))) =
     DPI_ERR_INVALID_INDEX \<and>
   numBatchErrors (stmt (snd (dpiStmt_executeMany 0x80 5 (machine0 stmt_insert env_batch)))) = 0 \<and>
   fst (dpiStmt_getBatchErrorCount True
          (snd (dpiStmt_executeMany 0x80 5 (machine0 stmt_insert env_batch)))) = Some 0"
proof -
  have run: "dpiStmt_executeMany 0x80 5 (machine0 stmt_insert env_batch) =
      (None, (machine0 stmt_insert env_batch)
        \<lparr>log := [(GenStartPublicFn, Ok 0), (OciStmtExecute 5 0x80, Ok 0),
                 (OciAttrGet DPI_OCI_ATTR_NUM_DML_ERRORS, Ok 1), (Calloc 1, Ok 0),
                 (OciHandleAlloc, Ok 0), (OciHandleAlloc, Ok 0),
                 (OciParamGet 0,
                  Fail \<lparr>eb_code = 24328, eb_offset = 0, eb_errorNum = DPI_ERR_OTHER 1,
                        eb_fnName = []\<rparr>),
                 (OciHandleFree, Ok 0), (OciHandleFree, Ok 0)],
         errbuf := \<lparr>eb_code = 24328, eb_offset = 0, eb_errorNum = DPI_ERR_INVALID_INDEX,
                     eb_fnName = []\<rparr>\<rparr>)"
    using collection_failure_clears [OF ex_many_execute ex_many_collect,
        where m = "machine0 stmt_insert env_batch"
          and ?m0.0 = "(machine0 stmt_insert env_batch)\<lparr>log := [(GenStartPublicFn, Ok 0)]\<rparr>"
          and m0' = "(machine0 stmt_insert env_batch)\<lparr>log := [(GenStartPublicFn, Ok 0)]\<rparr>"]
      ex_many_open
    by (simp add: DPI_MODE_EXEC_BATCH_ERRORS_def DPI_STMT_TYPE_SELECT_def numBindVars_def
          dpiStmt__clearBatchErrors_def upd_stmt_def machine0_def stmt_insert_def stmt0_def)
  show ?thesis
    by (simp add: run) (simp add: batch_eval_defs)
qed

text \<open>
  The reads of the collection that can fail are seen by the loop: when the loop, and so
  dpiStmt__getBatchErrors, succeeds, no read of a per-iteration error handle and no read
  of a row offset has failed in it.
\<close>

lemma failed_reads_errbuf [simp]: "failed_reads (m\<lparr>errbuf := e\<rparr>) = failed_reads m"
  by (simp add: failed_reads_def)

lemma failed_reads_upd_stmt [simp]: "failed_reads (upd_stmt f m) = failed_reads m"
  by (simp add: failed_reads_def upd_stmt_def)

lemma failed_reads_call_ok: "call c m = (Some x, m') \<Longrightarrow> failed_reads m' = failed_reads m"
  by (auto simp: call_def ext_def Let_def failed_reads_def is_fail_def split: reply.splits)

lemma failed_reads_callTo_ok:
  "callTo t c m = (Some x, m') \<Longrightarrow> failed_reads m' = failed_reads m"
  by (auto simp: callTo_def ext_def Let_def failed_reads_def is_fail_def split: reply.splits)

lemma failed_reads_other:
  "\<not> is_collect_read c \<Longrightarrow> failed_reads (snd (ext c m)) = failed_reads m"
  by (simp add: ext_def Let_def failed_reads_def)

lemma failed_reads_call_other:
  "\<not> is_collect_read c \<Longrightarrow> failed_reads (snd (call c m)) = failed_reads m"
  by (auto simp: call_def ext_def Let_def failed_reads_def split: reply.splits)

lemma failed_reads_callTo_other:
  "\<not> is_collect_read c \<Longrightarrow> failed_reads (snd (callTo t c m)) = failed_reads m"
  by (auto simp: callTo_def ext_def Let_def failed_reads_def upd_stmt_def
        split: reply.splits option.splits)

lemma failed_reads_allocS: "failed_reads (snd (allocS (Calloc n) m)) = failed_reads m"
  by (auto simp: allocS_def ext_def Let_def failed_reads_def is_collect_read_def
        split: reply.splits)

lemma loop_success_reads:
  "dpiStmt__getBatchErrors_loop js t m = (Some (), m') \<Longrightarrow> failed_reads m' = failed_reads m"
proof (induction js arbitrary: t m)
  case Nil
  then show ?case by simp
next
  case (Cons i rest)
  obtain got m1 where g: "call (OciParamGet i) m = (got, m1)"
    by (cases "call (OciParamGet i) m") auto
  obtain off m2 where o: "callTo t (OciAttrGet DPI_OCI_ATTR_DML_ROW_OFFSET) m1 = (off, m2)"
    by (cases "callTo t (OciAttrGet DPI_OCI_ATTR_DML_ROW_OFFSET) m1") auto
  from Cons.prems g o obtain x y where
    got: "got = Some x" and off: "off = Some y" and
    rest: "dpiStmt__getBatchErrors_loop rest (Some i)
             (upd_stmt (upd_batchError i
                (\<lambda>b. b\<lparr>eb_fnName := eb_fnName (errbuf (snd (callTo (Some i) ErrorCheck m2))),
                       eb_offset := y mod 2 ^ 32\<rparr>))
                (snd (callTo (Some i) ErrorCheck m2))) = (Some (), m')"
    by (auto simp: bindS_def dpiError__set_def split: if_splits option.splits)
  have "failed_reads m' = failed_reads (snd (callTo (Some i) ErrorCheck m2))"
    using Cons.IH [OF rest] by simp
  also have "\<dots> = failed_reads m2"
    by (rule failed_reads_callTo_other) (simp add: is_collect_read_def)
  also have "\<dots> = failed_reads m1"
    using o off by (simp add: failed_reads_callTo_ok)
  also have "\<dots> = failed_reads m"
    using g got by (simp add: failed_reads_call_ok)
  finally show ?case .
qed

lemma loop_success_reads_snd:
  "fst (dpiStmt__getBatchErrors_loop js t m) \<noteq> None \<Longrightarrow>
   failed_reads (snd (dpiStmt__getBatchErrors_loop js t m)) = failed_reads m"
  by (cases "dpiStmt__getBatchErrors_loop js t m") (auto dest: loop_success_reads)

lemma failed_reads_callD:
  "call c m = (r, m') \<Longrightarrow> \<not> is_collect_read c \<Longrightarrow> failed_reads m' = failed_reads m"
  using failed_reads_call_other [of c m] by simp

lemma failed_reads_allocD: "allocS (Calloc n) m = (r, m') \<Longrightarrow> failed_reads m' = failed_reads m"
  using failed_reads_allocS [of n m] by simp

lemma getBatchErrors_success_reads:
  assumes "dpiStmt__getBatchErrors m = (Some (), m')"
  shows "failed_reads m' = failed_reads m"
proof -
  have other: "\<not> is_collect_read (OciAttrGet DPI_OCI_ATTR_NUM_DML_ERRORS)"
    "\<not> is_collect_read OciHandleAlloc" "\<not> is_collect_read OciHandleFree"
    by (simp_all add: is_collect_read_def)
  from assms show ?thesis
    unfolding dpiStmt__getBatchErrors_def dpiStmt__clearBatchErrors_def
    by (auto elim!: bindS_E dest!: failed_reads_callD [OF _ other(1)] failed_reads_allocD
          simp: dpiError__set_def failed_reads_call_other [OF other(2)]
            failed_reads_call_other [OF other(3)] loop_success_reads_snd
          split: if_splits)
qed

text \<open>
  A read of a per-iteration error handle or of a row offset that fails during the
  collection makes the collection fail, and no batch error record is left.
\<close>

lemma collection_read_failure_detected:
  assumes "batch m = (0, None)"
    and "failed_reads (snd (dpiStmt__getBatchErrors m)) \<noteq> failed_reads m"
  shows "fst (dpiStmt__getBatchErrors m) = None \<and>
         batch (snd (dpiStmt__getBatchErrors m)) = (0, None)"
proof (cases "dpiStmt__getBatchErrors m")
  case (Pair r m')
  show ?thesis
  proof (cases r)
    case None
    with Pair getBatchErrors_failure_clears [OF assms(1), of m'] show ?thesis
      by simp
  next
    case (Some u)
    with Pair assms(2) getBatchErrors_success_reads [of m m'] show ?thesis
      by simp
  qed
qed

lemmas render_eval_defs = batch_eval_defs env_render_fail_def

text \<open>
  Claim C6.  A batch insert of five rows is executed through dpiStmt_executeMany in
  batch error mode.  The execution succeeds and one batch error is reported; its error
  handle and its row offset (3) are read, and the rendering of its message fails:
  dpiError__check, which was given the local error structure whose buffer is slot 0 of
  the batch errors, leaves DPI_ERR_GET_FAILED there.  The test that follows (line 700)
  reads the error number of the buffer of the call, not of the slot, and that is still
  0.  So the loop goes on, dpiStmt__getBatchErrors and dpiStmt_executeMany succeed, the
  record is kept, and dpiStmt_getBatchErrorCount reports 1.
\<close>

theorem render_failure_kept:
  "fst (dpiStmt_executeMany 0x80 5 (machine0 stmt_insert env_render_fail)) = Some () \<and>
   numBatchErrors (stmt (snd (dpiStmt_executeMany 0x80 5 (machine0 stmt_insert env_render_fail))))
     = 1 \<and>
   batchErrors (stmt (snd (dpiStmt_executeMany 0x80 5 (machine0 stmt_insert env_render_fail))))
     = Some [\<lparr>eb_code = 0, eb_offset = 3, eb_errorNum = DPI_ERR_GET_FAILED, eb_fnName = []\<rparr>] \<and>
   eb_errorNum (errbuf (snd (dpiStmt_executeMany 0x80 5
     (machine0 stmt_insert env_render_fail)))) = DPI_ERR_NO_ERR \<and>
   fst (dpiStmt_getBatchErrorCount True
          (snd (dpiStmt_executeMany 0x80 5 (machine0 stmt_insert env_render_fail)))) = Some 1"
  by (simp add: render_eval_defs)

section \<open>The loops whose bound is read once\<close>

text \<open>
  The model evaluates the bound of a C for loop when the loop starts.  That is the C
  loop as long as the body leaves the bound alone, which can be read off every loop
  body but one: the loop of dpiStmt__reExecute calls dpiStmt__bind, which appends to the
  registry when it does not find the locator.  It always finds it there: the locator is
  that of an entry of the registry.
\<close>

lemma strncmp_differs_same: "n \<le> length xs \<Longrightarrow> \<not> strncmp_differs xs xs n"
proof (induction n arbitrary: xs)
  case 0
  then show ?case by simp
next
  case (Suc n)
  then obtain y ys where "xs = y # ys" by (cases xs) auto
  with Suc show ?case by simp
qed

lemma entry_matches_self:
  "locator_ok (bv_name e) (bv_nameLength e) \<Longrightarrow>
   entry_matches e (bv_pos e) (bv_name e) (bv_nameLength e)"
  by (cases "bv_name e")
     (simp_all add: entry_matches_def locator_ok_def strncmp_ne_def strncmp_differs_same)

lemma find_entry_exists:
  "e \<in> set es \<Longrightarrow> entry_matches e p nm len \<Longrightarrow> find_entry es p nm len \<noteq> None"
  by (induction es) auto

lemma entry_key_var [simp]: "entry_key (e\<lparr>bv_var := x\<rparr>) = entry_key e"
  by (simp add: entry_key_def)

lemma keys_set_entry_var [simp]:
  "map entry_key (xs[j := (xs ! j)\<lparr>bv_var := x\<rparr>]) = map entry_key xs"
proof (induction xs arbitrary: j)
  case Nil
  then show ?case by simp
next
  case (Cons e es)
  then show ?case by (cases j) simp_all
qed

lemma bind_found_keeps_keys:
  assumes "find_entry (bindVars (stmt m)) p nm len \<noteq> None"
  shows "registry_keys (snd (dpiStmt__bind v ar p nm len m)) = registry_keys m"
proof -
  from assms obtain j where j: "find_entry (bindVars (stmt m)) p nm len = Some j"
    by auto
  show ?thesis
  proof (cases "(p = 0 \<and> len = 0) \<or> bv_var (bindVars (stmt m) ! j) = Some v")
    case True
    then show ?thesis
      using j by (auto simp: dpiStmt__bind_def dpiError__set_def bindS_def registry_keys_def)
  next
    case False
    obtain r1 m1 where rel: "dpiStmt__bind_release j m = (r1, m1)"
      by (cases "dpiStmt__bind_release j m") auto
    obtain r2 m2 where perf: "dpiStmt__bind_perform j v ar p nm len m1 = (r2, m2)"
      by (cases "dpiStmt__bind_perform j v ar p nm len m1") auto
    have r1: "r1 = Some ()"
      using rel
      by (cases "bv_var (bindVars (stmt m) ! j)")
         (auto simp: dpiStmt__bind_release_def bindS_def dpiGen__setRefCount_def Let_def)
    have "dpiStmt__bind v ar p nm len m = (r2, m2)"
      using False j rel perf r1 by (auto simp: dpiStmt__bind_def bindS_def)
    moreover have "map entry_key (bindVars (stmt m2)) = map entry_key (bindVars (stmt m))"
      using bind_perform_stmt [OF perf] bind_release_stmt [OF rel] by auto
    ultimately show ?thesis
      by (simp add: registry_keys_def)
  qed
qed

lemma registry_keys_upd [simp]:
  "registry_keys (upd_stmt (set_entry_var i x) m) = registry_keys m"
  by (simp add: registry_keys_def)

lemma registry_keys_setRefCount [simp]:
  "registry_keys (snd (dpiGen__setRefCount p i m)) = registry_keys m"
  by (simp add: registry_keys_def dpiGen__setRefCount_def ext_def Let_def)

lemma rebind_keeps_keys:
  assumes "i < length (bindVars (stmt m))" and "keys_ok (registry_keys m)"
  shows "registry_keys (snd (dpiStmt__reExecute_rebind i m)) = registry_keys m"
proof (cases "bv_var (bindVars (stmt m) ! i)")
  case None
  then show ?thesis
    by (simp add: dpiStmt__reExecute_rebind_def bindS_def)
next
  case (Some v)
  let ?e = "bindVars (stmt m) ! i"
  let ?m1 = "upd_stmt (set_entry_var i None) m"
  have "locator_ok (bv_name ?e) (bv_nameLength ?e)"
    using assms
    by (auto simp: keys_ok_def registry_keys_def list_all_length entry_key_def)
  then have "entry_matches (?e\<lparr>bv_var := None\<rparr>) (bv_pos ?e) (bv_name ?e) (bv_nameLength ?e)"
    by (simp add: entry_matches_self)
  moreover have "?e\<lparr>bv_var := None\<rparr> \<in> set (bindVars (stmt ?m1))"
    using assms(1) by (simp add: set_update_memI)
  ultimately have "find_entry (bindVars (stmt ?m1)) (bv_pos ?e) (bv_name ?e) (bv_nameLength ?e)
      \<noteq> None"
    by (rule find_entry_exists [rotated])
  from bind_found_keeps_keys [OF this, of v False]
  have "registry_keys
          (snd (dpiStmt__bind v False (bv_pos ?e) (bv_name ?e) (bv_nameLength ?e) ?m1)) =
        registry_keys m"
    by simp
  moreover obtain r m2 where
    b: "dpiStmt__bind v False (bv_pos ?e) (bv_name ?e) (bv_nameLength ?e) ?m1 = (r, m2)"
    by (cases "dpiStmt__bind v False (bv_pos ?e) (bv_name ?e) (bv_nameLength ?e) ?m1") auto
  ultimately have m2: "registry_keys m2 = registry_keys m"
    by simp
  have "snd (dpiStmt__reExecute_rebind i m) =
          (case r of None \<Rightarrow> snd (dpiGen__setRefCount v (- 1) m2) | Some u \<Rightarrow> m2)"
    using Some b
    by (cases r)
       (auto simp: dpiStmt__reExecute_rebind_def bindS_def split: prod.splits option.splits)
  with m2 show ?thesis
    by (cases r) simp_all
qed

lemma rebind_loop_keeps_keys:
  assumes "\<forall>i \<in> set js. i < length (registry_keys m)" and "keys_ok (registry_keys m)"
  shows "registry_keys (snd (forS js dpiStmt__reExecute_rebind m)) = registry_keys m"
  using assms
proof (induction js arbitrary: m)
  case Nil
  then show ?case by simp
next
  case (Cons j js)
  obtain r m1 where step: "dpiStmt__reExecute_rebind j m = (r, m1)"
    by (cases "dpiStmt__reExecute_rebind j m") auto
  have keys: "registry_keys m1 = registry_keys m"
    using rebind_keeps_keys [of j m] Cons.prems step by (simp add: registry_keys_def)
  show ?case
  proof (cases r)
    case None
    with step keys show ?thesis by (simp add: bindS_def)
  next
    case (Some u)
    with step have "forS (j # js) dpiStmt__reExecute_rebind m = forS js dpiStmt__reExecute_rebind m1"
      by (simp add: bindS_def)
    with Cons.IH [of m1] Cons.prems keys show ?thesis by simp
  qed
qed

lemma reExecute_loop_bound:
  assumes "keys_ok (registry_keys m)"
  shows "numBindVars (stmt (snd (forS [0..<numBindVars (stmt m)] dpiStmt__reExecute_rebind m))) =
           numBindVars (stmt m)"
proof -
  have "registry_keys (snd (forS [0..<numBindVars (stmt m)] dpiStmt__reExecute_rebind m)) =
          registry_keys m"
    using assms by (intro rebind_loop_keeps_keys) (simp_all add: numBindVars_def registry_keys_def)
  then have "length (registry_keys (snd (forS [0..<numBindVars (stmt m)]
      dpiStmt__reExecute_rebind m))) = length (registry_keys m)"
    by simp
  then show ?thesis
    by (simp add: numBindVars_def registry_keys_def)
qed


text \<open>The registry has that form: it starts empty and dpiStmt__bind keeps the form.\<close>

lemma bind_add_keys:
  assumes "dpiStmt__bind_add p nm len m = (r, m')" and "locator_ok nm len"
    and "keys_ok (registry_keys m)"
  shows "keys_ok (registry_keys m')"
proof (cases nm)
  case None
  with assms show ?thesis
    unfolding dpiStmt__bind_add_def numBindVars_def
    by (auto elim!: bindS_E dest!: allocS_stmt batch_errorD
          simp: whenS_def locator_ok_def keys_ok_def registry_keys_def entry_key_def
            dpiError__set_def split: if_splits)
next
  case (Some bytes)
  with assms show ?thesis
    unfolding dpiStmt__bind_add_def numBindVars_def
    by (auto elim!: bindS_E dest!: allocS_stmt
          simp: whenS_def locator_ok_def keys_ok_def registry_keys_def entry_key_def
            dpiError__set_def split: if_splits)
qed

lemma bind_keeps_registry_form:
  assumes "locator_ok nm len" and "keys_ok (registry_keys m)"
  shows "keys_ok (registry_keys (snd (dpiStmt__bind v ar p nm len m)))"
proof (cases "find_entry (bindVars (stmt m)) p nm len")
  case (Some j)
  then show ?thesis
    using bind_found_keeps_keys [of m p nm len v ar] assms(2) by simp
next
  case None
  show ?thesis
  proof (cases "p = 0 \<and> len = 0")
    case True
    then show ?thesis
      using assms(2) by (simp add: dpiStmt__bind_def dpiError__set_def registry_keys_def)
  next
    case False
    obtain r1 m1 where add: "dpiStmt__bind_add p nm len m = (r1, m1)"
      by (cases "dpiStmt__bind_add p nm len m") auto
    note m1 = bind_add_keys [OF add assms]
    show ?thesis
    proof (cases r1)
      case None
      with False \<open>find_entry (bindVars (stmt m)) p nm len = None\<close> add m1 show ?thesis
        by (auto simp: dpiStmt__bind_def bindS_def)
    next
      case (Some i)
      obtain r2 m2 where perf: "dpiStmt__bind_perform i v ar p nm len m1 = (r2, m2)"
        by (cases "dpiStmt__bind_perform i v ar p nm len m1") auto
      have "registry_keys m2 = registry_keys m1"
        using bind_perform_stmt [OF perf] by (auto simp: registry_keys_def)
      moreover have "dpiStmt__bind v ar p nm len m = (r2, m2)"
        using False \<open>find_entry (bindVars (stmt m)) p nm len = None\<close> add Some perf
        by (auto simp: dpiStmt__bind_def bindS_def)
      ultimately show ?thesis
        using m1 by simp
    qed
  qed
qed

end
